(* ===== verification/Prelude.thy ===== *)
theory Prelude
  imports Main "HOL-Library.Char_ord" "HOL-Library.List_Lexorder"
begin

text \<open>
  Shared vocabulary of the development: the Python builtins that
  \<^verbatim>\<open>src/src/sdmpm.py\<close> relies on, written as executable HOL functions on
  \<open>string\<close> (a Python \<open>str\<close> whose code points are below 256, one \<open>char\<close> each),
  and the generic lemmas about them that the component theories share.
  \<^item> \<open>py_isspace\<close>, \<open>py_strip\<close>: \<^verbatim>\<open>str.isspace\<close> and \<^verbatim>\<open>str.strip()\<close>;
  \<^item> \<open>py_split\<close>, \<open>py_split_ws\<close>, \<open>py_splitlines\<close>: \<^verbatim>\<open>str.split(c)\<close> for a
    one-character separator, \<^verbatim>\<open>str.split()\<close> and \<^verbatim>\<open>str.splitlines()\<close>;
  \<^item> \<open>py_startswith\<close>, \<open>py_join\<close>: \<^verbatim>\<open>str.startswith\<close>, \<^verbatim>\<open>str.join\<close>;
  \<^item> \<open>py_int\<close>, \<open>py_str_int\<close>: \<^verbatim>\<open>int(s)\<close> (\<open>None\<close> is the \<^verbatim>\<open>ValueError\<close>) and
    \<^verbatim>\<open>str(i)\<close>, with the round trip \<open>py_int (py_str_int i) = Some i\<close>;
  \<^item> \<open>mapE\<close>: a comprehension whose element expression may raise; the first
    exception in iteration order wins.
  Python's \<^verbatim>\<open>sorted\<close> on strings is HOL's \<open>sort\<close> under the lexicographic order
  of \<open>HOL-Library.List_Lexorder\<close> over the code-point order of \<open>HOL-Library.Char_ord\<close>.
\<close>

named_theorems py_simps "evaluation rules of the modelled Python builtins"

section \<open>Characters\<close>

definition py_isspace :: "char \<Rightarrow> bool" where
  "py_isspace c \<longleftrightarrow>
     (let n = (of_char c :: nat) in (9 \<le> n \<and> n \<le> 13) \<or> (28 \<le> n \<and> n \<le> 32) \<or> n = 133 \<or> n = 160)"

definition is_line_break :: "char \<Rightarrow> bool" where
  "is_line_break c \<longleftrightarrow>
     (let n = (of_char c :: nat) in (10 \<le> n \<and> n \<le> 13) \<or> (28 \<le> n \<and> n \<le> 30) \<or> n = 133)"

definition is_digit :: "char \<Rightarrow> bool" where
  "is_digit c \<longleftrightarrow> (48::nat) \<le> of_char c \<and> of_char c \<le> (57::nat)"

definition digit_val :: "char \<Rightarrow> nat" where
  "digit_val c = of_char c - 48"

definition digit_char :: "nat \<Rightarrow> char" where
  "digit_char d = char_of (48 + d)"

section \<open>String methods\<close>

definition py_strip :: "string \<Rightarrow> string" where
  "py_strip s = rev (dropWhile py_isspace (rev (dropWhile py_isspace s)))"

fun py_split_on :: "(char \<Rightarrow> bool) \<Rightarrow> string \<Rightarrow> string list" where
  "py_split_on p [] = [[]]"
| "py_split_on p (c # cs) =
     (if p c then [] # py_split_on p cs
      else (case py_split_on p cs of w # ws \<Rightarrow> (c # w) # ws | [] \<Rightarrow> [[c]]))"

definition py_split :: "char \<Rightarrow> string \<Rightarrow> string list" where
  "py_split sep s = py_split_on (\<lambda>c. c = sep) s"

definition py_split_ws :: "string \<Rightarrow> string list" where
  "py_split_ws s = filter (\<lambda>w. w \<noteq> []) (py_split_on py_isspace s)"

fun splitlines_from :: "string \<Rightarrow> string \<Rightarrow> string list" where
  "splitlines_from cur [] = (if cur = [] then [] else [rev cur])"
| "splitlines_from cur [c] = (if is_line_break c then [rev cur] else [rev (c # cur)])"
| "splitlines_from cur (c # d # cs) =
     (if c = CHR 0x0D \<and> d = CHR 0x0A then rev cur # splitlines_from [] cs
      else if is_line_break c then rev cur # splitlines_from [] (d # cs)
      else splitlines_from (c # cur) (d # cs))"

definition py_splitlines :: "string \<Rightarrow> string list" where
  "py_splitlines s = splitlines_from [] s"

definition py_startswith :: "string \<Rightarrow> string \<Rightarrow> bool" where
  "py_startswith s p \<longleftrightarrow> take (length p) s = p"

fun py_join :: "string \<Rightarrow> string list \<Rightarrow> string" where
  "py_join sep [] = []"
| "py_join sep [x] = x"
| "py_join sep (x # y # ys) = x @ sep @ py_join sep (y # ys)"

section \<open>Integers and their decimal strings\<close>

fun nat_str :: "nat \<Rightarrow> string" where
  "nat_str n = (if n < 10 then [digit_char n] else nat_str (n div 10) @ [digit_char (n mod 10)])"

declare nat_str.simps [simp del]

definition py_str_int :: "int \<Rightarrow> string" where
  "py_str_int i = (if i < 0 then CHR ''-'' # nat_str (nat (- i)) else nat_str (nat i))"

definition digits_value :: "string \<Rightarrow> nat" where
  "digits_value ds = foldl (\<lambda>n c. 10 * n + digit_val c) 0 ds"

text \<open>\<^verbatim>\<open>int()\<close> accepts digit groups separated by single underscores.\<close>

definition digit_groups :: "string \<Rightarrow> bool" where
  "digit_groups s \<longleftrightarrow> list_all (\<lambda>w. w \<noteq> [] \<and> list_all is_digit w) (py_split (CHR ''_'') s)"

definition parse_unsigned :: "string \<Rightarrow> nat option" where
  "parse_unsigned t = (if digit_groups t then Some (digits_value (filter is_digit t)) else None)"

definition py_int :: "string \<Rightarrow> int option" where
  "py_int s =
     (let t = py_strip s in
      case t of
        [] \<Rightarrow> None
      | c # r \<Rightarrow>
          (if c = CHR ''-'' then map_option (\<lambda>n. - int n) (parse_unsigned r)
           else if c = CHR ''+'' then map_option int (parse_unsigned r)
           else map_option int (parse_unsigned t)))"

section \<open>Comprehensions whose element may raise\<close>

fun mapE :: "('a \<Rightarrow> 'e + 'b) \<Rightarrow> 'a list \<Rightarrow> 'e + 'b list" where
  "mapE f [] = Inr []"
| "mapE f (x # xs) =
     (case f x of
        Inl e \<Rightarrow> Inl e
      | Inr y \<Rightarrow> (case mapE f xs of Inl e \<Rightarrow> Inl e | Inr ys \<Rightarrow> Inr (y # ys)))"

section \<open>Lemmas on the builtins\<close>


lemma mapE_Inr_iff: "mapE f xs = Inr ys \<longleftrightarrow> list_all2 (\<lambda>x y. f x = Inr y) xs ys"
proof (induction xs arbitrary: ys)
  case Nil
  then show ?case by auto
next
  case (Cons x xs)
  then show ?case
    by (cases ys) (auto split: sum.splits simp flip: Cons.IH)
qed

lemma mapE_map: "(\<And>x. x \<in> set xs \<Longrightarrow> f x = Inr (g x)) \<Longrightarrow> mapE f xs = Inr (map g xs)"
  by (induction xs) auto

lemma mapE_map_comp:
  "(\<And>x. x \<in> set xs \<Longrightarrow> f (h x) = Inr (g x)) \<Longrightarrow> mapE f (map h xs) = Inr (map g xs)"
  by (induction xs) auto

lemma mapE_Inl: "mapE f xs = Inl e \<Longrightarrow> \<exists>x\<in>set xs. f x = Inl e"
  by (induction xs) (auto split: sum.splits)

lemma py_split_on_nonempty: "py_split_on p s \<noteq> []"
  by (induction s) (auto split: list.splits)

lemma py_split_on_no_sep: "(\<forall>c\<in>set s. \<not> p c) \<Longrightarrow> py_split_on p s = [s]"
  by (induction s) auto

lemma py_split_on_sep: "(\<forall>c\<in>set a. \<not> p c) \<Longrightarrow> p x \<Longrightarrow> py_split_on p (a @ x # b) = a # py_split_on p b"
  by (induction a) auto

lemma py_join_cons_hd: "py_join sep ((a # w) # ws) = a # py_join sep (w # ws)"
  by (cases ws) auto

lemma py_split_join: "py_join [c] (py_split c s) = s"
proof (induction s)
  case Nil
  then show ?case by (simp add: py_split_def)
next
  case (Cons a s)
  then show ?case
    by (cases "py_split c s")
       (auto simp: py_split_def py_join_cons_hd split: list.splits)
qed

lemma digit_char_digit: "d < 10 \<Longrightarrow> is_digit (digit_char d) \<and> digit_val (digit_char d) = d"
  by (simp add: digit_char_def is_digit_def digit_val_def)

lemma digit_char_not_space: "d < 10 \<Longrightarrow> \<not> py_isspace (digit_char d)"
  by (simp add: digit_char_def py_isspace_def Let_def)

lemma nat_str_nonempty: "nat_str n \<noteq> []"
  by (subst nat_str.simps) simp

lemma nat_str_chars: "set (nat_str n) \<subseteq> digit_char ` {..<10}"
proof (induction n rule: nat_str.induct)
  case (1 n)
  then show ?case by (subst nat_str.simps) auto
qed

lemma nat_str_digits: "list_all is_digit (nat_str n)"
  using nat_str_chars [of n] by (auto simp: list_all_iff digit_char_digit)

lemma digits_value_snoc: "digits_value (xs @ [c]) = 10 * digits_value xs + digit_val c"
  by (simp add: digits_value_def)

lemma digits_value_nat_str: "digits_value (nat_str n) = n"
proof (induction n rule: nat_str.induct)
  case (1 n)
  show ?case
  proof (cases "n < 10")
    case True
    then show ?thesis
      by (simp add: nat_str.simps [of n] digits_value_def digit_char_digit)
  next
    case False
    then have "digits_value (nat_str n) = 10 * (n div 10) + n mod 10"
      using "1.IH" by (simp add: nat_str.simps [of n] digits_value_snoc digit_char_digit)
    then show ?thesis by simp
  qed
qed

lemma digit_not_underscore: "is_digit c \<Longrightarrow> c \<noteq> CHR ''_''"
  by (auto simp: is_digit_def)

lemma digit_groups_digits: "s \<noteq> [] \<Longrightarrow> list_all is_digit s \<Longrightarrow> digit_groups s"
  by (simp add: digit_groups_def py_split_def list_all_iff py_split_on_no_sep
      digit_not_underscore)

lemma parse_unsigned_nat_str: "parse_unsigned (nat_str n) = Some n"
  using nat_str_nonempty nat_str_digits
  by (simp add: parse_unsigned_def digit_groups_digits list_all_iff digits_value_nat_str
      filter_id_conv)

lemma dropWhile_none: "\<forall>c\<in>set xs. \<not> P c \<Longrightarrow> dropWhile P xs = xs"
  by (induction xs) auto

lemma py_strip_id: "\<forall>c\<in>set s. \<not> py_isspace c \<Longrightarrow> py_strip s = s"
  by (simp add: py_strip_def dropWhile_none)

lemma nat_str_no_space: "\<forall>c\<in>set (nat_str n). \<not> py_isspace c"
  using nat_str_chars [of n] by (auto simp: digit_char_not_space)

lemma digit_char_not_sign: "d < 10 \<Longrightarrow> digit_char d \<noteq> CHR ''-'' \<and> digit_char d \<noteq> CHR ''+''"
proof -
  assume "d < 10"
  then have "of_char (digit_char d) = (48 + d :: nat)"
    by (simp add: digit_char_def)
  then show ?thesis by auto
qed

lemma nat_str_hd: "hd (nat_str n) \<noteq> CHR ''-'' \<and> hd (nat_str n) \<noteq> CHR ''+''"
proof -
  have "hd (nat_str n) \<in> digit_char ` {..<10}"
    using nat_str_chars [of n] nat_str_nonempty [of n] by auto
  then show ?thesis by (auto dest: digit_char_not_sign)
qed

lemma py_int_str_roundtrip: "py_int (py_str_int i) = Some i"
proof (cases "i < 0")
  case True
  have "py_strip (CHR ''-'' # nat_str (nat (- i))) = CHR ''-'' # nat_str (nat (- i))"
    using nat_str_no_space by (intro py_strip_id) (auto simp: py_isspace_def)
  with True show ?thesis
    by (simp add: py_int_def py_str_int_def parse_unsigned_nat_str)
next
  case False
  obtain c r where cr: "nat_str (nat i) = c # r"
    by (cases "nat_str (nat i)") (auto simp: nat_str_nonempty)
  with nat_str_hd [of "nat i"] have "c \<noteq> CHR ''-'' \<and> c \<noteq> CHR ''+''" by simp
  moreover have "py_strip (c # r) = c # r"
    using nat_str_no_space [of "nat i"] cr by (simp add: py_strip_id)
  ultimately show ?thesis
    using False cr parse_unsigned_nat_str [of "nat i"]
    by (simp add: py_int_def py_str_int_def)
qed

section \<open>Lemmas on the characters of rendered numbers and on splitting\<close>


lemma digit_char_code: "d < 10 \<Longrightarrow> of_char (digit_char d) = (48 + d :: nat)"
  by (simp add: digit_char_def)

lemma nat_str_codes: "c \<in> set (nat_str n) \<Longrightarrow> 48 \<le> (of_char c :: nat) \<and> of_char c \<le> (57::nat)"
proof -
  assume "c \<in> set (nat_str n)"
  then obtain d where "d < 10" "c = digit_char d" using nat_str_chars by blast
  then show ?thesis using digit_char_code by simp
qed

lemma py_str_int_codes:
  "c \<in> set (py_str_int k) \<Longrightarrow> of_char c = (45::nat) \<or> (48 \<le> (of_char c :: nat) \<and> of_char c \<le> (57::nat))"
  by (auto simp: py_str_int_def split: if_splits dest: nat_str_codes)

lemma py_str_int_no_at_dot: "c \<in> set (py_str_int k) \<Longrightarrow> c \<noteq> CHR ''@'' \<and> c \<noteq> CHR ''.''"
  by (drule py_str_int_codes) auto

lemma py_split_no_sep: "c \<notin> set s \<Longrightarrow> py_split c s = [s]"
  unfolding py_split_def by (rule py_split_on_no_sep) auto

lemma py_split_sep: "c \<notin> set a \<Longrightarrow> py_split c (a @ c # b) = a # py_split c b"
  unfolding py_split_def by (rule py_split_on_sep) auto

lemma py_split_two: "c \<notin> set a \<Longrightarrow> c \<notin> set b \<Longrightarrow> py_split c (a @ c # b) = [a, b]"
  by (simp add: py_split_sep py_split_no_sep)

lemma py_split_hd: "c \<notin> set a \<Longrightarrow> rest = [] \<or> hd rest = c \<Longrightarrow> \<exists>ws. py_split c (a @ rest) = a # ws"
  by (cases rest) (auto simp: py_split_no_sep py_split_sep)

lemmas py_int_str [simp, py_simps] = py_int_str_roundtrip

section \<open>Lemmas on listings and line splitting\<close>

lemma splitlines_from_line:
  "\<forall>c\<in>set x. \<not> is_line_break c \<Longrightarrow>
   splitlines_from cur (x @ CHR 0x0A # rest) = (rev cur @ x) # splitlines_from [] rest"
proof (induction x arbitrary: cur)
  case Nil
  show ?case by (cases rest) (simp_all add: is_line_break_def)
next
  case (Cons a x)
  then have na: "\<not> is_line_break a" and "a \<noteq> CHR 0x0D" by (auto simp: is_line_break_def)
  obtain d ds where "x @ CHR 0x0A # rest = d # ds" by (cases x) auto
  then show ?case using Cons na \<open>a \<noteq> CHR 0x0D\<close> by simp
qed

lemma py_splitlines_lines:
  "\<forall>x\<in>set xs. \<forall>c\<in>set x. \<not> is_line_break c \<Longrightarrow>
   py_splitlines (concat (map (\<lambda>x. x @ [CHR 0x0A]) xs)) = xs"
proof (induction xs)
  case Nil
  then show ?case by (simp add: py_splitlines_def)
next
  case (Cons x xs)
  then show ?case
    using splitlines_from_line [of x "[]" "concat (map (\<lambda>x. x @ [CHR 0x0A]) xs)"]
    by (simp add: py_splitlines_def)
qed

lemma filter_sorted_list_of_set:
  "finite A \<Longrightarrow> filter P (sorted_list_of_set A) = sorted_list_of_set {x \<in> A. P x}"
  by (rule sorted_distinct_set_unique) (auto simp: sorted_wrt_filter)

lemma line_break_space: "is_line_break c \<Longrightarrow> py_isspace c"
  by (auto simp: is_line_break_def py_isspace_def Let_def)

lemma dropWhile_all: "(\<forall>x\<in>set (dropWhile P s). P x) \<longleftrightarrow> dropWhile P s = []"
proof (cases "dropWhile P s")
  case Nil
  then show ?thesis by (auto dest: set_dropWhileD)
next
  case (Cons a l)
  then have "\<not> P a" by (simp add: dropWhile_eq_Cons_conv)
  with Cons show ?thesis by auto
qed

lemma py_strip_Nil_iff: "py_strip s = [] \<longleftrightarrow> (\<forall>c\<in>set s. py_isspace c)"
proof -
  have "py_strip s = [] \<longleftrightarrow> (\<forall>x\<in>set (dropWhile py_isspace s). py_isspace x)"
    by (simp add: py_strip_def dropWhile_eq_Nil_conv)
  also have "\<dots> \<longleftrightarrow> dropWhile py_isspace s = []" by (rule dropWhile_all)
  finally show ?thesis by (simp add: dropWhile_eq_Nil_conv)
qed

lemma nat_str_last: "is_digit (last (nat_str n))"
proof (cases "n < 10")
  case True
  then show ?thesis by (simp add: nat_str.simps [of n] digit_char_digit)
next
  case False
  then show ?thesis by (simp add: nat_str.simps [of n] digit_char_digit)
qed

lemma py_str_int_last: "is_digit (last (py_str_int k))"
  using nat_str_last nat_str_nonempty by (simp add: py_str_int_def)

lemma py_str_int_no_space: "c \<in> set (py_str_int k) \<Longrightarrow> \<not> py_isspace c"
  by (drule py_str_int_codes) (auto simp: py_isspace_def Let_def)

end
