(* ===== verification/Systemctl.thy ===== *)
theory Systemctl
  imports Prelude
begin

text \<open>
  The process layer of \<^verbatim>\<open>src/src/sdmpm.py\<close>: the two exception classes
  (\<^verbatim>\<open>UserError\<close>, \<^verbatim>\<open>SystemctlException\<close>, lines 28-38), the other Python
  exceptions the script and its tests can raise, and the wrapper \<^verbatim>\<open>systemctl()\<close> (lines 41-55)
  through which every call to the service manager goes.

  The operating system is an interface \<open>'w proc_env\<close> over an abstract world
  \<open>'w\<close>: \<open>run_proc\<close> is \<^verbatim>\<open>Popen(argv).communicate()\<close> (exit status, the text the
  child wrote to stdout and to stderr, the new world), \<open>list_dir\<close> is
  \<^verbatim>\<open>os.listdir\<close> (\<open>None\<close>: the directory does not exist) and \<open>home\<close> is what
  \<^verbatim>\<open>os.path.expanduser\<close> puts for \<^verbatim>\<open>~\<close>. The script's state \<open>'w pstate\<close> is that
  world, the text written to the terminal, and the trace of argument vectors
  handed to \<^verbatim>\<open>Popen\<close>. A statement of the script is a function
  \<open>('w, 'a) py\<close> from the state to a result (an exception \<open>Inl\<close>, or a value
  \<open>Inr\<close>) and the new state; \<open>bindE\<close> sequences two statements and propagates
  an exception, as Python does.
\<close>

section \<open>Exceptions\<close>

datatype error =
    UserError string
  | SystemctlException int "string list" string
  | ValueError string
  | IndexError
  | AttributeError string
  | FileNotFoundError string
  | SystemExit int
  | AssertionError
  | CalledProcessError int

section \<open>The operating system and the script's state\<close>

record 'w proc_env =
  run_proc :: "string list \<Rightarrow> 'w \<Rightarrow> (int \<times> string \<times> string) \<times> 'w"
  list_dir :: "string \<Rightarrow> 'w \<Rightarrow> string list option"
  home :: string

record 'w pstate =
  world :: 'w
  out :: "string list"
  calls :: "string list list"

type_synonym ('w, 'a) py = "'w pstate \<Rightarrow> (error + 'a) \<times> 'w pstate"

definition returnE :: "'a \<Rightarrow> ('w, 'a) py" where
  "returnE a s = (Inr a, s)"

definition raiseE :: "error \<Rightarrow> ('w, 'a) py" where
  "raiseE e s = (Inl e, s)"

definition liftE :: "error + 'a \<Rightarrow> ('w, 'a) py" where
  "liftE r s = (r, s)"

definition bindE :: "('w, 'a) py \<Rightarrow> ('a \<Rightarrow> ('w, 'b) py) \<Rightarrow> ('w, 'b) py" where
  "bindE m f s = (case m s of (Inl e, s') \<Rightarrow> (Inl e, s') | (Inr a, s') \<Rightarrow> f a s')"

definition write_term :: "string \<Rightarrow> 'w pstate \<Rightarrow> 'w pstate" where
  "write_term t s = (if t = [] then s else s\<lparr>out := out s @ [t]\<rparr>)"

definition py_print :: "string \<Rightarrow> ('w, unit) py" where
  "py_print l s = (Inr (), s\<lparr>out := out s @ [l]\<rparr>)"

text \<open>Using a value that may be \<^verbatim>\<open>None\<close> as a string raises \<^verbatim>\<open>AttributeError\<close>.\<close>

definition py_value :: "string option \<Rightarrow> ('w, string) py" where
  "py_value v = (case v of None \<Rightarrow> raiseE (AttributeError ''NoneType'') | Some t \<Rightarrow> returnE t)"

section \<open>The systemctl wrapper\<close>

text \<open>
  \<^verbatim>\<open>SystemctlException.__init__\<close> ends with \<^verbatim>\<open>self.stderr = stderr.strip()\<close>:
  when \<open>stderr\<close> is \<^verbatim>\<open>None\<close> the constructor itself raises \<^verbatim>\<open>AttributeError\<close>,
  and that is what the \<^verbatim>\<open>raise\<close> statement raises.
\<close>

definition systemctl_exception :: "int \<Rightarrow> string list \<Rightarrow> string option \<Rightarrow> error" where
  "systemctl_exception retcode cmd stderr =
     (case stderr of
        None \<Rightarrow> AttributeError ''NoneType''
      | Some e \<Rightarrow> SystemctlException retcode cmd (py_strip e))"

text \<open>
  \<^verbatim>\<open>communicate()\<close> returns a stream's text only when the stream was opened
  with \<^verbatim>\<open>PIPE\<close>; otherwise the child writes it to the terminal and Python gets
  \<^verbatim>\<open>None\<close>.
\<close>

definition communicate :: "bool \<Rightarrow> bool \<Rightarrow> string \<times> string \<Rightarrow> string option \<times> string option" where
  "communicate pipe_out pipe_err r =
     ((if pipe_out then Some (fst r) else None), (if pipe_err then Some (snd r) else None))"

definition systemctl_cmd :: "bool \<Rightarrow> string list" where
  "systemctl_cmd user =
     [''systemctl'', ''--no-legend'', ''--no-pager''] @ (if user then [''--user''] else [])"

definition systemctl :: "'w proc_env \<Rightarrow> string list \<Rightarrow> bool \<Rightarrow> bool \<Rightarrow> ('w, string option) py" where
  "systemctl E args user capture_output s =
     (let argv = systemctl_cmd user @ args;
          ((rc, so, se), w) = run_proc E argv (world s);
          (stdout, stderr) = communicate capture_output False (so, se);
          s' = write_term se (write_term (if capture_output then [] else so)
                 (s\<lparr>world := w, calls := calls s @ [argv]\<rparr>))
      in if rc \<noteq> 0 then (Inl (systemctl_exception rc argv stderr), s')
         else if capture_output then (Inr stdout, s')
         else (Inr None, s'))"

text \<open>
  The exceptions a statement of the script can end in when no \<^verbatim>\<open>SystemctlException\<close> is ever
  raised and \<^verbatim>\<open>sys.exit\<close> is only called with 1.
\<close>

fun ok_exc :: "error \<Rightarrow> bool" where
  "ok_exc (SystemctlException _ _ _) = False"
| "ok_exc (SystemExit n) = (n = 1)"
| "ok_exc _ = True"

definition sc_free :: "('w, 'a) py \<Rightarrow> bool" where
  "sc_free m \<longleftrightarrow> (\<forall>s. case fst (m s) of Inl e \<Rightarrow> ok_exc e | Inr _ \<Rightarrow> True)"

text \<open>A statement keeps a property of the world when it holds again after every run that starts from it.\<close>

definition keeps :: "('w \<Rightarrow> bool) \<Rightarrow> ('w, 'a) py \<Rightarrow> bool" where
  "keeps P m \<longleftrightarrow> (\<forall>s. P (world s) \<longrightarrow> P (world (snd (m s))))"

definition env_keeps :: "('w \<Rightarrow> bool) \<Rightarrow> 'w proc_env \<Rightarrow> bool" where
  "env_keeps P E \<longleftrightarrow> (\<forall>argv w. P w \<longrightarrow> P (snd (run_proc E argv w)))"

text \<open>The same, only for the \<^verbatim>\<open>systemctl\<close> commands of one scope (\<open>user\<close> for \<^verbatim>\<open>--user\<close>).\<close>

definition env_keeps_as :: "bool \<Rightarrow> ('w \<Rightarrow> bool) \<Rightarrow> 'w proc_env \<Rightarrow> bool" where
  "env_keeps_as user P E \<longleftrightarrow> (\<forall>args w. P w \<longrightarrow> P (snd (run_proc E (systemctl_cmd user @ args) w)))"

section \<open>Lemmas: the statement combinators\<close>

named_theorems py_run "how a statement of the script runs from a given state"

lemma bindE_returnE [simp]: "bindE (returnE a) f = f a"
  by (simp add: bindE_def returnE_def fun_eq_iff)

lemma bindE_raiseE [simp]: "bindE (raiseE e) f = raiseE e"
  by (simp add: bindE_def raiseE_def fun_eq_iff)

lemma bindE_liftE [simp]:
  "bindE (liftE (Inl e)) f = raiseE e"
  "bindE (liftE (Inr a)) f = f a"
  by (simp_all add: bindE_def liftE_def raiseE_def fun_eq_iff)

lemma bindE_Inr [py_run]: "m s = (Inr a, s') \<Longrightarrow> bindE m f s = f a s'"
  by (simp add: bindE_def)

lemma bindE_Inl [py_run]: "m s = (Inl e, s') \<Longrightarrow> bindE m f s = (Inl e, s')"
  by (simp add: bindE_def)

lemma bindE_assoc: "bindE (bindE m f) g = bindE m (\<lambda>a. bindE (f a) g)"
  by (simp add: bindE_def fun_eq_iff split: prod.splits sum.splits)

lemma py_value_Some [simp]: "py_value (Some t) = returnE t"
  by (simp add: py_value_def)

lemma run_simps [simp]:
  "returnE a s = (Inr a, s)"
  "raiseE e s = (Inl e, s)"
  "liftE r s = (r, s)"
  by (simp_all add: returnE_def raiseE_def liftE_def)

lemma write_term_calls [simp]: "calls (write_term t s) = calls s"
  and write_term_world [simp]: "world (write_term t s) = world s"
  by (simp_all add: write_term_def)

lemma write_term_Nil [simp]: "write_term [] s = s"
  by (simp add: write_term_def)

lemma py_print_state [simp]: "py_print l s = (Inr (), s\<lparr>out := out s @ [l]\<rparr>)"
  by (simp add: py_print_def)

lemma bindE_const_returnE:
  "bindE m (\<lambda>_. returnE ()) s = map_prod (map_sum id (\<lambda>_. ())) id (m s)"
  by (simp add: bindE_def split: prod.splits sum.splits)

section \<open>Lemmas: systemctl\<close>

lemma systemctl_run [py_run]:
  assumes "run_proc E (systemctl_cmd user @ args) (world s) = ((rc, so, se), w)"
  shows "systemctl E args user cap s =
    ((if rc \<noteq> 0 then Inl (AttributeError ''NoneType'')
      else Inr (if cap then Some so else None)),
     write_term se (write_term (if cap then [] else so)
       (s\<lparr>world := w, calls := calls s @ [systemctl_cmd user @ args]\<rparr>)))"
  using assms
  by (simp add: systemctl_def communicate_def systemctl_exception_def Let_def)

lemma systemctl_calls [simp]:
  "calls (snd (systemctl E args user cap s)) = calls s @ [systemctl_cmd user @ args]"
  by (cases "run_proc E (systemctl_cmd user @ args) (world s)") (auto simp: systemctl_run)

lemma systemctl_world [simp]:
  "world (snd (systemctl E args user cap s)) = snd (run_proc E (systemctl_cmd user @ args) (world s))"
  by (cases "run_proc E (systemctl_cmd user @ args) (world s)") (auto simp: systemctl_run)

lemma systemctl_calls_eq:
  "systemctl E args user cap s = (r, s') \<Longrightarrow> calls s' = calls s @ [systemctl_cmd user @ args]"
  using systemctl_calls [of E args user cap s] by simp

section \<open>Lemmas: statements that never raise SystemctlException\<close>

named_theorems sc_free_intros "statements that never raise SystemctlException"

lemma sc_free_returnE [sc_free_intros]: "sc_free (returnE a)"
  by (simp add: sc_free_def)

lemma sc_free_raiseE [sc_free_intros]: "ok_exc x \<Longrightarrow> sc_free (raiseE x)"
  by (simp add: sc_free_def)

lemma sc_free_liftE [sc_free_intros]: "(\<And>e. r = Inl e \<Longrightarrow> ok_exc e) \<Longrightarrow> sc_free (liftE r)"
  by (auto simp: sc_free_def split: sum.splits)

lemma sc_free_bindE [sc_free_intros]:
  assumes m: "sc_free m" and f: "\<And>a. sc_free (f a)"
  shows "sc_free (bindE m f)"
  unfolding sc_free_def
proof
  fix s
  show "case fst (bindE m f s) of Inl e \<Rightarrow> ok_exc e | Inr _ \<Rightarrow> True"
  proof (cases "m s")
    case (Pair r s')
    then show ?thesis
      using m f [unfolded sc_free_def, rule_format, of _ s']
      by (cases r) (auto simp: bindE_def sc_free_def dest: spec [of _ s])
  qed
qed

lemma sc_free_if [sc_free_intros]: "sc_free a \<Longrightarrow> sc_free b \<Longrightarrow> sc_free (if c then a else b)"
  by simp

lemma sc_free_py_print [sc_free_intros]: "sc_free (py_print l)"
  by (simp add: sc_free_def)

lemma sc_free_py_value [sc_free_intros]: "sc_free (py_value v)"
  by (simp add: sc_free_def py_value_def split: option.splits)

lemma sc_free_systemctl [sc_free_intros]: "sc_free (systemctl E args user cap)"
  unfolding sc_free_def
  by (auto simp: systemctl_def Let_def systemctl_exception_def communicate_def split: prod.splits)

section \<open>Lemmas: statements that keep a property of the world\<close>

named_theorems keeps_intros "statements that keep a property of the world"

lemma keeps_returnE [keeps_intros]: "keeps P (returnE a)"
  and keeps_raiseE [keeps_intros]: "keeps P (raiseE e)"
  and keeps_liftE [keeps_intros]: "keeps P (liftE r)"
  and keeps_py_print [keeps_intros]: "keeps P (py_print l)"
  by (simp_all add: keeps_def)

lemma keeps_py_value [keeps_intros]: "keeps P (py_value v)"
  by (simp add: keeps_def py_value_def split: option.splits)

lemma keeps_bindE [keeps_intros]:
  fixes P :: "'a \<Rightarrow> bool"
  assumes m: "keeps P m" and f: "\<And>a. keeps P (f a)"
  shows "keeps P (bindE m f)"
  unfolding keeps_def
proof (intro allI impI)
  fix s :: "'a pstate"
  assume p: "P (world s)"
  show "P (world (snd (bindE m f s)))"
  proof (cases "m s")
    case (Pair r s')
    have "P (world s')" using m p Pair by (auto simp: keeps_def dest: spec [of _ s])
    then show ?thesis
      using f Pair by (cases r) (auto simp: bindE_def keeps_def)
  qed
qed

lemma keeps_if [keeps_intros]: "keeps P a \<Longrightarrow> keeps P b \<Longrightarrow> keeps P (if c then a else b)"
  by simp

lemma keeps_systemctl [keeps_intros]: "env_keeps_as user P E \<Longrightarrow> keeps P (systemctl E args user cap)"
  by (simp add: keeps_def env_keeps_as_def)

lemma env_keeps_as_all: "env_keeps P E \<Longrightarrow> env_keeps_as user P E"
  by (simp add: env_keeps_def env_keeps_as_def)

end
