(* ===== verification/Discovery.thy ===== *)
theory Discovery
  imports Systemctl
begin

text \<open>
  Unit discovery, \<^verbatim>\<open>get_active_units\<close> (lines 58-73) and \<^verbatim>\<open>get_enabled_units\<close>
  (lines 76-87) of \<^verbatim>\<open>src/src/sdmpm.py\<close>. The first asks systemd twice: whether
  the template's unit file exists (\<^verbatim>\<open>list-unit-files\<close>), then which instances
  are loaded (\<^verbatim>\<open>list-units --all\<close>), and returns the first word of each line of
  the listing, sorted as strings. The second reads the directory of enabled links
  of \<^verbatim>\<open>multi-user.target\<close> and returns the entries that start with the template
  name and \<^verbatim>\<open>@\<close>, sorted as strings. The lemmas give the result of each on every
  branch (missing unit file, failing \<^verbatim>\<open>systemctl\<close>, a line without a word, a
  missing directory) and that both results are sorted.
\<close>

section \<open>Active units\<close>

text \<open>\<^verbatim>\<open>l.split()[0]\<close>: \<^verbatim>\<open>IndexError\<close> on a line with no word.\<close>

definition first_token :: "string \<Rightarrow> error + string" where
  "first_token l = (case py_split_ws l of [] \<Rightarrow> Inl IndexError | t # _ \<Rightarrow> Inr t)"

definition list_unit_files_args :: "string \<Rightarrow> string list" where
  "list_unit_files_args service = [''list-unit-files'', ''--'', service @ ''@.service'']"

definition list_units_args :: "string \<Rightarrow> string list" where
  "list_units_args service = [''list-units'', ''--all'', ''--'', service @ ''@*.service'']"

definition get_active_units :: "'w proc_env \<Rightarrow> string \<Rightarrow> bool \<Rightarrow> ('w, string list) py" where
  "get_active_units E service user =
     bindE (systemctl E (list_unit_files_args service) user True) (\<lambda>unit_files.
     bindE (py_value unit_files) (\<lambda>unit_files.
     if py_strip unit_files = []
     then raiseE (UserError (''no systemd unit file with name '' @ service @ ''@.service found!''))
     else
       bindE (systemctl E (list_units_args service) user True) (\<lambda>units.
       bindE (py_value units) (\<lambda>units.
       bindE (liftE (mapE first_token (py_splitlines units))) (\<lambda>names.
       returnE (sort names))))))"

section \<open>Enabled units\<close>

text \<open>
  \<^verbatim>\<open>os.path.expanduser\<close> for a path \<^verbatim>\<open>~/...\<close>: the home directory without its
  trailing slashes, then the rest (\<^verbatim>\<open>/\<close> if that is empty). The \<^verbatim>\<open>~user\<close>
  form is not used by the script and is left as it is.
\<close>

definition py_expanduser :: "string \<Rightarrow> string \<Rightarrow> string" where
  "py_expanduser h p =
     (case p of
        c # r \<Rightarrow>
          (if c = CHR ''~'' \<and> (r = [] \<or> hd r = CHR ''/'')
           then (let u = rev (dropWhile (\<lambda>x. x = CHR ''/'') (rev h)) @ r
                 in if u = [] then ''/'' else u)
           else p)
      | [] \<Rightarrow> p)"

definition enabled_dir :: "'w proc_env \<Rightarrow> bool \<Rightarrow> string" where
  "enabled_dir E user =
     (if user then py_expanduser (home E) ''~/.config/systemd/user/multi-user.target.wants''
      else ''/etc/systemd/system/multi-user.target.wants/'')"

text \<open>The loop of lines 84-86: \<^verbatim>\<open>units.append(f)\<close> for each entry that starts with \<^verbatim>\<open>service@\<close>.\<close>

fun collect_units :: "string \<Rightarrow> string list \<Rightarrow> string list \<Rightarrow> string list" where
  "collect_units service units [] = units"
| "collect_units service units (f # fs) =
     collect_units service (if py_startswith f (service @ ''@'') then units @ [f] else units) fs"

definition get_enabled_units :: "'w proc_env \<Rightarrow> string \<Rightarrow> bool \<Rightarrow> ('w, string list) py" where
  "get_enabled_units E service user s =
     (let svc_path = enabled_dir E user in
      case list_dir E svc_path (world s) of
        None \<Rightarrow> (Inl (FileNotFoundError svc_path), s)
      | Some fs \<Rightarrow> (Inr (sort (collect_units service [] fs)), s))"

section \<open>Lemmas: active units\<close>

lemma get_active_units_fail [py_run]:
  assumes "run_proc E (systemctl_cmd user @ list_unit_files_args svc) (world s) = ((rc, so, se), w)"
    and "rc \<noteq> 0"
  shows "fst (get_active_units E svc user s) = Inl (AttributeError ''NoneType'')"
  using assms by (simp add: get_active_units_def bindE_def systemctl_run)

lemma get_active_units_missing [py_run]:
  assumes "run_proc E (systemctl_cmd user @ list_unit_files_args svc) (world s) = ((0, so, se), w)"
    and "py_strip so = []"
  shows "fst (get_active_units E svc user s) =
           Inl (UserError (''no systemd unit file with name '' @ svc @ ''@.service found!''))"
    and "calls (snd (get_active_units E svc user s)) =
           calls s @ [systemctl_cmd user @ list_unit_files_args svc]"
  using assms by (simp_all add: get_active_units_def bindE_def systemctl_run)

lemma get_active_units_found [py_run]:
  assumes "run_proc E (systemctl_cmd user @ list_unit_files_args svc) (world s) = ((0, so1, se1), w1)"
    and "py_strip so1 \<noteq> []"
    and "run_proc E (systemctl_cmd user @ list_units_args svc) w1 = ((0, so2, se2), w2)"
  shows "fst (get_active_units E svc user s) = map_sum id sort (mapE first_token (py_splitlines so2))"
    and "calls (snd (get_active_units E svc user s)) =
           calls s @ [systemctl_cmd user @ list_unit_files_args svc,
                      systemctl_cmd user @ list_units_args svc]"
    and "world (snd (get_active_units E svc user s)) = w2"
  using assms
  by (simp_all add: get_active_units_def bindE_def systemctl_run split: sum.splits)

lemma get_active_units_Inr:
  "fst (get_active_units E svc user s) = Inr us \<Longrightarrow> \<exists>names. us = sort names"
  by (auto simp: get_active_units_def bindE_def py_value_def
      split: prod.splits sum.splits option.splits if_splits)

lemma get_active_units_calls:
  "\<exists>cs. calls (snd (get_active_units E svc user s)) = calls s @ cs \<and> length cs \<le> 2"
  unfolding get_active_units_def bindE_def
  by (auto simp: py_value_def split: prod.splits sum.splits option.splits dest!: systemctl_calls_eq)

section \<open>Lemmas: enabled units\<close>

lemma collect_units_append:
  "collect_units svc units fs = units @ filter (\<lambda>f. py_startswith f (svc @ ''@'')) fs"
  by (induction fs arbitrary: units) simp_all

lemma get_enabled_units_state [simp]: "snd (get_enabled_units E svc user s) = s"
  by (simp add: get_enabled_units_def Let_def split: option.splits)

lemma get_enabled_units_listed [py_run]:
  "list_dir E (enabled_dir E user) (world s) = Some fs \<Longrightarrow>
   get_enabled_units E svc user s = (Inr (sort (filter (\<lambda>f. py_startswith f (svc @ ''@'')) fs)), s)"
  by (simp add: get_enabled_units_def collect_units_append)

lemma get_enabled_units_missing [py_run]:
  "list_dir E (enabled_dir E user) (world s) = None \<Longrightarrow>
   get_enabled_units E svc user s = (Inl (FileNotFoundError (enabled_dir E user)), s)"
  by (simp add: get_enabled_units_def)

lemma enabled_dir_user:
  "enabled_dir E True =
     rev (dropWhile (\<lambda>x. x = CHR ''/'') (rev (home E))) @ ''/.config/systemd/user/multi-user.target.wants''"
  by (simp add: enabled_dir_def py_expanduser_def)

section \<open>Lemmas: no SystemctlException\<close>

lemma ok_first_token: "first_token l = Inl e \<Longrightarrow> ok_exc e"
  by (auto simp: first_token_def split: list.splits)

lemma sc_free_get_active_units [sc_free_intros]: "sc_free (get_active_units E svc user)"
  unfolding get_active_units_def
  by (intro sc_free_intros) (auto dest!: mapE_Inl ok_first_token)

lemma sc_free_get_enabled_units [sc_free_intros]: "sc_free (get_enabled_units E svc user)"
  by (simp add: sc_free_def get_enabled_units_def Let_def split: option.splits)

lemma keeps_get_active_units [keeps_intros]:
  "env_keeps_as user P E \<Longrightarrow> keeps P (get_active_units E svc user)"
  unfolding get_active_units_def by (intro keeps_intros)

lemma keeps_get_enabled_units [keeps_intros]: "keeps P (get_enabled_units E svc user)"
  by (simp add: keeps_def)

section \<open>Lemmas: listing lines\<close>

lemma first_token_word:
  "w \<noteq> [] \<Longrightarrow> \<forall>c\<in>set w. \<not> py_isspace c \<Longrightarrow> py_isspace x \<Longrightarrow> first_token (w @ x # r) = Inr w"
  unfolding first_token_def py_split_ws_def
  by (subst py_split_on_sep) auto

end
