(* ===== verification/Reconciler.thy ===== *)
theory Reconciler
  imports Discovery
begin

text \<open>
  The reconciler, \<^verbatim>\<open>scale_service\<close> (lines 90-118 of \<^verbatim>\<open>src/src/sdmpm.py\<close>).
  It rejects a negative count, reads the loaded instances with
  \<open>get_active_units\<close>, parses each instance number out of its unit name
  (\<open>unit_number\<close>, line 97), and compares the number of listed units with the
  wanted count: more units than wanted disables and stops the listed numbers outside
  \<open>1..n\<close>, fewer enables and starts the numbers of \<open>1..n\<close> not listed, equal does
  nothing (\<open>scale_plan\<close>, lines 98-108). The numbers are rendered back into unit
  names and handed to one \<^verbatim>\<open>systemctl\<close> call (\<open>scale_args\<close>, lines 110-118).
\<close>

section \<open>Definitions\<close>

text \<open>\<^verbatim>\<open>int(s.split("@")[1].split(".")[0])\<close>\<close>

definition unit_number :: "string \<Rightarrow> error + int" where
  "unit_number s =
     (case py_split (CHR ''@'') s of
        _ # a # _ \<Rightarrow>
          (case py_split (CHR ''.'') a of
             b # _ \<Rightarrow> (case py_int b of None \<Rightarrow> Inl (ValueError b) | Some n \<Rightarrow> Inr n)
           | [] \<Rightarrow> Inl IndexError)
      | _ \<Rightarrow> Inl IndexError)"

text \<open>
  The decision of lines 98-108: \<open>None\<close> is the branch that prints and returns,
  \<open>Some (cmd, nums)\<close> the command and the set of numbers it acts on.
\<close>

definition scale_plan :: "nat \<Rightarrow> int set \<Rightarrow> int \<Rightarrow> (string \<times> int set) option" where
  "scale_plan n_units current_unit_numbers num_procs =
     (let wanted_unit_numbers = set [1..num_procs] in
      if int n_units > num_procs
      then Some (''disable'', current_unit_numbers - wanted_unit_numbers)
      else if int n_units < num_procs
      then Some (''enable'', wanted_unit_numbers - current_unit_numbers)
      else None)"

text \<open>\<^verbatim>\<open>sorted([str(i) for i in service_nums])\<close>: string order, not numeric order.\<close>

definition service_num_strs :: "int set \<Rightarrow> string list" where
  "service_num_strs nums = sort (map py_str_int (sorted_list_of_set nums))"

definition scale_args :: "string \<Rightarrow> string \<Rightarrow> int set \<Rightarrow> string list" where
  "scale_args service cmd nums =
     [cmd, ''--quiet'', ''--now''] @ map (\<lambda>x. service @ ''@'' @ x) (service_num_strs nums)"

definition scale_message :: "nat \<Rightarrow> int \<Rightarrow> string \<Rightarrow> string list \<Rightarrow> string" where
  "scale_message n_units num_procs cmd service_nums =
     py_str_int (int n_units) @ '' units running, wanted '' @ py_str_int num_procs @
     '' - will '' @ cmd @ '' service numbers: '' @ py_join '', '' service_nums"

definition scale_service :: "'w proc_env \<Rightarrow> string \<Rightarrow> int \<Rightarrow> bool \<Rightarrow> ('w, unit) py" where
  "scale_service E service num_procs user =
     (if num_procs < 0
      then raiseE (ValueError ''num_procs must be an integer, 0 or greater'')
      else
        bindE (get_active_units E service user) (\<lambda>units.
        bindE (liftE (mapE unit_number units)) (\<lambda>current.
        case scale_plan (length units) (set current) num_procs of
          None \<Rightarrow> py_print ''correct number of units running, not doing anything''
        | Some (cmd, service_nums) \<Rightarrow>
            bindE (py_print (scale_message (length units) num_procs cmd
                                (service_num_strs service_nums))) (\<lambda>_.
            bindE (systemctl E (scale_args service cmd service_nums) user False) (\<lambda>_.
            returnE ())))))"

text \<open>
  The value \<^verbatim>\<open>argparse\<close> can store as \<^verbatim>\<open>num_procs\<close>: an \<^verbatim>\<open>int\<close>, or an
  empty list (see \<open>Cli\<close>). The first disjunct of line 91,
  \<^verbatim>\<open>not isinstance(num_procs, int)\<close>, rejects the list; \<open>scale_service\<close> is the
  rest of the function, for an \<^verbatim>\<open>int\<close>.
\<close>

datatype py_num = PyInt int | PyEmptyList

definition scale_service_arg :: "'w proc_env \<Rightarrow> string \<Rightarrow> py_num \<Rightarrow> bool \<Rightarrow> ('w, unit) py" where
  "scale_service_arg E service num_procs user =
     (case num_procs of
        PyInt n \<Rightarrow> scale_service E service n user
      | PyEmptyList \<Rightarrow> raiseE (ValueError ''num_procs must be an integer, 0 or greater''))"

text \<open>
  The abstract contract of one scaling pass, from the spec (section 4.2): the
  service manager's \<^verbatim>\<open>disable --now\<close> removes the numbers it is given from the
  set of running instances and \<^verbatim>\<open>enable --now\<close> adds them.
\<close>

definition apply_plan :: "(string \<times> int set) option \<Rightarrow> int set \<Rightarrow> int set" where
  "apply_plan p C =
     (case p of
        None \<Rightarrow> C
      | Some (cmd, ns) \<Rightarrow> if cmd = ''disable'' then C - ns else C \<union> ns)"

text \<open>
  The two phases of \<open>scale_service\<close>. \<open>scale_observe\<close> is what the function
  reads (lines 91-108): the guard, the listing, the unit numbers and the decision,
  returned with the number of units listed. \<open>scale_commit\<close> is what it then does
  (lines 100-118), from that observation alone: print and, unless the count was
  right, the one \<^verbatim>\<open>systemctl\<close> call. Nothing is read again between the two,
  which is what makes two concurrent runs of the script race (\<open>Race\<close>).
\<close>

definition scale_observe ::
  "'w proc_env \<Rightarrow> string \<Rightarrow> int \<Rightarrow> bool \<Rightarrow> ('w, nat \<times> (string \<times> int set) option) py" where
  "scale_observe E service num_procs user =
     (if num_procs < 0
      then raiseE (ValueError ''num_procs must be an integer, 0 or greater'')
      else
        bindE (get_active_units E service user) (\<lambda>units.
        bindE (liftE (mapE unit_number units)) (\<lambda>current.
        returnE (length units, scale_plan (length units) (set current) num_procs))))"

definition scale_commit ::
  "'w proc_env \<Rightarrow> string \<Rightarrow> int \<Rightarrow> bool \<Rightarrow> nat \<times> (string \<times> int set) option \<Rightarrow> ('w, unit) py" where
  "scale_commit E service num_procs user obs =
     (case obs of
        (n_units, None) \<Rightarrow> py_print ''correct number of units running, not doing anything''
      | (n_units, Some (cmd, service_nums)) \<Rightarrow>
          bindE (py_print (scale_message n_units num_procs cmd (service_num_strs service_nums))) (\<lambda>_.
          bindE (systemctl E (scale_args service cmd service_nums) user False) (\<lambda>_.
          returnE ())))"

section \<open>Lemmas: unit names\<close>

lemma unit_number_name:
  assumes "CHR ''@'' \<notin> set svc" and "CHR ''@'' \<notin> set rest" and "rest = [] \<or> hd rest = CHR ''.''"
  shows "unit_number (svc @ CHR ''@'' # py_str_int k @ rest) = Inr k"
proof -
  have at: "py_split (CHR ''@'') (svc @ CHR ''@'' # py_str_int k @ rest) = [svc, py_str_int k @ rest]"
    using assms(1,2) py_str_int_no_at_dot by (intro py_split_two) auto
  obtain ws where dot: "py_split (CHR ''.'') (py_str_int k @ rest) = py_str_int k # ws"
    using assms(3) py_str_int_no_at_dot py_split_hd by blast
  from at dot show ?thesis by (simp add: unit_number_def)
qed

lemma unit_number_arg:
  "CHR ''@'' \<notin> set svc \<Longrightarrow> x \<in> set (service_num_strs ns) \<Longrightarrow> finite ns \<Longrightarrow>
   unit_number (svc @ CHR ''@'' # x) = Inr (the (py_int x))"
  using unit_number_name [of svc "[]"] by (auto simp: service_num_strs_def)

section \<open>Lemmas: one run of scale_service\<close>

lemma scale_service_run [py_run]:
  assumes "get_active_units E svc user s = (Inr units, s1)" and "mapE unit_number units = Inr nums"
    and "0 \<le> n"
  shows "scale_service E svc n user s =
    (case scale_plan (length units) (set nums) n of
       None \<Rightarrow> (Inr (), s1\<lparr>out := out s1 @ [''correct number of units running, not doing anything'']\<rparr>)
     | Some (cmd, ns) \<Rightarrow>
         map_prod (map_sum id (\<lambda>_. ())) id
           (systemctl E (scale_args svc cmd ns) user False
              (s1\<lparr>out := out s1 @ [scale_message (length units) n cmd (service_num_strs ns)]\<rparr>)))"
  using assms
  by (auto simp: scale_service_def bindE_def split: option.splits prod.splits sum.splits)

lemma scale_service_calls:
  assumes "get_active_units E svc user s = (Inr units, s1)" and "mapE unit_number units = Inr nums"
    and "0 \<le> n"
  shows "calls (snd (scale_service E svc n user s)) =
    calls s1 @ (case scale_plan (length units) (set nums) n of
                  None \<Rightarrow> []
                | Some (cmd, ns) \<Rightarrow> [systemctl_cmd user @ scale_args svc cmd ns])"
  using assms by (simp add: scale_service_run split: option.splits)

lemma scale_service_calls_le:
  "\<exists>cs. calls (snd (scale_service E svc n user s)) = calls s @ cs \<and> length cs \<le> 3"
proof (cases "get_active_units E svc user s")
  case (Pair r s1)
  obtain cs1 where c1: "calls s1 = calls s @ cs1" "length cs1 \<le> 2"
    using get_active_units_calls [of E svc user s] Pair by auto
  show ?thesis
    using Pair c1
    by (auto simp: scale_service_def bindE_def split: sum.splits option.splits prod.splits
        dest!: systemctl_calls_eq)
qed

lemma ok_unit_number: "unit_number u = Inl e \<Longrightarrow> ok_exc e"
  by (auto simp: unit_number_def split: list.splits option.splits)

lemma sc_free_scale_service [sc_free_intros]: "sc_free (scale_service E svc n user)"
  unfolding scale_service_def
  by (intro sc_free_intros) (auto intro!: sc_free_intros split: option.splits dest!: mapE_Inl ok_unit_number)

lemma keeps_scale_service [keeps_intros]:
  "env_keeps_as user P E \<Longrightarrow> keeps P (scale_service E svc n user)"
  unfolding scale_service_def by (intro keeps_intros) (auto intro!: keeps_intros split: option.splits)

lemma sc_free_scale_service_arg [sc_free_intros]: "sc_free (scale_service_arg E svc v user)"
  unfolding scale_service_arg_def by (auto intro!: sc_free_intros split: py_num.splits)

lemma keeps_scale_service_arg [keeps_intros]:
  "env_keeps_as user P E \<Longrightarrow> keeps P (scale_service_arg E svc v user)"
  unfolding scale_service_arg_def by (auto intro!: keeps_intros split: py_num.splits)

lemma scale_service_arg_calls_le:
  "\<exists>cs. calls (snd (scale_service_arg E svc v user s)) = calls s @ cs \<and> length cs \<le> 3"
  using scale_service_calls_le by (auto simp: scale_service_arg_def split: py_num.splits)

section \<open>Lemmas: two passes of the decision\<close>

lemma scale_plan_cases:
  "n < int m \<Longrightarrow> scale_plan m C n = Some (''disable'', C - {1..n})"
  "int m < n \<Longrightarrow> scale_plan m C n = Some (''enable'', {1..n} - C)"
  "int m = n \<Longrightarrow> scale_plan m C n = None"
  by (simp_all add: scale_plan_def)

lemma apply_plan_simps [simp]:
  "apply_plan None C = C"
  "apply_plan (Some (''disable'', ns)) C = C - ns"
  "apply_plan (Some (''enable'', ns)) C = C \<union> ns"
  by (simp_all add: apply_plan_def)

lemma apply_plan_finite: "finite C \<Longrightarrow> finite (apply_plan (scale_plan m C n) C)"
  by (cases "n < int m"; cases "int m < n") (simp_all add: scale_plan_cases)

lemma apply_plan_twice:
  assumes fin: "finite C" and n: "0 \<le> n" and ne: "int (card C) \<noteq> n"
  shows "apply_plan (scale_plan (card (apply_plan (scale_plan (card C) C n) C))
                                (apply_plan (scale_plan (card C) C n) C) n)
                    (apply_plan (scale_plan (card C) C n) C) = {1..n}"
proof -
  let ?W = "{1..n}"
  have cW: "card ?W = nat n" using n by simp
  consider (down) "n < int (card C)" | (up) "int (card C) < n" using ne by linarith
  then show ?thesis
  proof cases
    case down
    let ?C1 = "C - (C - ?W)"
    have c1: "apply_plan (scale_plan (card C) C n) C = ?C1" using down by (simp add: scale_plan_cases)
    have sub: "?C1 \<subseteq> ?W" by blast
    have le: "int (card ?C1) \<le> n" using card_mono [OF _ sub] cW n by simp
    consider (lt) "int (card ?C1) < n" | (eq) "int (card ?C1) = n" using le by linarith
    then show ?thesis
    proof cases
      case lt
      then show ?thesis using c1 sub by (auto simp: scale_plan_cases)
    next
      case eq
      then have "?C1 = ?W" using card_subset_eq [OF _ sub] cW by simp
      then show ?thesis using eq c1 by (simp add: scale_plan_cases)
    qed
  next
    case up
    let ?C1 = "C \<union> (?W - C)"
    have c1: "apply_plan (scale_plan (card C) C n) C = ?C1" using up by (simp add: scale_plan_cases)
    have sup: "?W \<subseteq> ?C1" by blast
    have fin1: "finite ?C1" using fin by simp
    have ge: "n \<le> int (card ?C1)" using card_mono [OF fin1 sup] cW n by simp
    consider (gt) "n < int (card ?C1)" | (eq) "int (card ?C1) = n" using ge by linarith
    then show ?thesis
    proof cases
      case gt
      then show ?thesis using c1 sup by (auto simp: scale_plan_cases)
    next
      case eq
      then have "?C1 = ?W" using card_subset_eq [OF fin1 sup] cW by force
      then show ?thesis using eq c1 by (simp add: scale_plan_cases)
    qed
  qed
qed

section \<open>Properties of the reconciler\<close>

text \<open>
  C6. Scaling down: when the listing has more units than wanted, the pass ends
  with exactly one more \<^verbatim>\<open>systemctl\<close> call, \<^verbatim>\<open>disable --quiet --now\<close> of the
  listed numbers outside \<open>1..n\<close>.
\<close>

theorem scale_down_disables:
  assumes "get_active_units E svc user s = (Inr units, s1)" and "mapE unit_number units = Inr nums"
    and "0 \<le> n" and "n < int (length units)"
  shows "calls (snd (scale_service E svc n user s)) =
           calls s1 @ [systemctl_cmd user @ scale_args svc ''disable'' (set nums - {1..n})]"
  using scale_service_calls [OF assms(1-3)] assms(4) by (simp add: scale_plan_def)

text \<open>
  C7. Scaling up: when the listing has fewer units than wanted, the pass ends with
  exactly one more call, \<^verbatim>\<open>enable --quiet --now\<close> of the numbers of \<open>1..n\<close>
  that are not listed.
\<close>

theorem scale_up_enables:
  assumes "get_active_units E svc user s = (Inr units, s1)" and "mapE unit_number units = Inr nums"
    and "0 \<le> n" and "int (length units) < n"
  shows "calls (snd (scale_service E svc n user s)) =
           calls s1 @ [systemctl_cmd user @ scale_args svc ''enable'' ({1..n} - set nums)]"
  using scale_service_calls [OF assms(1-3)] assms(4) by (simp add: scale_plan_def)

text \<open>
  C8. When the listing has as many units as wanted, whatever their numbers, the pass
  prints its message and returns without any further call.
\<close>

theorem scale_equal_noop:
  assumes "get_active_units E svc user s = (Inr units, s1)" and "mapE unit_number units = Inr nums"
    and "int (length units) = n"
  shows "scale_service E svc n user s =
           (Inr (), s1\<lparr>out := out s1 @ [''correct number of units running, not doing anything'']\<rparr>)"
  using scale_service_run [OF assms(1,2)] assms(3) by (simp add: scale_plan_def)

text \<open>
  C10. A negative count raises \<^verbatim>\<open>ValueError\<close> before anything happens: the state,
  the terminal and the trace of calls are unchanged.
\<close>

theorem scale_service_negative:
  "num_procs < 0 \<Longrightarrow>
   scale_service E svc num_procs user s =
     (Inl (ValueError ''num_procs must be an integer, 0 or greater''), s)"
  by (simp add: scale_service_def)

text \<open>
  C14. The decision against its contract: for a set \<open>C\<close> of distinct running numbers,
  applying the chosen action to \<open>C\<close> gives exactly \<open>1..n\<close> if and only if \<open>C\<close> and
  \<open>1..n\<close> are comparable by inclusion (in particular whenever \<open>C\<close> is \<open>1..m\<close>).
\<close>

theorem scale_plan_converges_iff:
  assumes "finite C" and "0 \<le> n"
  shows "apply_plan (scale_plan (card C) C n) C = {1..n} \<longleftrightarrow> ({1..n} \<subseteq> C \<or> C \<subseteq> {1..n})"
proof -
  have cW: "card {1..n} = nat n" using assms(2) by simp
  consider (gt) "n < int (card C)" | (lt) "int (card C) < n" | (eq) "int (card C) = n" by linarith
  then show ?thesis
  proof cases
    case gt
    have "\<not> C \<subseteq> {1..n}" using gt assms(2) card_mono [of "{1..n}" C] cW by auto
    then show ?thesis using gt by (auto simp: apply_plan_def scale_plan_def)
  next
    case lt
    have "\<not> {1..n} \<subseteq> C" using lt card_mono [OF assms(1), of "{1..n}"] cW by auto
    then show ?thesis using lt by (auto simp: apply_plan_def scale_plan_def)
  next
    case eq
    have "{1..n} \<subseteq> C \<longleftrightarrow> C = {1..n}" "C \<subseteq> {1..n} \<longleftrightarrow> C = {1..n}"
      using eq cW assms(1) card_subset_eq [of C "{1..n}"] card_subset_eq [of "{1..n}" C]
      by auto
    then show ?thesis using eq by (auto simp: apply_plan_def scale_plan_def)
  qed
qed

text \<open>
  C27. The unit names handed to \<^verbatim>\<open>systemctl\<close> encode exactly the chosen numbers:
  parsing them back with the parser of line 97 gives the planned set.
\<close>

theorem scale_args_numbers:
  assumes "CHR ''@'' \<notin> set svc" and "finite ns"
  shows "map_sum id set (mapE unit_number (drop 3 (scale_args svc cmd ns))) = Inr ns"
proof -
  have "mapE unit_number (drop 3 (scale_args svc cmd ns)) =
        Inr (map (\<lambda>x. the (py_int x)) (service_num_strs ns))"
    using assms unit_number_arg by (simp add: scale_args_def mapE_map_comp)
  moreover have "(\<lambda>x. the (py_int x)) ` set (service_num_strs ns) = ns"
    using assms(2) by (force simp: service_num_strs_def image_image)
  ultimately show ?thesis by simp
qed

text \<open>\<open>scale_service\<close> is its observation phase followed by its commit phase.\<close>

lemma scale_service_phases:
  "scale_service E svc n user = bindE (scale_observe E svc n user) (scale_commit E svc n user)"
  by (simp add: scale_service_def scale_observe_def scale_commit_def bindE_assoc)

end
