(* ===== verification/Dispatch.thy ===== *)
theory Dispatch
  imports Reconciler
begin

text \<open>
  The command dispatcher of \<^verbatim>\<open>src/src/sdmpm.py\<close>: \<^verbatim>\<open>control_active_units\<close>
  (lines 121-129: the loaded instances, or the enabled ones when none is loaded,
  or nothing), \<^verbatim>\<open>control_units\<close> (lines 132-135: always the enabled ones) and
  the body of \<^verbatim>\<open>main\<close> after argument parsing (lines 157-177): the routing of
  each subcommand and the mapping of exceptions to exit codes. \<^verbatim>\<open>argparse\<close>
  itself (lines 139-155) is a library and is not modelled: \<open>main\<close> takes the parsed
  namespace as a record.
\<close>

section \<open>Commands on the instances of a template\<close>

definition control_active_units :: "'w proc_env \<Rightarrow> string \<Rightarrow> string \<Rightarrow> bool \<Rightarrow> ('w, unit) py" where
  "control_active_units E cmd service user =
     bindE (get_active_units E service user) (\<lambda>units.
     bindE (if units = [] then get_enabled_units E service user else returnE units) (\<lambda>units.
     if units = [] then py_print (''no units found for '' @ service)
     else bindE (systemctl E (cmd # units) user False) (\<lambda>_. returnE ())))"

definition control_units :: "'w proc_env \<Rightarrow> string \<Rightarrow> string \<Rightarrow> bool \<Rightarrow> ('w, unit) py" where
  "control_units E cmd service user =
     bindE (get_enabled_units E service user) (\<lambda>units.
     bindE (systemctl E (cmd # units) user False) (\<lambda>_. returnE ()))"

section \<open>main\<close>

text \<open>The namespace \<^verbatim>\<open>parser.parse_args\<close> returns.\<close>

record args =
  a_user :: bool
  a_cmd :: "string option"
  a_service :: string
  a_num_procs :: py_num

text \<open>The first line of the help text \<^verbatim>\<open>argparse\<close> prints; the rest of it is not modelled.\<close>

definition parser_help :: string where
  "parser_help = ''usage: sdmpm.py [-h] [--user] {scale,status,start,stop,restart,enable,disable} ...''"

text \<open>Lines 158-168.\<close>

definition main_dispatch :: "'w proc_env \<Rightarrow> args \<Rightarrow> ('w, unit) py" where
  "main_dispatch E a =
     (case a_cmd a of
        Some c \<Rightarrow>
          (if c = ''scale'' then scale_service_arg E (a_service a) (a_num_procs a) (a_user a)
           else if c \<in> {''status'', ''stop'', ''restart''}
           then control_active_units E c (a_service a) (a_user a)
           else if c \<in> {''start'', ''enable'', ''disable''}
           then control_units E c (a_service a) (a_user a)
           else bindE (py_print (''unknown command or not implemented: '' @ c)) (\<lambda>_.
                raiseE (SystemExit 1)))
      | None \<Rightarrow> py_print parser_help)"

text \<open>
  Python's \<^verbatim>\<open>repr\<close> of a list of strings without quotes or backslashes, as
  \<^verbatim>\<open>"%s" % cmd\<close> prints it.
\<close>

definition py_repr_list :: "string list \<Rightarrow> string" where
  "py_repr_list xs = ''['' @ py_join '', '' (map (\<lambda>x. CHR 0x27 # x @ [CHR 0x27]) xs) @ '']''"

definition exc_name :: "error \<Rightarrow> string" where
  "exc_name e =
     (case e of
        UserError _ \<Rightarrow> ''UserError''
      | SystemctlException _ _ _ \<Rightarrow> ''SystemctlException''
      | ValueError _ \<Rightarrow> ''ValueError''
      | IndexError \<Rightarrow> ''IndexError''
      | AttributeError _ \<Rightarrow> ''AttributeError''
      | FileNotFoundError _ \<Rightarrow> ''FileNotFoundError''
      | SystemExit _ \<Rightarrow> ''SystemExit''
      | AssertionError \<Rightarrow> ''AssertionError''
      | CalledProcessError _ \<Rightarrow> ''CalledProcessError'')"

text \<open>
  Lines 157-177 and the interpreter around them: the exit status and the final
  state. \<^verbatim>\<open>SystemctlException\<close> prints three lines and exits 2, \<^verbatim>\<open>UserError\<close>
  prints its message and exits 3, \<^verbatim>\<open>sys.exit(n)\<close> exits \<open>n\<close>, and any other
  exception escapes \<^verbatim>\<open>main\<close>: the interpreter prints a traceback and exits 1.
\<close>

definition main :: "'w proc_env \<Rightarrow> args \<Rightarrow> 'w pstate \<Rightarrow> int \<times> 'w pstate" where
  "main E a s =
     (case main_dispatch E a s of
        (Inr _, s') \<Rightarrow> (0, s')
      | (Inl (SystemctlException retcode cmd stderr), s') \<Rightarrow>
          (2, s'\<lparr>out := out s' @
                [''systemctl '' @ py_repr_list (tl cmd) @ '' failed with error code '' @ py_str_int retcode,
                 ''cmd: '' @ py_repr_list cmd] @
                (if stderr = [] then [] else [''stderr:'' @ [CHR 0x0A] @ stderr])\<rparr>)
      | (Inl (UserError msg), s') \<Rightarrow> (3, s'\<lparr>out := out s' @ [msg]\<rparr>)
      | (Inl (SystemExit n), s') \<Rightarrow> (n, s')
      | (Inl e, s') \<Rightarrow> (1, s'\<lparr>out := out s' @ [''Traceback: '' @ exc_name e]\<rparr>))"

section \<open>Lemmas: runs of the dispatcher\<close>


lemma control_active_units_run [py_run]:
  assumes "get_active_units E svc user s = (Inr units, s1)"
  shows "control_active_units E cmd svc user s =
    (let r = (if units = [] then get_enabled_units E svc user s1 else (Inr units, s1)) in
     case r of
       (Inl e, s2) \<Rightarrow> (Inl e, s2)
     | (Inr us, s2) \<Rightarrow>
         (if us = [] then (Inr (), s2\<lparr>out := out s2 @ [''no units found for '' @ svc]\<rparr>)
          else map_prod (map_sum id (\<lambda>_. ())) id (systemctl E (cmd # us) user False s2)))"
  using assms
  by (auto simp: control_active_units_def bindE_def Let_def split: prod.splits sum.splits)

text \<open>
  C15. \<^verbatim>\<open>status\<close>, \<^verbatim>\<open>stop\<close> and \<^verbatim>\<open>restart\<close> act on the loaded
  instances when there are any: one call of the command over exactly the listed units.
\<close>

theorem control_active_units_prefers_active:
  assumes "get_active_units E svc user s = (Inr units, s1)" and "units \<noteq> []"
  shows "calls (snd (control_active_units E cmd svc user s)) = calls s1 @ [systemctl_cmd user @ cmd # units]"
  using assms by (simp add: control_active_units_run)

text \<open>
  C16. When no instance is loaded, \<^verbatim>\<open>control_active_units\<close> falls back to the
  enabled links: one call of the command over exactly the enabled instances of the
  template, sorted as strings.
\<close>

theorem control_active_units_fallback:
  assumes "get_active_units E svc user s = (Inr [], s1)"
    and "list_dir E (enabled_dir E user) (world s1) = Some fs"
    and "sort (filter (\<lambda>f. py_startswith f (svc @ ''@'')) fs) = us" and "us \<noteq> []"
  shows "calls (snd (control_active_units E cmd svc user s)) = calls s1 @ [systemctl_cmd user @ cmd # us]"
  using assms by (simp add: control_active_units_run get_enabled_units_listed)

text \<open>
  C17. When no instance is loaded and none is enabled, \<^verbatim>\<open>control_active_units\<close>
  prints \<^verbatim>\<open>no units found for\<close> and makes no further call.
\<close>

theorem control_active_units_none:
  assumes "get_active_units E svc user s = (Inr [], s1)"
    and "list_dir E (enabled_dir E user) (world s1) = Some fs"
    and "filter (\<lambda>f. py_startswith f (svc @ ''@'')) fs = []"
  shows "control_active_units E cmd svc user s =
           (Inr (), s1\<lparr>out := out s1 @ [''no units found for '' @ svc]\<rparr>)"
  using assms by (simp add: control_active_units_run get_enabled_units_listed)

text \<open>
  C18. When no instance is loaded and the directory of enabled links does not exist
  (a user manager on which nothing was ever enabled), \<^verbatim>\<open>control_active_units\<close>
  raises \<^verbatim>\<open>FileNotFoundError\<close> instead of reporting that no unit was found.
\<close>

theorem control_active_units_no_dir:
  assumes "get_active_units E svc user s = (Inr [], s1)"
    and "list_dir E (enabled_dir E user) (world s1) = None"
  shows "control_active_units E cmd svc user s = (Inl (FileNotFoundError (enabled_dir E user)), s1)"
  using assms by (simp add: control_active_units_run get_enabled_units_missing)

lemma control_units_run [py_run]:
  "list_dir E (enabled_dir E user) (world s) = Some fs \<Longrightarrow>
   control_units E cmd svc user s =
     map_prod (map_sum id (\<lambda>_. ())) id
       (systemctl E (cmd # sort (filter (\<lambda>f. py_startswith f (svc @ ''@'')) fs)) user False s)"
  by (simp add: control_units_def bindE_Inr [OF get_enabled_units_listed] bindE_const_returnE)

text \<open>
  C19. \<^verbatim>\<open>start\<close>, \<^verbatim>\<open>enable\<close> and \<^verbatim>\<open>disable\<close> always act on the
  enabled instances, whatever is loaded, and call systemctl even when that list is
  empty.
\<close>

theorem control_units_enabled_set:
  assumes "list_dir E (enabled_dir E user) (world s) = Some fs"
  shows "calls (snd (control_units E cmd svc user s)) =
           calls s @ [systemctl_cmd user @ cmd # sort (filter (\<lambda>f. py_startswith f (svc @ ''@'')) fs)]"
  using assms by (simp add: control_units_run)

text \<open>
  C25. \<^verbatim>\<open>scale\<close> with a negative count exits with status 1 and a traceback,
  since the \<^verbatim>\<open>ValueError\<close> is not among the exceptions \<^verbatim>\<open>main\<close> catches.
\<close>

theorem main_negative_count_exit_1:
  assumes "a_cmd a = Some ''scale''" and "a_num_procs a = PyInt n" and "n < 0"
  shows "main E a s = (1, s\<lparr>out := out s @ [''Traceback: ValueError'']\<rparr>)"
  using assms by (simp add: main_def main_dispatch_def scale_service_arg_def scale_service_def exc_name_def)

text \<open>
  C26. A template without unit file makes \<^verbatim>\<open>status\<close>, \<^verbatim>\<open>stop\<close> and
  \<^verbatim>\<open>restart\<close> print the \<^verbatim>\<open>UserError\<close> message and exit with status 3.
\<close>

theorem main_user_error_exit_3:
  assumes "a_cmd a = Some c" and "c \<in> {''status'', ''stop'', ''restart''}"
    and "get_active_units E (a_service a) (a_user a) s = (Inl (UserError m), s1)"
  shows "main E a s = (3, s1\<lparr>out := out s1 @ [m]\<rparr>)"
  using assms by (auto simp: main_def main_dispatch_def control_active_units_def bindE_def)

section \<open>Lemmas: no SystemctlException\<close>

lemma sc_free_control_active_units [sc_free_intros]: "sc_free (control_active_units E cmd svc user)"
  unfolding control_active_units_def by (intro sc_free_intros)

lemma sc_free_control_units [sc_free_intros]: "sc_free (control_units E cmd svc user)"
  unfolding control_units_def by (intro sc_free_intros)

lemma sc_free_main_dispatch: "sc_free (main_dispatch E a)"
  unfolding main_dispatch_def
  by (auto intro!: sc_free_intros split: option.splits)

lemma keeps_control_active_units [keeps_intros]:
  "env_keeps_as user P E \<Longrightarrow> keeps P (control_active_units E cmd svc user)"
  unfolding control_active_units_def by (intro keeps_intros)

lemma keeps_control_units [keeps_intros]:
  "env_keeps_as user P E \<Longrightarrow> keeps P (control_units E cmd svc user)"
  unfolding control_units_def by (intro keeps_intros)

lemma keeps_main_dispatch: "env_keeps_as (a_user a) P E \<Longrightarrow> keeps P (main_dispatch E a)"
  unfolding main_dispatch_def by (auto intro!: keeps_intros split: option.splits)

lemma main_world: "world (snd (main E a s)) = world (snd (main_dispatch E a s))"
  by (auto simp: main_def split: prod.splits sum.splits error.splits)

lemma control_active_units_calls_le:
  "\<exists>cs. calls (snd (control_active_units E cmd svc user s)) = calls s @ cs \<and> length cs \<le> 3"
proof (cases "get_active_units E svc user s")
  case (Pair r s1)
  obtain cs1 where c1: "calls s1 = calls s @ cs1" "length cs1 \<le> 2"
    using get_active_units_calls [of E svc user s] Pair by auto
  show ?thesis
    using Pair c1
    by (auto simp: control_active_units_def bindE_def get_enabled_units_def Let_def
        split: sum.splits option.splits prod.splits dest!: systemctl_calls_eq)
qed

lemma control_units_calls_le:
  "\<exists>cs. calls (snd (control_units E cmd svc user s)) = calls s @ cs \<and> length cs \<le> 1"
  by (auto simp: control_units_def bindE_def get_enabled_units_def Let_def
      split: sum.splits option.splits prod.splits dest!: systemctl_calls_eq)

lemma main_calls: "calls (snd (main E a s)) = calls (snd (main_dispatch E a s))"
  by (auto simp: main_def split: prod.splits sum.splits error.splits)

lemma main_exit_values: "fst (main E a s) \<in> {0, 1, 3}"
proof -
  have "case fst (main_dispatch E a s) of Inl e \<Rightarrow> ok_exc e | Inr _ \<Rightarrow> True"
    using sc_free_main_dispatch [of E a] by (simp add: sc_free_def)
  then show ?thesis
    by (auto simp: main_def split: prod.splits sum.splits error.splits)
qed

text \<open>
  C11. \<^verbatim>\<open>main\<close> never exits with status 2: no statement of the script can raise
  \<^verbatim>\<open>SystemctlException\<close>, because its constructor fails on the \<^verbatim>\<open>None\<close>
  stderr first, so the handler of lines 169-174 is dead code.
\<close>

theorem main_never_exits_2: "fst (main E a s) \<noteq> 2"
proof -
  have "case fst (main_dispatch E a s) of Inl e \<Rightarrow> ok_exc e | Inr _ \<Rightarrow> True"
    using sc_free_main_dispatch [of E a] by (simp add: sc_free_def)
  then show ?thesis
    by (auto simp: main_def split: prod.splits sum.splits error.splits)
qed

text \<open>
  C13. Bound on the work of one run: \<^verbatim>\<open>main\<close> only appends to the trace of
  \<^verbatim>\<open>systemctl\<close> invocations, and appends at most three (two queries and one
  command), whatever the command, the arguments and the answers of the system.
\<close>

theorem main_calls_bound:
  "\<exists>cs. calls (snd (main E a s)) = calls s @ cs \<and> length cs \<le> 3"
proof -
  have "\<exists>cs. calls (snd (main_dispatch E a s)) = calls s @ cs \<and> length cs \<le> 3"
    using scale_service_arg_calls_le [of E "a_service a" "a_num_procs a" "a_user a" s]
      control_active_units_calls_le [of E _ "a_service a" "a_user a" s]
      control_units_calls_le [of E _ "a_service a" "a_user a" s]
    by (fastforce simp: main_dispatch_def bindE_def split: option.splits)
  then show ?thesis by (simp add: main_calls)
qed

text \<open>
  C12. A failing \<^verbatim>\<open>systemctl\<close> call ends the process with status 1 and an
  \<^verbatim>\<open>AttributeError\<close> traceback: for \<^verbatim>\<open>start\<close>, \<^verbatim>\<open>enable\<close> and
  \<^verbatim>\<open>disable\<close>, whenever the manager answers with a non-zero status, \<^verbatim>\<open>main\<close>
  exits 1 instead of reporting the failure and exiting 2.
\<close>

theorem main_systemctl_failure_exit_1:
  assumes "a_cmd a = Some c" and "c \<in> {''start'', ''enable'', ''disable''}"
    and "list_dir E (enabled_dir E (a_user a)) (world s) = Some fs"
    and "run_proc E (systemctl_cmd (a_user a) @ c # sort (filter (\<lambda>f. py_startswith f (a_service a @ ''@'')) fs))
           (world s) = ((rc, so, se), w)"
    and "rc \<noteq> 0"
  shows "fst (main E a s) = 1 \<and> last (out (snd (main E a s))) = ''Traceback: AttributeError''"
proof -
  have "main_dispatch E a s = map_prod (map_sum id (\<lambda>_. ())) id
          (systemctl E (c # sort (filter (\<lambda>f. py_startswith f (a_service a @ ''@'')) fs)) (a_user a) False s)"
    using assms(1-3) by (auto simp: main_dispatch_def control_units_run)
  then show ?thesis
    using assms(4,5) by (simp add: main_def systemctl_run exc_name_def)
qed

end
