(* ===== verification/Manager.thy ===== *)
theory Manager
  imports Systemctl
begin

text \<open>
  The service manager, which the repository does not contain and the spec
  (sections 2 and 6) treats as an external collaborator: systemd with its
  \<^verbatim>\<open>systemctl\<close> command line and the directory of enabled links. It is modelled
  from the spec and from systemctl's documented behaviour, only as far as the
  script uses it, to run the script's code against it.

  A scope (the system manager, or with \<^verbatim>\<open>--user\<close> the user's manager) holds
  the installed unit files, the loaded units (a unit that is stopped is
  garbage-collected, so loaded means running here), the enabled units (the links
  in \<^verbatim>\<open>multi-user.target.wants\<close>) and whether that directory exists.
  \<open>sd_run\<close> answers one argument vector as \<^verbatim>\<open>systemctl\<close> would: exit status,
  stdout, stderr, and the new state; \<open>sd_list_dir\<close> lists the two directories.
  \<open>sd_env h\<close> packs them as the operating system the script runs on, with home
  directory \<open>h\<close>.
\<close>

record sd_scope =
  unit_files :: "string list"
  active :: "string set"
  enabled :: "string set"
  wants_dir :: bool

type_synonym sd_world = "bool \<Rightarrow> sd_scope"

section \<open>Patterns and unit names\<close>

text \<open>\<^verbatim>\<open>fnmatch\<close> with \<^verbatim>\<open>*\<close>; every other character matches itself.\<close>

fun glob_match :: "string \<Rightarrow> string \<Rightarrow> bool" where
  "glob_match [] s = (s = [])"
| "glob_match (p # ps) [] = (p = CHR ''*'' \<and> glob_match ps [])"
| "glob_match (p # ps) (c # cs) =
     (if p = CHR ''*'' then glob_match ps (c # cs) \<or> glob_match (p # ps) cs
      else c = p \<and> glob_match ps cs)"

definition py_endswith :: "string \<Rightarrow> string \<Rightarrow> bool" where
  "py_endswith s t \<longleftrightarrow> length t \<le> length s \<and> drop (length s - length t) s = t"

definition unit_suffixes :: "string list" where
  "unit_suffixes = [''.service'', ''.socket'', ''.target'', ''.timer'', ''.mount'', ''.path'',
                    ''.slice'', ''.scope'', ''.device'', ''.swap'', ''.automount'']"

text \<open>A name without a unit type is taken as a service.\<close>

definition sd_mangle :: "string \<Rightarrow> string" where
  "sd_mangle u = (if list_ex (py_endswith u) unit_suffixes then u else u @ ''.service'')"

text \<open>The template file of an instance \<open>t@i.type\<close> is \<open>t@.type\<close>.\<close>

definition sd_template :: "string \<Rightarrow> string" where
  "sd_template u =
     takeWhile (\<lambda>c. c \<noteq> CHR ''@'') u @ ''@.'' @ rev (takeWhile (\<lambda>c. c \<noteq> CHR ''.'') (rev u))"

definition sd_has_file :: "sd_scope \<Rightarrow> string \<Rightarrow> bool" where
  "sd_has_file sc u \<longleftrightarrow>
     u \<in> set (unit_files sc) \<or> (CHR ''@'' \<in> set u \<and> sd_template u \<in> set (unit_files sc))"

definition sd_matches :: "string list \<Rightarrow> string \<Rightarrow> bool" where
  "sd_matches pats u \<longleftrightarrow> pats = [] \<or> list_ex (\<lambda>p. glob_match p u) pats"

section \<open>The command line\<close>

text \<open>Options (words starting with \<^verbatim>\<open>-\<close>) and positional words; after \<^verbatim>\<open>--\<close> every word is positional.\<close>

fun sd_parse :: "string list \<Rightarrow> string list \<times> string list" where
  "sd_parse [] = ([], [])"
| "sd_parse (a # as) =
     (if a = ''--'' then ([], as)
      else (let (opts, pos) = sd_parse as in
            if py_startswith a ''-'' then (a # opts, pos) else (opts, a # pos)))"

definition sd_list_unit_files :: "sd_scope \<Rightarrow> string list \<Rightarrow> string" where
  "sd_list_unit_files sc pats =
     concat (map (\<lambda>f. f @ '' indirect'' @ [CHR 0x0A]) (filter (sd_matches pats) (unit_files sc)))"

definition sd_list_units :: "sd_scope \<Rightarrow> string list \<Rightarrow> string" where
  "sd_list_units sc pats =
     concat (map (\<lambda>u. u @ '' loaded active running '' @ u @ [CHR 0x0A])
               (filter (sd_matches pats) (sorted_list_of_set (active sc))))"

definition sd_status :: "sd_scope \<Rightarrow> string list \<Rightarrow> int \<times> string" where
  "sd_status sc us =
     ((if \<forall>u\<in>set us. u \<in> active sc then 0 else 3),
      concat (map (\<lambda>u. u @ (if u \<in> active sc then '' active'' else '' inactive'') @ [CHR 0x0A]) us))"

definition sd_verb :: "bool \<Rightarrow> string \<Rightarrow> string list \<Rightarrow> sd_scope \<Rightarrow> (int \<times> string \<times> string) \<times> sd_scope" where
  "sd_verb now verb units sc =
     (let us = map sd_mangle units in
      if verb = ''list-unit-files'' then ((0, sd_list_unit_files sc units, []), sc)
      else if verb = ''list-units'' then ((0, sd_list_units sc units, []), sc)
      else if verb = ''status'' then (let (rc, txt) = sd_status sc us in ((rc, txt, []), sc))
      else if verb \<notin> {''enable'', ''disable'', ''start'', ''stop'', ''restart''}
      then ((1, [], ''Unknown command verb '' @ verb @ ''.''), sc)
      else if units = [] then ((1, [], ''Too few arguments.''), sc)
      else if \<not> (\<forall>u\<in>set us. sd_has_file sc u)
      then (((if verb \<in> {''enable'', ''disable''} then 1 else 5), [], ''Unit file does not exist.''), sc)
      else if verb = ''enable''
      then ((0, [], []), sc\<lparr>enabled := enabled sc \<union> set us, wants_dir := True,
                           active := (if now then active sc \<union> set us else active sc)\<rparr>)
      else if verb = ''disable''
      then ((0, [], []), sc\<lparr>enabled := enabled sc - set us,
                           active := (if now then active sc - set us else active sc)\<rparr>)
      else if verb = ''stop'' then ((0, [], []), sc\<lparr>active := active sc - set us\<rparr>)
      else ((0, [], []), sc\<lparr>active := active sc \<union> set us\<rparr>))"

definition sd_run :: "string list \<Rightarrow> sd_world \<Rightarrow> (int \<times> string \<times> string) \<times> sd_world" where
  "sd_run argv w =
     (let (opts, pos) = sd_parse (drop 1 argv);
          user = ''--user'' \<in> set opts;
          (verb, units) = (case pos of [] \<Rightarrow> (''list-units'', []) | v # us \<Rightarrow> (v, us));
          (r, sc) = sd_verb (''--now'' \<in> set opts) verb units (w user)
      in (r, w(user := sc)))"

section \<open>The directory of enabled links\<close>

definition strip_slashes :: "string \<Rightarrow> string" where
  "strip_slashes p = rev (dropWhile (\<lambda>c. c = CHR ''/'') (rev p))"

definition sd_list_dir :: "string \<Rightarrow> string \<Rightarrow> sd_world \<Rightarrow> string list option" where
  "sd_list_dir h p w =
     (if strip_slashes p = ''/etc/systemd/system/multi-user.target.wants''
      then (if wants_dir (w False) then Some (sorted_list_of_set (enabled (w False))) else None)
      else if strip_slashes p = strip_slashes h @ ''/.config/systemd/user/multi-user.target.wants''
      then (if wants_dir (w True) then Some (sorted_list_of_set (enabled (w True))) else None)
      else None)"

definition sd_env :: "string \<Rightarrow> sd_world proc_env" where
  "sd_env h = \<lparr>run_proc = sd_run, list_dir = sd_list_dir h, home = h\<rparr>"

section \<open>Well-formed scopes\<close>

text \<open>
  A scope is well formed when its loaded and enabled units are finitely many and
  all have an installed unit file (their own or their template's), and the
  directory of enabled links exists as soon as one unit is enabled.
\<close>

definition sd_wf :: "sd_scope \<Rightarrow> bool" where
  "sd_wf sc \<longleftrightarrow>
     finite (active sc) \<and> finite (enabled sc) \<and>
     (\<forall>u\<in>active sc. sd_has_file sc u) \<and> (\<forall>u\<in>enabled sc. sd_has_file sc u) \<and>
     (enabled sc \<noteq> {} \<longrightarrow> wants_dir sc)"

definition sd_world_wf :: "sd_world \<Rightarrow> bool" where
  "sd_world_wf w \<longleftrightarrow> sd_wf (w False) \<and> sd_wf (w True)"

section \<open>Lemmas: patterns and the command line\<close>

lemma glob_match_literal: "CHR ''*'' \<notin> set p \<Longrightarrow> glob_match p s \<longleftrightarrow> s = p"
proof (induction p arbitrary: s)
  case Nil
  then show ?case by simp
next
  case (Cons a p)
  then show ?case by (cases s) auto
qed

lemma glob_match_star: "CHR ''*'' \<notin> set q \<Longrightarrow> glob_match (CHR ''*'' # q) s \<longleftrightarrow> (\<exists>x. s = x @ q)"
proof (induction s)
  case Nil
  then show ?case by (auto simp: glob_match_literal)
next
  case (Cons a s)
  then show ?case
    by (auto simp: glob_match_literal Cons_eq_append_conv)
qed

lemma glob_match_prefix:
  "CHR ''*'' \<notin> set p \<Longrightarrow> glob_match (p @ r) s \<longleftrightarrow> (\<exists>t. s = p @ t \<and> glob_match r t)"
proof (induction p arbitrary: s)
  case Nil
  then show ?case by simp
next
  case (Cons a p)
  then show ?case by (cases s) auto
qed

lemma glob_match_instances:
  "CHR ''*'' \<notin> set svc \<Longrightarrow>
   glob_match (svc @ ''@*.service'') u \<longleftrightarrow> (\<exists>x. u = svc @ CHR ''@'' # x @ ''.service'')"
proof -
  assume "CHR ''*'' \<notin> set svc"
  then have "glob_match ((svc @ ''@'') @ CHR ''*'' # ''.service'') u \<longleftrightarrow>
             (\<exists>t. u = (svc @ ''@'') @ t \<and> glob_match (CHR ''*'' # ''.service'') t)"
    by (intro glob_match_prefix) simp
  then show ?thesis by (auto simp: glob_match_star)
qed

lemma sd_parse_positional:
  "\<forall>a\<in>set as. a \<noteq> ''--'' \<and> \<not> py_startswith a ''-'' \<Longrightarrow> sd_parse as = ([], as)"
  by (induction as) auto

lemma py_endswith_last: "py_endswith s t \<Longrightarrow> t \<noteq> [] \<Longrightarrow> last s = last t"
  by (metis append_take_drop_id last_appendR py_endswith_def)

section \<open>Lemmas: every command keeps the scopes well formed\<close>

lemma sd_verb_wf:
  assumes "sd_wf sc"
  shows "sd_wf (snd (sd_verb now verb units sc)) \<and> unit_files (snd (sd_verb now verb units sc)) = unit_files sc"
  using assms
  by (auto simp: sd_verb_def Let_def sd_wf_def sd_has_file_def split: prod.splits)

lemma sd_run_wf:
  assumes "sd_world_wf w"
  shows "sd_world_wf (snd (sd_run argv w)) \<and> (\<forall>b. unit_files (snd (sd_run argv w) b) = unit_files (w b))"
proof -
  obtain opts pos where p: "sd_parse (drop 1 argv) = (opts, pos)" by fastforce
  obtain verb units where v: "(case pos of [] \<Rightarrow> (''list-units'', []) | v # us \<Rightarrow> (v, us)) = (verb, units)"
    by fastforce
  let ?u = "''--user'' \<in> set opts"
  have w: "sd_wf (w ?u)" using assms by (cases ?u) (simp_all add: sd_world_wf_def)
  have "snd (sd_run argv w) = w(?u := snd (sd_verb (''--now'' \<in> set opts) verb units (w ?u)))"
    using p v by (simp add: sd_run_def Let_def split: prod.splits)
  then show ?thesis
    using sd_verb_wf [OF w, of "''--now'' \<in> set opts" verb units] assms
    by (auto simp: sd_world_wf_def)
qed

end
