(* ===== verification/Runs.thy ===== *)
theory Runs
  imports Dispatch Manager
begin

text \<open>
  The script's code run against the systemd model of \<open>Manager\<close>. For a template
  \<open>svc\<close> (\<open>svc_ok\<close>: non-empty, not starting with \<^verbatim>\<open>-\<close>, without \<^verbatim>\<open>@\<close>,
  \<^verbatim>\<open>*\<close> or white space) whose unit file is installed, \<open>running svc sc\<close> is the set
  of loaded units the script's glob \<^verbatim>\<open>svc@*.service\<close> selects and
  \<open>unit_of svc k\<close> the name of instance \<open>k\<close>. The lemmas compute what each
  \<^verbatim>\<open>systemctl\<close> call of the script does on the model, then one whole
  \<open>scale_service\<close> run from any finite running set \<open>unit_of svc ` K\<close>
  (\<open>sd_scale_general\<close>): it returns normally, leaves running exactly the numbers
  of the abstract contract \<open>apply_plan\<close>, touches no other unit and makes two
  calls, or three when \<open>card K \<noteq> n\<close>. The properties built on it: convergence
  from \<open>1..m\<close>, the loop of the test, idempotence, refinement, two-pass
  convergence, and that \<open>main\<close> keeps the model well formed.
\<close>

definition unit_of :: "string \<Rightarrow> int \<Rightarrow> string" where
  "unit_of svc k = svc @ CHR ''@'' # py_str_int k @ ''.service''"

definition svc_ok :: "string \<Rightarrow> bool" where
  "svc_ok svc \<longleftrightarrow> svc \<noteq> [] \<and> hd svc \<noteq> CHR ''-'' \<and>
     list_all (\<lambda>c. c \<noteq> CHR ''@'' \<and> c \<noteq> CHR ''*'' \<and> \<not> py_isspace c) svc"

definition running :: "string \<Rightarrow> sd_scope \<Rightarrow> string set" where
  "running svc sc = {u \<in> active sc. glob_match (svc @ ''@*.service'') u}"

text \<open>
  The loop of the test \<^verbatim>\<open>can scale services\<close> (\<^verbatim>\<open>src/tests/test_sdmpm.py\<close>,
  lines 65-69): \<^verbatim>\<open>scale_service\<close> with each count in turn; an exception ends the test.
\<close>

fun scale_runs :: "'w proc_env \<Rightarrow> string \<Rightarrow> bool \<Rightarrow> int list \<Rightarrow> ('w, unit) py" where
  "scale_runs E svc user [] s = (Inr (), s)"
| "scale_runs E svc user (n # ns) s =
     (case scale_service E svc n user s of
        (Inl e, s') \<Rightarrow> (Inl e, s')
      | (Inr _, s') \<Rightarrow> scale_runs E svc user ns s')"

section \<open>Lemmas: unit names on the model\<close>

lemma unit_of_no_space:
  assumes "svc_ok svc" and "c \<in> set (unit_of svc k)"
  shows "\<not> py_isspace c"
proof -
  have "c \<in> set svc \<or> c \<in> set (py_str_int k) \<or> c \<in> set ''@.service''"
    using assms(2) by (auto simp: unit_of_def)
  moreover have "\<forall>c\<in>set ''@.service''. \<not> py_isspace c"
    by (simp add: py_isspace_def)
  ultimately show ?thesis
    using assms(1) py_str_int_no_space by (auto simp: svc_ok_def list_all_iff)
qed

lemma unit_number_unit_of: "svc_ok svc \<Longrightarrow> unit_number (unit_of svc k) = Inr k"
  unfolding unit_of_def svc_ok_def list_all_iff
  by (rule unit_number_name) auto

lemma inj_unit_of: "svc_ok svc \<Longrightarrow> inj (unit_of svc)"
  by (rule injI) (metis unit_number_unit_of sum.inject(2))

lemma glob_unit_of: "svc_ok svc \<Longrightarrow> glob_match (svc @ ''@*.service'') (unit_of svc k)"
proof -
  assume "svc_ok svc"
  then have "CHR ''*'' \<notin> set svc" by (auto simp: svc_ok_def list_all_iff)
  then show ?thesis unfolding glob_match_instances [OF \<open>CHR ''*'' \<notin> set svc\<close>] unit_of_def
    by blast
qed

lemma sd_run_list_unit_files:
  "sd_run (systemctl_cmd user @ list_unit_files_args svc) w =
     ((0, sd_list_unit_files (w user) [svc @ ''@.service''], []), w)"
  by (cases user) (simp_all add: sd_run_def systemctl_cmd_def list_unit_files_args_def sd_verb_def
      py_startswith_def Let_def)

lemma sd_run_list_units:
  "sd_run (systemctl_cmd user @ list_units_args svc) w =
     ((0, sd_list_units (w user) [svc @ ''@*.service''], []), w)"
  by (cases user) (simp_all add: sd_run_def systemctl_cmd_def list_units_args_def sd_verb_def
      py_startswith_def Let_def)

lemma listing_lines_no_break:
  assumes "svc_ok svc" and "u \<in> unit_of svc ` K"
  shows "\<forall>c\<in>set (u @ '' loaded active running '' @ u). \<not> is_line_break c"
proof -
  have "\<forall>c\<in>set u. \<not> py_isspace c" using assms unit_of_no_space by blast
  moreover have "\<forall>c\<in>set '' loaded active running ''. \<not> is_line_break c"
    by (simp add: is_line_break_def)
  ultimately show ?thesis using line_break_space by auto
qed

lemma first_token_listing:
  assumes "svc_ok svc" and "u \<in> unit_of svc ` K"
  shows "first_token (u @ '' loaded active running '' @ u) = Inr u"
proof -
  have "u \<noteq> []" using assms(2) by (auto simp: unit_of_def)
  moreover have "\<forall>c\<in>set u. \<not> py_isspace c" using assms unit_of_no_space by blast
  ultimately show ?thesis
    using first_token_word [of u "CHR '' ''" "''loaded active running '' @ u"]
    by (simp add: py_isspace_def)
qed

lemma sd_list_unit_files_found:
  assumes "svc_ok svc" and "svc @ ''@.service'' \<in> set (unit_files sc)"
  shows "py_strip (sd_list_unit_files sc [svc @ ''@.service'']) \<noteq> []"
proof -
  have "CHR ''*'' \<notin> set (svc @ ''@.service'')" using assms(1) by (auto simp: svc_ok_def list_all_iff)
  then have "svc @ ''@.service'' \<in> set (filter (sd_matches [svc @ ''@.service'']) (unit_files sc))"
    using assms(2) by (simp add: sd_matches_def glob_match_literal)
  then have "CHR ''@'' \<in> set (sd_list_unit_files sc [svc @ ''@.service''])"
    by (force simp: sd_list_unit_files_def)
  moreover have "\<not> py_isspace (CHR ''@'')" by (simp add: py_isspace_def)
  ultimately show ?thesis unfolding py_strip_Nil_iff by blast
qed

lemma sd_list_units_running:
  assumes "finite (active sc)" and "running svc sc = A"
  shows "sd_list_units sc [svc @ ''@*.service''] =
           concat (map (\<lambda>x. x @ [CHR 0x0A]) (map (\<lambda>u. u @ '' loaded active running '' @ u) (sorted_list_of_set A)))"
  using assms
  by (simp add: sd_list_units_def sd_matches_def filter_sorted_list_of_set running_def comp_def)

lemma sd_list_units_lines:
  assumes ok: "svc_ok svc" and fin: "finite (active sc)" and run: "running svc sc = unit_of svc ` K"
    and finK: "finite K"
  shows "py_splitlines (sd_list_units sc [svc @ ''@*.service'']) =
           map (\<lambda>u. u @ '' loaded active running '' @ u) (sorted_list_of_set (unit_of svc ` K))"
proof -
  let ?g = "\<lambda>u. u @ '' loaded active running '' @ u"
  have "py_splitlines (concat (map (\<lambda>x. x @ [CHR 0x0A]) (map ?g (sorted_list_of_set (unit_of svc ` K))))) =
          map ?g (sorted_list_of_set (unit_of svc ` K))"
    by (rule py_splitlines_lines) (use listing_lines_no_break [OF ok] finK in auto)
  then show ?thesis by (simp only: sd_list_units_running [OF fin run])
qed

lemma sd_get_active_units:
  assumes ok: "svc_ok svc" and hfile: "svc @ ''@.service'' \<in> set (unit_files (world s user))"
    and fin: "finite (active (world s user))" and run: "running svc (world s user) = unit_of svc ` K"
    and finK: "finite K"
  shows "get_active_units (sd_env h) svc user s =
    (Inr (sorted_list_of_set (unit_of svc ` K)),
     s\<lparr>calls := calls s @ [systemctl_cmd user @ list_unit_files_args svc,
                          systemctl_cmd user @ list_units_args svc]\<rparr>)"
proof -
  let ?L = "sorted_list_of_set (unit_of svc ` K)"
  let ?g = "\<lambda>u. u @ '' loaded active running '' @ u"
  have sl: "py_splitlines (sd_list_units (world s user) [svc @ ''@*.service'']) = map ?g ?L"
    by (rule sd_list_units_lines [OF ok fin run finK])
  have "mapE first_token (map ?g ?L) = Inr (map (\<lambda>u. u) ?L)"
    by (rule mapE_map_comp) (use first_token_listing [OF ok] finK in auto)
  then have ft: "mapE first_token (map ?g ?L) = Inr ?L" by simp
  have st: "sort ?L = ?L" by (simp add: sorted_sort_id)
  show ?thesis
    using sd_list_unit_files_found [OF ok hfile] sl ft st
    by (simp add: get_active_units_def bindE_def systemctl_run sd_env_def sd_run_list_unit_files
        sd_run_list_units)
qed

lemma sd_mangle_instance: "sd_mangle (svc @ CHR ''@'' # py_str_int k) = unit_of svc k"
proof -
  let ?u = "svc @ CHR ''@'' # py_str_int k"
  have "last ?u = last (py_str_int k)" using nat_str_nonempty
    by (simp add: py_str_int_def)
  then have d: "is_digit (last ?u)" using py_str_int_last by simp
  have "\<not> py_endswith ?u t" if "t \<in> set unit_suffixes" for t
  proof
    assume "py_endswith ?u t"
    moreover have "t \<noteq> []" "\<not> is_digit (last t)"
      using that by (auto simp: unit_suffixes_def is_digit_def)
    ultimately show False using d py_endswith_last by metis
  qed
  then show ?thesis by (auto simp: sd_mangle_def unit_of_def list_ex_iff)
qed

lemma sd_template_unit_of: "svc_ok svc \<Longrightarrow> sd_template (unit_of svc k) = svc @ ''@.service''"
proof -
  assume ok: "svc_ok svc"
  then have "takeWhile (\<lambda>c. c \<noteq> CHR ''@'') (unit_of svc k) = svc"
    by (simp add: unit_of_def svc_ok_def list_all_iff takeWhile_append2 takeWhile_tail)
  moreover have "rev (takeWhile (\<lambda>c. c \<noteq> CHR ''.'') (rev (unit_of svc k))) = ''service''"
    by (simp add: unit_of_def)
  ultimately show ?thesis by (simp add: sd_template_def)
qed

lemma set_service_num_strs: "finite ns \<Longrightarrow> set (service_num_strs ns) = py_str_int ` ns"
  by (simp add: service_num_strs_def)

lemma sd_run_scale:
  assumes ok: "svc_ok svc" and hf: "svc @ ''@.service'' \<in> set (unit_files (w user))"
    and ne: "ns \<noteq> {}" and fin: "finite ns" and cmd: "cmd = ''enable'' \<or> cmd = ''disable''"
  shows "sd_run (systemctl_cmd user @ scale_args svc cmd ns) w =
    ((0, [], []), w(user :=
       if cmd = ''enable''
       then (w user)\<lparr>enabled := enabled (w user) \<union> unit_of svc ` ns, wants_dir := True,
                     active := active (w user) \<union> unit_of svc ` ns\<rparr>
       else (w user)\<lparr>enabled := enabled (w user) - unit_of svc ` ns,
                     active := active (w user) - unit_of svc ` ns\<rparr>))"
proof -
  let ?names = "map (\<lambda>x. svc @ CHR ''@'' # x) (service_num_strs ns)"
  have hd_svc: "svc \<noteq> []" "hd svc \<noteq> CHR ''-''" using ok by (auto simp: svc_ok_def)
  have pos: "\<forall>a\<in>set ?names. a \<noteq> ''--'' \<and> \<not> py_startswith a ''-''"
    using hd_svc by (cases svc) (auto simp: py_startswith_def)
  have parse: "sd_parse ?names = ([], ?names)" using pos by (rule sd_parse_positional)
  have mangle: "set (map sd_mangle ?names) = unit_of svc ` ns"
    using fin by (auto simp: set_service_num_strs sd_mangle_instance image_image)
  have nn: "?names \<noteq> []" using ne fin set_service_num_strs [OF fin] by auto
  have files: "\<forall>u\<in>set (map sd_mangle ?names). sd_has_file (w user) u"
    using mangle hf sd_template_unit_of [OF ok] by (auto simp: sd_has_file_def unit_of_def)
  have p: "sd_parse (drop 1 (systemctl_cmd user @ scale_args svc cmd ns)) =
      ([''--no-legend'', ''--no-pager''] @ (if user then [''--user''] else []) @ [''--quiet'', ''--now''],
       cmd # ?names)"
    using cmd parse by (cases user) (auto simp: systemctl_cmd_def scale_args_def py_startswith_def)
  have v: "sd_verb True cmd ?names (w user) =
      ((0, [], []),
       if cmd = ''enable''
       then (w user)\<lparr>enabled := enabled (w user) \<union> unit_of svc ` ns, wants_dir := True,
                     active := active (w user) \<union> unit_of svc ` ns\<rparr>
       else (w user)\<lparr>enabled := enabled (w user) - unit_of svc ` ns,
                     active := active (w user) - unit_of svc ` ns\<rparr>)"
    using cmd nn files mangle by (auto simp only: sd_verb_def Let_def) (simp_all)
  have u: "(''--user'' \<in> set ([''--no-legend'', ''--no-pager''] @ (if user then [''--user''] else []) @
                             [''--quiet'', ''--now''])) = user"
    by (cases user) simp_all
  show ?thesis
    unfolding sd_run_def p by (simp add: v u)
qed

lemma unit_numbers_sorted:
  assumes ok: "svc_ok svc" and fin: "finite K"
  shows "mapE unit_number (sorted_list_of_set (unit_of svc ` K)) =
           Inr (map (\<lambda>u. case unit_number u of Inr k \<Rightarrow> k | Inl _ \<Rightarrow> 0) (sorted_list_of_set (unit_of svc ` K)))"
    and "set (map (\<lambda>u. case unit_number u of Inr k \<Rightarrow> k | Inl _ \<Rightarrow> 0) (sorted_list_of_set (unit_of svc ` K))) = K"
    and "length (sorted_list_of_set (unit_of svc ` K)) = card K"
proof -
  show "mapE unit_number (sorted_list_of_set (unit_of svc ` K)) =
          Inr (map (\<lambda>u. case unit_number u of Inr k \<Rightarrow> k | Inl _ \<Rightarrow> 0) (sorted_list_of_set (unit_of svc ` K)))"
    using fin unit_number_unit_of [OF ok] by (intro mapE_map) auto
  show "set (map (\<lambda>u. case unit_number u of Inr k \<Rightarrow> k | Inl _ \<Rightarrow> 0) (sorted_list_of_set (unit_of svc ` K))) = K"
    using fin unit_number_unit_of [OF ok] by (force simp: image_image)
  show "length (sorted_list_of_set (unit_of svc ` K)) = card K"
    using fin inj_unit_of [OF ok] by (simp add: card_image inj_on_subset)
qed

lemma scale_plan_interval:
  assumes "0 \<le> n"
  shows "scale_plan m {1..int m} n =
    (if n < int m then Some (''disable'', {1..int m} - {1..n})
     else if int m < n then Some (''enable'', {1..n} - {1..int m}) else None)"
  using assms by (simp add: scale_plan_def)

lemma sd_write_step:
  assumes ok: "svc_ok svc" and hf: "svc @ ''@.service'' \<in> set (unit_files (world s1 user))"
    and ne: "ns \<noteq> {}" and fin: "finite ns" and cmd: "cmd = ''enable'' \<or> cmd = ''disable''"
  shows "systemctl (sd_env h) (scale_args svc cmd ns) user False s1 =
    (Inr None, s1\<lparr>world := (world s1)(user :=
       if cmd = ''enable''
       then (world s1 user)\<lparr>enabled := enabled (world s1 user) \<union> unit_of svc ` ns, wants_dir := True,
                     active := active (world s1 user) \<union> unit_of svc ` ns\<rparr>
       else (world s1 user)\<lparr>enabled := enabled (world s1 user) - unit_of svc ` ns,
                     active := active (world s1 user) - unit_of svc ` ns\<rparr>),
       calls := calls s1 @ [systemctl_cmd user @ scale_args svc cmd ns]\<rparr>)"
  using sd_run_scale [where w = "world s1" and user = user, OF ok hf ne fin cmd]
  by (simp add: systemctl_run sd_env_def)

lemma running_update:
  "running svc (sc\<lparr>enabled := e, wants_dir := b, active := A\<rparr>) = {u \<in> A. glob_match (svc @ ''@*.service'') u}"
  "running svc (sc\<lparr>enabled := e, active := A\<rparr>) = {u \<in> A. glob_match (svc @ ''@*.service'') u}"
  by (simp_all add: running_def)

lemma scale_plan_ok:
  assumes "finite K" and "0 \<le> n" and "scale_plan (card K) K n = Some (cmd, ns)"
  shows "(cmd = ''enable'' \<or> cmd = ''disable'') \<and> finite ns \<and> ns \<noteq> {}"
proof -
  have cW: "card {1..n} = nat n" using assms(2) by simp
  consider (down) "n < int (card K)" | (up) "int (card K) < n" | (eq) "int (card K) = n" by linarith
  then show ?thesis
  proof cases
    case down
    then have "cmd = ''disable''" "ns = K - {1..n}" using assms(3) by (simp_all add: scale_plan_def)
    moreover have "K - {1..n} \<noteq> {}"
      using down assms(2) cW card_mono [of "{1..n}" K] by (auto simp del: card_atLeastAtMost_int)
    ultimately show ?thesis using assms(1) by simp
  next
    case up
    then have "cmd = ''enable''" "ns = {1..n} - K" using assms(3) by (simp_all add: scale_plan_def)
    moreover have "{1..n} - K \<noteq> {}"
      using up cW card_mono [OF assms(1), of "{1..n}"] by (auto simp del: card_atLeastAtMost_int)
    ultimately show ?thesis by simp
  next
    case eq
    then show ?thesis using assms(3) by (simp add: scale_plan_def)
  qed
qed

lemma sd_scale_observe:
  assumes ok: "svc_ok svc" and hf: "svc @ ''@.service'' \<in> set (unit_files (world s user))"
    and fin: "finite (active (world s user))" and run: "running svc (world s user) = unit_of svc ` K"
    and finK: "finite K" and n: "0 \<le> n"
  shows "scale_observe (sd_env h) svc n user s =
    (Inr (card K, scale_plan (card K) K n),
     s\<lparr>calls := calls s @ [systemctl_cmd user @ list_unit_files_args svc,
                          systemctl_cmd user @ list_units_args svc]\<rparr>)"
proof -
  let ?L = "sorted_list_of_set (unit_of svc ` K)"
  have ga: "get_active_units (sd_env h) svc user s =
    (Inr ?L, s\<lparr>calls := calls s @ [systemctl_cmd user @ list_unit_files_args svc,
                                   systemctl_cmd user @ list_units_args svc]\<rparr>)"
    by (rule sd_get_active_units [OF ok hf fin run finK])
  show ?thesis
    using unit_numbers_sorted [OF ok finK] n by (simp add: scale_observe_def bindE_Inr [where m = "get_active_units (sd_env h) svc user", OF ga])
qed

lemma sd_scale_commit:
  assumes ok: "svc_ok svc" and hf: "svc @ ''@.service'' \<in> set (unit_files (world s user))"
    and fin: "finite (active (world s user))" and run: "running svc (world s user) = unit_of svc ` K"
    and pl: "\<forall>cmd ns. p = Some (cmd, ns) \<longrightarrow> (cmd = ''enable'' \<or> cmd = ''disable'') \<and> finite ns \<and> ns \<noteq> {}"
  shows "fst (scale_commit (sd_env h) svc n user (k, p) s) = Inr () \<and>
      (\<exists>sc. world (snd (scale_commit (sd_env h) svc n user (k, p) s)) = (world s)(user := sc) \<and>
              unit_files sc = unit_files (world s user) \<and> finite (active sc) \<and>
              running svc sc = unit_of svc ` apply_plan p K \<and>
              active sc - running svc sc = active (world s user) - running svc (world s user)) \<and>
      length (calls (snd (scale_commit (sd_env h) svc n user (k, p) s))) =
           length (calls s) + (if p = None then 0 else 1)"
proof (cases p)
  case None
  then show ?thesis using fin run
    by (auto simp: scale_commit_def py_print_def apply_plan_def intro!: exI [of _ "world s user"])
next
  case (Some q)
  obtain cmd ns where q: "q = (cmd, ns)" by fastforce
  have c: "cmd = ''enable'' \<or> cmd = ''disable''" and finns: "finite ns" and ne: "ns \<noteq> {}"
    using pl Some q by auto
  have inj: "inj (unit_of svc)" by (rule inj_unit_of [OF ok])
  let ?s1 = "s\<lparr>out := out s @ [scale_message k n cmd (service_num_strs ns)]\<rparr>"
  have w: "systemctl (sd_env h) (scale_args svc cmd ns) user False ?s1 =
    (Inr None, ?s1\<lparr>world := (world ?s1)(user :=
       if cmd = ''enable''
       then (world ?s1 user)\<lparr>enabled := enabled (world ?s1 user) \<union> unit_of svc ` ns, wants_dir := True,
                     active := active (world ?s1 user) \<union> unit_of svc ` ns\<rparr>
       else (world ?s1 user)\<lparr>enabled := enabled (world ?s1 user) - unit_of svc ` ns,
                     active := active (world ?s1 user) - unit_of svc ` ns\<rparr>),
       calls := calls ?s1 @ [systemctl_cmd user @ scale_args svc cmd ns]\<rparr>)"
    using sd_write_step [where h = h, OF ok _ ne finns c] hf by simp
  have r: "scale_commit (sd_env h) svc n user (k, p) s =
      (Inr (), snd (systemctl (sd_env h) (scale_args svc cmd ns) user False ?s1))"
    using w by (simp add: Some q scale_commit_def bindE_def py_print_def returnE_def)
  from c show ?thesis
  proof
    assume e: "cmd = ''enable''"
    let ?sc = "(world s user)\<lparr>enabled := enabled (world s user) \<union> unit_of svc ` ns, wants_dir := True,
                     active := active (world s user) \<union> unit_of svc ` ns\<rparr>"
    have rs: "running svc ?sc = unit_of svc ` apply_plan p K"
      using run glob_unit_of [OF ok] by (auto simp: running_def Some q e apply_plan_def)
    have o: "active ?sc - running svc ?sc = active (world s user) - running svc (world s user)"
      using glob_unit_of [OF ok] by (auto simp: running_def)
    show ?thesis using r w rs o fin finns e Some by (auto intro!: exI [of _ ?sc])
  next
    assume d: "cmd = ''disable''"
    let ?sc = "(world s user)\<lparr>enabled := enabled (world s user) - unit_of svc ` ns,
                     active := active (world s user) - unit_of svc ` ns\<rparr>"
    have "running svc ?sc = unit_of svc ` K - unit_of svc ` ns"
      using run glob_unit_of [OF ok] by (auto simp: running_def)
    then have rs: "running svc ?sc = unit_of svc ` apply_plan p K"
      by (simp add: image_set_diff [OF inj] Some q d apply_plan_def)
    have o: "active ?sc - running svc ?sc = active (world s user) - running svc (world s user)"
      using glob_unit_of [OF ok] by (auto simp: running_def)
    show ?thesis using r w rs o fin d Some by (auto intro!: exI [of _ ?sc])
  qed
qed

lemma sd_scale_general:
  assumes ok: "svc_ok svc" and hf: "svc @ ''@.service'' \<in> set (unit_files (world s user))"
    and fin: "finite (active (world s user))" and run: "running svc (world s user) = unit_of svc ` K"
    and finK: "finite K" and n: "0 \<le> n"
  shows "fst (scale_service (sd_env h) svc n user s) = Inr () \<and>
      (\<exists>sc. world (snd (scale_service (sd_env h) svc n user s)) = (world s)(user := sc) \<and>
              unit_files sc = unit_files (world s user) \<and> finite (active sc) \<and>
              running svc sc = unit_of svc ` apply_plan (scale_plan (card K) K n) K \<and>
              active sc - running svc sc = active (world s user) - running svc (world s user)) \<and>
      length (calls (snd (scale_service (sd_env h) svc n user s))) =
           length (calls s) + (if int (card K) = n then 2 else 3)"
proof -
  let ?p = "scale_plan (card K) K n"
  let ?s1 = "s\<lparr>calls := calls s @ [systemctl_cmd user @ list_unit_files_args svc,
                                    systemctl_cmd user @ list_units_args svc]\<rparr>"
  have split: "scale_service (sd_env h) svc n user s = scale_commit (sd_env h) svc n user (card K, ?p) ?s1"
    by (simp add: scale_service_phases
        bindE_Inr [where m = "scale_observe (sd_env h) svc n user", OF sd_scale_observe [OF ok hf fin run finK n]])
  have pl: "\<forall>cmd ns. ?p = Some (cmd, ns) \<longrightarrow> (cmd = ''enable'' \<or> cmd = ''disable'') \<and> finite ns \<and> ns \<noteq> {}"
    using scale_plan_ok [OF finK n] by blast
  have none: "?p = None \<longleftrightarrow> int (card K) = n" by (auto simp: scale_plan_def Let_def)
  show ?thesis
    using sd_scale_commit [of svc ?s1 user K ?p h n "card K"] ok hf fin run pl none
    unfolding split by simp
qed

lemma sd_scale_step:
  assumes ok: "svc_ok svc" and hf: "svc @ ''@.service'' \<in> set (unit_files (world s user))"
    and fin: "finite (active (world s user))" and run: "running svc (world s user) = unit_of svc ` {1..int m}"
    and n: "0 \<le> n"
  shows "fst (scale_service (sd_env h) svc n user s) = Inr ()"
    and "\<exists>sc. world (snd (scale_service (sd_env h) svc n user s)) = (world s)(user := sc) \<and>
              unit_files sc = unit_files (world s user) \<and> finite (active sc) \<and>
              running svc sc = unit_of svc ` {1..n} \<and>
              active sc - running svc sc = active (world s user) - running svc (world s user)"
    and "length (calls (snd (scale_service (sd_env h) svc n user s))) =
           length (calls s) + (if int m = n then 2 else 3)"
proof -
  have ap: "apply_plan (scale_plan (card {1..int m}) {1..int m} n) {1..int m} = {1..n}"
    using scale_plan_interval [OF n, of m] by (auto simp: apply_plan_def)
  have g: "fst (scale_service (sd_env h) svc n user s) = Inr () \<and>
      (\<exists>sc. world (snd (scale_service (sd_env h) svc n user s)) = (world s)(user := sc) \<and>
              unit_files sc = unit_files (world s user) \<and> finite (active sc) \<and>
              running svc sc = unit_of svc ` {1..n} \<and>
              active sc - running svc sc = active (world s user) - running svc (world s user)) \<and>
      length (calls (snd (scale_service (sd_env h) svc n user s))) =
           length (calls s) + (if int m = n then 2 else 3)"
    using sd_scale_general [OF ok hf fin run _ n, of h] ap by simp
  then show "fst (scale_service (sd_env h) svc n user s) = Inr ()"
    and "\<exists>sc. world (snd (scale_service (sd_env h) svc n user s)) = (world s)(user := sc) \<and>
              unit_files sc = unit_files (world s user) \<and> finite (active sc) \<and>
              running svc sc = unit_of svc ` {1..n} \<and>
              active sc - running svc sc = active (world s user) - running svc (world s user)"
    and "length (calls (snd (scale_service (sd_env h) svc n user s))) =
           length (calls s) + (if int m = n then 2 else 3)"
    by blast+
qed

lemma sd_scale_noop:
  assumes ok: "svc_ok svc" and hf: "svc @ ''@.service'' \<in> set (unit_files (world s user))"
    and fin: "finite (active (world s user))" and run: "running svc (world s user) = unit_of svc ` {1..n}"
    and n: "0 \<le> n"
  shows "scale_service (sd_env h) svc n user s =
    (Inr (), s\<lparr>calls := calls s @ [systemctl_cmd user @ list_unit_files_args svc,
                                  systemctl_cmd user @ list_units_args svc],
              out := out s @ [''correct number of units running, not doing anything'']\<rparr>)"
proof -
  let ?L = "sorted_list_of_set (unit_of svc ` {1..int (nat n)})"
  have run': "running svc (world s user) = unit_of svc ` {1..int (nat n)}" using run n by simp
  have ga: "get_active_units (sd_env h) svc user s =
      (Inr ?L, s\<lparr>calls := calls s @ [systemctl_cmd user @ list_unit_files_args svc,
                                     systemctl_cmd user @ list_units_args svc]\<rparr>)"
    using sd_get_active_units [OF ok hf fin run'] by simp
  have nums: "mapE unit_number ?L = Inr (map (\<lambda>u. case unit_number u of Inr k \<Rightarrow> k | Inl _ \<Rightarrow> 0) ?L)"
    and "set (map (\<lambda>u. case unit_number u of Inr k \<Rightarrow> k | Inl _ \<Rightarrow> 0) ?L) = {1..int (nat n)}"
    and "length ?L = nat n"
    using unit_numbers_sorted [OF ok, of "{1..int (nat n)}"] by simp_all
  then show ?thesis
    using scale_service_run [OF ga nums n] scale_plan_interval [OF n, of "nat n"] n by simp
qed

lemma sd_scale_invariant:
  assumes "svc_ok svc" and "svc @ ''@.service'' \<in> set (unit_files (world s user))"
    and "finite (active (world s user))" and "running svc (world s user) = unit_of svc ` {1..int m}"
    and "0 \<le> n"
  shows "svc @ ''@.service'' \<in> set (unit_files (world (snd (scale_service (sd_env h) svc n user s)) user)) \<and>
         finite (active (world (snd (scale_service (sd_env h) svc n user s)) user)) \<and>
         running svc (world (snd (scale_service (sd_env h) svc n user s)) user) = unit_of svc ` {1..int (nat n)}"
  using sd_scale_step(2) [OF assms, of h] assms(2,5) by auto

lemma scale_runs_model:
  assumes ok: "svc_ok svc" and "svc @ ''@.service'' \<in> set (unit_files (world s user))"
    and "finite (active (world s user))" and "running svc (world s user) = unit_of svc ` {1..int m}"
    and "\<forall>n\<in>set ns. 0 \<le> n"
  shows "fst (scale_runs (sd_env h) svc user ns s) = Inr () \<and>
         running svc (world (snd (scale_runs (sd_env h) svc user ns s)) user) =
           unit_of svc ` {1..(if ns = [] then int m else last ns)}"
  using assms(2-5)
proof (induction ns arbitrary: s m)
  case Nil
  then show ?case by simp
next
  case (Cons n ns)
  have n: "0 \<le> n" using Cons.prems(4) by simp
  obtain s' where r: "scale_service (sd_env h) svc n user s = (Inr (), s')"
    using sd_scale_step(1) [OF ok Cons.prems(1-3) n, of h] by (metis prod.collapse)
  have inv: "svc @ ''@.service'' \<in> set (unit_files (world s' user))" "finite (active (world s' user))"
    "running svc (world s' user) = unit_of svc ` {1..int (nat n)}"
    using sd_scale_invariant [OF ok Cons.prems(1-3) n, of h] r by auto
  have IH: "fst (scale_runs (sd_env h) svc user ns s') = Inr () \<and>
         running svc (world (snd (scale_runs (sd_env h) svc user ns s')) user) =
           unit_of svc ` {1..(if ns = [] then int (nat n) else last ns)}"
    using Cons.IH [OF inv] Cons.prems(4) by simp
  show ?case using IH n by (simp add: r)
qed

section \<open>Lemmas: the script keeps the service manager well formed\<close>

lemma sd_env_keeps_wf:
  "env_keeps (\<lambda>w. sd_world_wf w \<and> (\<forall>b. unit_files (w b) = F b)) (sd_env h)"
  using sd_run_wf by (simp add: env_keeps_def sd_env_def)

lemma main_keeps_wf:
  assumes "sd_world_wf (world s)"
  shows "sd_world_wf (world (snd (main (sd_env h) a s))) \<and>
         (\<forall>b. unit_files (world (snd (main (sd_env h) a s)) b) = unit_files (world s b))"
proof -
  let ?P = "\<lambda>w. sd_world_wf w \<and> (\<forall>b. unit_files (w b) = unit_files (world s b))"
  have "keeps ?P (main_dispatch (sd_env h) a)"
    by (rule keeps_main_dispatch [OF env_keeps_as_all [OF sd_env_keeps_wf]])
  then have "?P (world (snd (main_dispatch (sd_env h) a s)))"
    using assms by (simp add: keeps_def)
  then show ?thesis by (simp add: main_world)
qed

lemma sd_env_user_frame: "env_keeps_as True (\<lambda>w. w False = X) (sd_env h)"
  by (simp add: env_keeps_as_def sd_env_def sd_run_def systemctl_cmd_def py_startswith_def
      split: prod.splits)

lemma main_user_frame:
  assumes "a_user a"
  shows "world (snd (main (sd_env h) a s)) False = world s False"
proof -
  have "keeps (\<lambda>w. w False = world s False) (main_dispatch (sd_env h) a)"
    using keeps_main_dispatch [of a "\<lambda>w. w False = world s False" "sd_env h"] sd_env_user_frame assms by simp
  then show ?thesis by (simp add: keeps_def main_world)
qed

section \<open>Properties of scaling against the service manager\<close>

text \<open>
  C2. Convergence: when the running instances of the template are \<open>1..m\<close>, one
  \<^verbatim>\<open>scale\<close> to \<open>n \<ge> 0\<close> returns normally and leaves exactly \<open>1..n\<close> running,
  every other unit of the scope as it was.
\<close>

theorem scale_converges:
  assumes "svc_ok svc" and "svc @ ''@.service'' \<in> set (unit_files (world s user))"
    and "finite (active (world s user))" and "running svc (world s user) = unit_of svc ` {1..int m}"
    and "0 \<le> n"
  shows "fst (scale_service (sd_env h) svc n user s) = Inr () \<and>
         (\<exists>sc. world (snd (scale_service (sd_env h) svc n user s)) = (world s)(user := sc) \<and>
               running svc sc = unit_of svc ` {1..n} \<and>
               active sc - running svc sc = active (world s user) - running svc (world s user))"
  using sd_scale_step(1,2) [OF assms, of h] by blast

text \<open>
  C3. The test loop: from a template whose running instances are \<open>1..m\<close> (none,
  for a fresh one), scaling through any list of non-negative counts returns normally
  and ends with exactly \<open>1..n\<close> running for the last count \<open>n\<close>; so the test's
  assertion after each step holds.
\<close>

theorem scale_runs_converge:
  assumes "svc_ok svc" and "svc @ ''@.service'' \<in> set (unit_files (world s user))"
    and "finite (active (world s user))" and "running svc (world s user) = unit_of svc ` {1..int m}"
    and "\<forall>n\<in>set ns. 0 \<le> n" and "ns \<noteq> []"
  shows "fst (scale_runs (sd_env h) svc user ns s) = Inr () \<and>
         card (running svc (world (snd (scale_runs (sd_env h) svc user ns s)) user)) = nat (last ns)"
proof -
  have "running svc (world (snd (scale_runs (sd_env h) svc user ns s)) user) = unit_of svc ` {1..last ns}"
    and "fst (scale_runs (sd_env h) svc user ns s) = Inr ()"
    using scale_runs_model [OF assms(1-5), of h] assms(6) by simp_all
  moreover have "card (unit_of svc ` {1..last ns}) = nat (last ns)"
    using inj_unit_of [OF assms(1)] by (simp add: card_image inj_on_subset)
  ultimately show ?thesis by simp
qed

text \<open>
  C5. Idempotence: after one \<^verbatim>\<open>scale\<close> to \<open>n\<close> from a contiguous start, a second
  \<^verbatim>\<open>scale\<close> to \<open>n\<close> changes nothing: it only makes the two listing calls and
  prints that the count is already right.
\<close>

theorem scale_idempotent:
  assumes "svc_ok svc" and "svc @ ''@.service'' \<in> set (unit_files (world s user))"
    and "finite (active (world s user))" and "running svc (world s user) = unit_of svc ` {1..int m}"
    and "0 \<le> n"
  shows "scale_service (sd_env h) svc n user (snd (scale_service (sd_env h) svc n user s)) =
    (Inr (), (snd (scale_service (sd_env h) svc n user s))
       \<lparr>calls := calls (snd (scale_service (sd_env h) svc n user s)) @
                   [systemctl_cmd user @ list_unit_files_args svc, systemctl_cmd user @ list_units_args svc],
        out := out (snd (scale_service (sd_env h) svc n user s)) @
                 [''correct number of units running, not doing anything'']\<rparr>)"
proof -
  have "svc @ ''@.service'' \<in> set (unit_files (world (snd (scale_service (sd_env h) svc n user s)) user))"
    "finite (active (world (snd (scale_service (sd_env h) svc n user s)) user))"
    "running svc (world (snd (scale_service (sd_env h) svc n user s)) user) = unit_of svc ` {1..n}"
    using sd_scale_invariant [OF assms, of h] assms(5) by auto
  then show ?thesis using sd_scale_noop [OF assms(1) _ _ _ assms(5)] by blast
qed

text \<open>
  C1. Refinement: on the service manager, one \<^verbatim>\<open>scale\<close> from any finite set
  \<open>K\<close> of running instance numbers returns normally and leaves running exactly the
  numbers the abstract contract \<open>apply_plan (scale_plan (card K) K n) K\<close> gives,
  every other unit of the scope as it was.
\<close>

theorem scale_simulates_plan:
  assumes "svc_ok svc" and "svc @ ''@.service'' \<in> set (unit_files (world s user))"
    and "finite (active (world s user))" and "running svc (world s user) = unit_of svc ` K"
    and "finite K" and "0 \<le> n"
  shows "fst (scale_service (sd_env h) svc n user s) = Inr () \<and>
         (\<exists>sc. world (snd (scale_service (sd_env h) svc n user s)) = (world s)(user := sc) \<and>
               running svc sc = unit_of svc ` apply_plan (scale_plan (card K) K n) K \<and>
               active sc - running svc sc = active (world s user) - running svc (world s user))"
  using sd_scale_general [OF assms, of h] by blast

text \<open>
  C4. Two passes: from any finite set \<open>K\<close> of running instances whose size is not
  already the count asked for, a second \<^verbatim>\<open>scale\<close> to the same count returns
  normally and leaves exactly \<open>1..n\<close> running. (When the size already equals
  \<open>n\<close>, every pass is a no-op and \<open>K\<close> stays as it is.)
\<close>

theorem scale_two_passes:
  assumes ok: "svc_ok svc" and hf: "svc @ ''@.service'' \<in> set (unit_files (world s user))"
    and fin: "finite (active (world s user))" and run: "running svc (world s user) = unit_of svc ` K"
    and finK: "finite K" and n: "0 \<le> n" and ne: "int (card K) \<noteq> n"
  shows "fst (scale_service (sd_env h) svc n user (snd (scale_service (sd_env h) svc n user s))) = Inr () \<and>
         running svc (world (snd (scale_service (sd_env h) svc n user
                                     (snd (scale_service (sd_env h) svc n user s)))) user) =
           unit_of svc ` {1..n}"
proof -
  let ?s1 = "snd (scale_service (sd_env h) svc n user s)"
  let ?K1 = "apply_plan (scale_plan (card K) K n) K"
  obtain sc where sc: "world ?s1 = (world s)(user := sc)" "unit_files sc = unit_files (world s user)"
      "finite (active sc)" "running svc sc = unit_of svc ` ?K1"
    using sd_scale_general [OF ok hf fin run finK n, of h] by blast
  have finK1: "finite ?K1" using apply_plan_finite [OF finK] .
  have hf1: "svc @ ''@.service'' \<in> set (unit_files (world ?s1 user))" using sc hf by simp
  have fin1: "finite (active (world ?s1 user))" using sc by simp
  have run1: "running svc (world ?s1 user) = unit_of svc ` ?K1" using sc by simp
  obtain sc2 where "fst (scale_service (sd_env h) svc n user ?s1) = Inr ()"
      "world (snd (scale_service (sd_env h) svc n user ?s1)) = (world ?s1)(user := sc2)"
      "running svc sc2 = unit_of svc ` apply_plan (scale_plan (card ?K1) ?K1 n) ?K1"
    using sd_scale_general [OF ok hf1 fin1 run1 finK1 n, of h] by blast
  then show ?thesis using apply_plan_twice [OF finK n ne] by simp
qed

end
