(* ===== verification/Cli.thy ===== *)
theory Cli
  imports Dispatch
begin

text \<open>
  The command line of \<^verbatim>\<open>main\<close> (lines 139-155 of \<^verbatim>\<open>src/src/sdmpm.py\<close>): an
  \<^verbatim>\<open>argparse\<close> parser with the flag \<^verbatim>\<open>--user\<close> and seven sub-commands, each
  taking \<^verbatim>\<open>service\<close>, and \<^verbatim>\<open>scale\<close> also \<^verbatim>\<open>num_procs\<close> with
  \<^verbatim>\<open>type=int\<close>. \<open>parse_args\<close> is what \<^verbatim>\<open>parser.parse_args(argv)\<close> does with this
  configuration, following the algorithm of \<^verbatim>\<open>argparse\<close> (CPython 3.11): every
  token is first classified as an option or a positional (\<open>classify_arg\<close>, which
  is \<^verbatim>\<open>_parse_optional\<close> with the abbreviations of \<^verbatim>\<open>_get_option_tuples\<close>), then
  the tokens are consumed left to right: the main parser's options up to the first
  positional, which names the sub-command and hands it all the rest
  (\<open>scan_main\<close>), then the sub-command's positionals and options
  (\<open>scan_sub\<close>). A \<^verbatim>\<open>--\<close> before the command is an invalid choice; in the
  sub-command the first \<^verbatim>\<open>--\<close> ends the options and every later token is
  positional (\<open>scan_rest\<close>), where a literal \<^verbatim>\<open>--\<close> matched alone gives
  \<^verbatim>\<open>num_procs\<close> the empty list (\<open>PyEmptyList\<close>). \<^verbatim>\<open>-h\<close> prints the usage
  and exits 0 when it is consumed; an error prints a message and exits 2.
  \<open>sdmpm_main\<close> is the whole process, on every argument vector: parse, then
  \<open>main\<close>.
\<close>

section \<open>Classifying a token\<close>

datatype opt_kind = OPos | OHelp | OUser | OUnknown | OExplicit | OAmbiguous

text \<open>
  \<^verbatim>\<open>_negative_number_matcher\<close>, the pattern \<^verbatim>\<open>^-\d+$|^-\d*\.\d+$\<close> (where
  \<^verbatim>\<open>$\<close> also matches before a final newline).
\<close>

definition py_negnum :: "string \<Rightarrow> bool" where
  "py_negnum t =
     (let b = (if t \<noteq> [] \<and> last t = CHR 0x0A then butlast t else t) in
      case b of
        c # r \<Rightarrow>
          c = CHR ''-'' \<and>
          ((r \<noteq> [] \<and> list_all is_digit r) \<or>
           (list_all is_digit (takeWhile (\<lambda>x. x \<noteq> CHR ''.'') r) \<and>
            (case dropWhile (\<lambda>x. x \<noteq> CHR ''.'') r of
               _ # d \<Rightarrow> d \<noteq> [] \<and> list_all is_digit d
             | [] \<Rightarrow> False)))
      | [] \<Rightarrow> False)"

text \<open>The long option strings of the main parser (\<open>True\<close>) and of a sub-command's parser.\<close>

definition long_opts :: "bool \<Rightarrow> string list" where
  "long_opts main_parser = (if main_parser then [''--help'', ''--user''] else [''--help''])"

definition long_kind :: "string \<Rightarrow> opt_kind" where
  "long_kind opt = (if opt = ''--help'' then OHelp else OUser)"

text \<open>The end of \<^verbatim>\<open>_parse_optional\<close>: a negative number or a token with a space is a positional.\<close>

definition unknown_kind :: "string \<Rightarrow> opt_kind" where
  "unknown_kind t = (if py_negnum t \<or> CHR '' '' \<in> set t then OPos else OUnknown)"

text \<open>
  \<^verbatim>\<open>_parse_optional\<close> and, for the options that take no argument, how
  \<^verbatim>\<open>consume_optional\<close> treats them: \<open>OExplicit\<close> is an option given an explicit
  argument (\<^verbatim>\<open>--user=1\<close>, \<^verbatim>\<open>-h=1\<close>), an error when consumed; \<^verbatim>\<open>-hx\<close> runs
  \<^verbatim>\<open>-h\<close> (and leaves \<^verbatim>\<open>-x\<close> unrecognised); \<open>OAmbiguous\<close> is a prefix of both
  long options of the main parser, an error as soon as the line is read.
\<close>

definition classify_arg :: "bool \<Rightarrow> string \<Rightarrow> opt_kind" where
  "classify_arg main_parser t =
     (let longs = long_opts main_parser in
      case t of
        [] \<Rightarrow> OPos
      | c0 # r \<Rightarrow>
          if c0 \<noteq> CHR ''-'' then OPos
          else if t = ''-h'' then OHelp
          else if t \<in> set longs then long_kind t
          else if r = [] then OPos
          else
            (let pre = takeWhile (\<lambda>x. x \<noteq> CHR ''='') t;
                 has_sep = CHR ''='' \<in> set t in
             if has_sep \<and> (pre = ''-h'' \<or> pre \<in> set longs) then OExplicit
             else if hd r = CHR ''-'' then
               (case filter (\<lambda>opt. py_startswith opt pre) longs of
                  [] \<Rightarrow> unknown_kind t
                | [opt] \<Rightarrow> if has_sep then OExplicit else long_kind opt
                | _ \<Rightarrow> OAmbiguous)
             else if hd r = CHR ''h'' then
               (case dropWhile (\<lambda>x. x = CHR ''h'') (tl r) of
                  x # _ \<Rightarrow> if x = CHR ''-'' \<or> x = CHR ''='' then OExplicit else OHelp
                | [] \<Rightarrow> OHelp)
             else unknown_kind t))"

section \<open>Parsing\<close>

datatype argv_error =
    ArgAmbiguous string
  | ArgExplicit string
  | ArgInvalidChoice string
  | ArgInvalidInt string
  | ArgRequired "string list"
  | ArgUnrecognized "string list"

datatype parse_outcome = Parsed args | ParseHelp string | ParseError argv_error

definition sub_commands :: "string list" where
  "sub_commands = [''scale'', ''status'', ''start'', ''stop'', ''restart'', ''enable'', ''disable'']"

text \<open>Lines 152-153: every sub-command takes \<^verbatim>\<open>service\<close>; \<^verbatim>\<open>scale\<close> also \<^verbatim>\<open>num_procs\<close>.\<close>

definition sub_positionals :: "string \<Rightarrow> string list" where
  "sub_positionals c = (if c = ''scale'' then [''service'', ''num_procs''] else [''service''])"

definition sub_usage :: "string \<Rightarrow> string" where
  "sub_usage c = ''usage: sdmpm.py '' @ c @ '' [-h] '' @ py_join '' '' (sub_positionals c)"

text \<open>
  The main parser's options before the sub-command: \<open>Inr\<close> gives the value of
  \<^verbatim>\<open>--user\<close>, the unrecognised options and the tokens from the sub-command on.
  A \<^verbatim>\<open>--\<close> here is taken as the sub-command's name (or is unrecognised when
  nothing follows it).
\<close>

fun scan_main :: "bool \<Rightarrow> string list \<Rightarrow> string list \<Rightarrow> parse_outcome + bool \<times> string list \<times> string list" where
  "scan_main user extras [] = Inr (user, extras, [])"
| "scan_main user extras (t # ts) =
     (if t = ''--''
      then Inl (ParseError (if ts = [] then ArgUnrecognized (extras @ [t]) else ArgInvalidChoice t))
      else case classify_arg True t of
        OPos \<Rightarrow> Inr (user, extras, t # ts)
      | OHelp \<Rightarrow> Inl (ParseHelp parser_help)
      | OUser \<Rightarrow> scan_main True extras ts
      | OUnknown \<Rightarrow> scan_main user (extras @ [t]) ts
      | OExplicit \<Rightarrow> Inl (ParseError (ArgExplicit t))
      | OAmbiguous \<Rightarrow> Inl (ParseError (ArgAmbiguous t)))"

text \<open>
  A sub-command's tokens after its first \<^verbatim>\<open>--\<close>: all positional. Each goes to
  the next positional still unfilled, or is unrecognised when none is left.
  \<^verbatim>\<open>argparse\<close> removes one \<^verbatim>\<open>--\<close> from the tokens matched to a positional:
  a later literal \<^verbatim>\<open>--\<close> matched alone becomes the empty list (\<open>None\<close>),
  except when the first \<^verbatim>\<open>--\<close> was matched with it (\<open>lead\<close>).
\<close>

fun scan_rest :: "bool \<Rightarrow> string list \<Rightarrow> string option list \<Rightarrow> string list \<Rightarrow> string list \<Rightarrow>
                  parse_outcome + string option list \<times> string list \<times> string list" where
  "scan_rest lead ps vs extras [] = Inr (vs, ps, extras)"
| "scan_rest lead ps vs extras (t # ts) =
     (case ps of
        [] \<Rightarrow> scan_rest False [] vs (extras @ [t]) ts
      | p # ps' \<Rightarrow>
          if \<not> lead \<and> t = ''--'' then scan_rest False ps' (vs @ [None]) extras ts
          else if p = ''num_procs'' \<and> py_int t = None then Inl (ParseError (ArgInvalidInt t))
          else scan_rest False ps' (vs @ [Some t]) extras ts)"

text \<open>
  A sub-command's tokens: each positional token goes to the next positional
  still unfilled (converted by \<^verbatim>\<open>int\<close> for \<^verbatim>\<open>num_procs\<close> as it is taken), or
  is unrecognised when none is left. The first \<^verbatim>\<open>--\<close> ends the options: it is
  matched with the positional just taken (\<open>adj\<close>), or else with the next one,
  or is unrecognised when none is left. \<open>Inr\<close> gives the values taken, the
  positionals still missing and the unrecognised tokens.
\<close>

fun scan_sub :: "string \<Rightarrow> bool \<Rightarrow> string list \<Rightarrow> string option list \<Rightarrow> string list \<Rightarrow> string list \<Rightarrow>
                 parse_outcome + string option list \<times> string list \<times> string list" where
  "scan_sub c adj ps vs extras [] = Inr (vs, ps, extras)"
| "scan_sub c adj ps vs extras (t # ts) =
     (if t = ''--''
      then (if adj then scan_rest False ps vs extras ts
            else if ps \<noteq> [] then scan_rest True ps vs extras ts
            else scan_rest False ps vs (extras @ [t]) ts)
      else case classify_arg False t of
        OPos \<Rightarrow>
          (case ps of
             [] \<Rightarrow> scan_sub c False [] vs (extras @ [t]) ts
           | p # ps' \<Rightarrow>
               if p = ''num_procs'' \<and> py_int t = None then Inl (ParseError (ArgInvalidInt t))
               else scan_sub c True ps' (vs @ [Some t]) extras ts)
      | OHelp \<Rightarrow> Inl (ParseHelp (sub_usage c))
      | OExplicit \<Rightarrow> Inl (ParseError (ArgExplicit t))
      | _ \<Rightarrow> scan_sub c False ps vs (extras @ [t]) ts)"

text \<open>
  The namespace: a sub-command's values, and \<open>a_service = []\<close>,
  \<open>a_num_procs = PyInt 0\<close> for the attributes \<^verbatim>\<open>argparse\<close> does not set
  (\<^verbatim>\<open>main\<close> never reads them then). \<^verbatim>\<open>service\<close> is always matched first,
  with the first \<^verbatim>\<open>--\<close> if one precedes it, so it is never the empty list.
\<close>

definition sub_namespace :: "bool \<Rightarrow> string \<Rightarrow> string option list \<Rightarrow> parse_outcome" where
  "sub_namespace user c vs =
     (let sv = (case hd vs of Some x \<Rightarrow> x | None \<Rightarrow> []) in
      if c = ''scale''
      then (case last vs of
              None \<Rightarrow> Parsed \<lparr>a_user = user, a_cmd = Some c, a_service = sv, a_num_procs = PyEmptyList\<rparr>
            | Some t \<Rightarrow>
                (case py_int t of
                   Some n \<Rightarrow> Parsed \<lparr>a_user = user, a_cmd = Some c, a_service = sv, a_num_procs = PyInt n\<rparr>
                 | None \<Rightarrow> ParseError (ArgInvalidInt t)))
      else Parsed \<lparr>a_user = user, a_cmd = Some c, a_service = sv, a_num_procs = PyInt 0\<rparr>)"

definition parse_args :: "string list \<Rightarrow> parse_outcome" where
  "parse_args argv =
     (case find (\<lambda>t. classify_arg True t = OAmbiguous) (takeWhile (\<lambda>t. t \<noteq> ''--'') argv) of
        Some t \<Rightarrow> ParseError (ArgAmbiguous t)
      | None \<Rightarrow>
          (case scan_main False [] argv of
             Inl r \<Rightarrow> r
           | Inr (user, extras, []) \<Rightarrow>
               if extras = [] then Parsed \<lparr>a_user = user, a_cmd = None, a_service = [], a_num_procs = PyInt 0\<rparr>
               else ParseError (ArgUnrecognized extras)
           | Inr (user, extras, c # ts) \<Rightarrow>
               if c \<notin> set sub_commands then ParseError (ArgInvalidChoice c)
               else
                 (case scan_sub c False (sub_positionals c) [] [] ts of
                    Inl r \<Rightarrow> r
                  | Inr (vs, missing, extras') \<Rightarrow>
                      if missing \<noteq> [] then ParseError (ArgRequired missing)
                      else if extras @ extras' \<noteq> [] then ParseError (ArgUnrecognized (extras @ extras'))
                      else sub_namespace user c vs)))"

definition argv_error_msg :: "argv_error \<Rightarrow> string" where
  "argv_error_msg e =
     (case e of
        ArgAmbiguous t \<Rightarrow> ''ambiguous option: '' @ t
      | ArgExplicit t \<Rightarrow> ''ignored explicit argument in '' @ t
      | ArgInvalidChoice c \<Rightarrow> ''argument cmd: invalid choice: '' @ c
      | ArgInvalidInt v \<Rightarrow> ''argument num_procs: invalid int value: '' @ v
      | ArgRequired ns \<Rightarrow> ''the following arguments are required: '' @ py_join '', '' ns
      | ArgUnrecognized ts \<Rightarrow> ''unrecognized arguments: '' @ py_join '' '' ts)"

text \<open>
  The process: \<^verbatim>\<open>parse_args\<close> exits 0 after printing a usage line and 2 after an
  error (\<^verbatim>\<open>parser.error\<close>), otherwise \<^verbatim>\<open>main\<close> runs.
\<close>

definition sdmpm_main :: "'w proc_env \<Rightarrow> string list \<Rightarrow> 'w pstate \<Rightarrow> int \<times> 'w pstate" where
  "sdmpm_main E argv s =
     (case parse_args argv of
        Parsed a \<Rightarrow> main E a s
      | ParseHelp u \<Rightarrow> (0, s\<lparr>out := out s @ [u]\<rparr>)
      | ParseError e \<Rightarrow> (2, s\<lparr>out := out s @ [''sdmpm.py: error: '' @ argv_error_msg e]\<rparr>))"

text \<open>The command line that asks for a given namespace: the inverse of \<open>parse_args\<close>.\<close>

definition argv_of :: "args \<Rightarrow> string list" where
  "argv_of a =
     (if a_user a then [''--user''] else []) @
     (case a_cmd a of
        None \<Rightarrow> []
      | Some c \<Rightarrow>
          c # a_service a #
          (if c = ''scale''
           then (case a_num_procs a of PyInt n \<Rightarrow> [py_str_int n] | PyEmptyList \<Rightarrow> [''--'', ''--''])
           else []))"

definition args_ok :: "args \<Rightarrow> bool" where
  "args_ok a =
     (case a_cmd a of
        None \<Rightarrow> a_service a = [] \<and> a_num_procs a = PyInt 0
      | Some c \<Rightarrow> c \<in> set sub_commands \<and> classify_arg False (a_service a) = OPos \<and>
                  a_service a \<noteq> ''--'' \<and> (c \<noteq> ''scale'' \<longrightarrow> a_num_procs a = PyInt 0))"

section \<open>Lemmas: classification\<close>

lemma classify_plain [simp]: "t = [] \<or> hd t \<noteq> CHR ''-'' \<Longrightarrow> classify_arg m t = OPos"
  by (cases t) (auto simp: classify_arg_def)

lemma classify_user [simp]: "classify_arg True ''--user'' = OUser"
  by (simp add: classify_arg_def long_opts_def long_kind_def)

lemma digit_not_opt_char:
  "is_digit c \<Longrightarrow> c \<noteq> CHR ''-'' \<and> c \<noteq> CHR ''h'' \<and> c \<noteq> CHR ''='' \<and> c \<noteq> CHR 0x0A \<and> c \<noteq> CHR '' ''"
  by (auto simp: is_digit_def)

lemma nat_str_cons: "\<exists>d ds. nat_str n = d # ds \<and> is_digit d \<and> list_all is_digit ds"
  using nat_str_nonempty [of n] nat_str_digits [of n] by (cases "nat_str n") auto

lemma py_negnum_str: "n < 0 \<Longrightarrow> py_negnum (py_str_int n)"
proof -
  assume "n < 0"
  moreover have "last (py_str_int n) \<noteq> CHR 0x0A"
    using py_str_int_last [of n] digit_not_opt_char by blast
  ultimately show ?thesis
    using nat_str_nonempty nat_str_digits by (simp add: py_negnum_def py_str_int_def)
qed

lemma classify_str_int [simp]: "classify_arg m (py_str_int n) = OPos"
proof (cases "n < 0")
  case True
  obtain d ds where ds: "nat_str (nat (- n)) = d # ds" "is_digit d" "list_all is_digit ds"
    using nat_str_cons by blast
  have neg: "py_negnum (py_str_int n)" using py_negnum_str [OF True] .
  have noeq: "CHR ''='' \<notin> set (py_str_int n)" using py_str_int_codes by fastforce
  have str: "py_str_int n = CHR ''-'' # d # ds" using True ds(1) by (simp add: py_str_int_def)
  have tw: "takeWhile (\<lambda>x. x \<noteq> CHR ''='') (py_str_int n) = py_str_int n"
    using noeq by (auto simp: takeWhile_eq_all_conv)
  show ?thesis
    using digit_not_opt_char [OF ds(2)] neg noeq tw
    by (simp add: classify_arg_def Let_def long_opts_def unknown_kind_def str)
next
  case False
  then show ?thesis
    using nat_str_hd [of "nat n"] by (simp add: py_str_int_def)
qed

lemma classify_sub_pos_not_ambiguous:
  "classify_arg False t = OPos \<Longrightarrow> classify_arg True t \<noteq> OAmbiguous"
  unfolding classify_arg_def long_opts_def Let_def
  by (cases t; simp split: if_splits list.splits)
     (auto simp: long_kind_def unknown_kind_def py_startswith_def split: if_splits list.splits)

lemma str_int_not_dashdash: "py_str_int n \<noteq> ''--''"
  using py_str_int_last [of n] by (metis digit_not_opt_char last_ConsR last_ConsL list.discI)

lemma sub_commands_plain: "c \<in> set sub_commands \<Longrightarrow> c \<noteq> [] \<and> hd c \<noteq> CHR ''-''"
  by (auto simp: sub_commands_def)

section \<open>Lemmas: the scanners\<close>

lemma scan_main_Inl: "scan_main u ex ts = Inl r \<Longrightarrow> r \<noteq> Parsed a"
  by (induction u ex ts rule: scan_main.induct) (auto split: opt_kind.splits if_splits)

lemma scan_rest_Inl: "scan_rest l ps vs ex ts = Inl r \<Longrightarrow> r \<noteq> Parsed a"
  by (induction l ps vs ex ts rule: scan_rest.induct) (auto split: list.splits if_splits)

lemma scan_sub_Inl: "scan_sub c adj ps vs ex ts = Inl r \<Longrightarrow> r \<noteq> Parsed a"
  by (induction c adj ps vs ex ts rule: scan_sub.induct)
     (auto split: opt_kind.splits list.splits if_splits dest: scan_rest_Inl)

lemma sub_namespace_cmd: "sub_namespace u c vs = Parsed a \<Longrightarrow> a_cmd a = Some c"
  by (auto simp: sub_namespace_def split: if_splits option.splits)

lemma parse_args_cmd:
  assumes p: "parse_args argv = Parsed a"
  shows "case a_cmd a of None \<Rightarrow> True | Some c \<Rightarrow> c \<in> set sub_commands"
proof (cases "scan_main False [] argv")
  case (Inl r)
  then show ?thesis
    using p scan_main_Inl [OF Inl, of a] by (simp add: parse_args_def split: if_splits option.splits)
next
  case (Inr x)
  note m = Inr
  obtain u ex rest where x: "x = (u, ex, rest)" by (cases x) auto
  show ?thesis
  proof (cases rest)
    case Nil
    then show ?thesis using p m x by (auto simp: parse_args_def split: if_splits option.splits)
  next
    case (Cons c ts)
    show ?thesis
    proof (cases "scan_sub c False (sub_positionals c) [] [] ts")
      case (Inl r)
      then show ?thesis
        using p m x Cons scan_sub_Inl [OF Inl, of a]
        by (simp add: parse_args_def split: if_splits option.splits)
    next
      case (Inr y)
      obtain vs ms ex' where y: "y = (vs, ms, ex')" by (cases y) auto
      have "sub_namespace u c vs = Parsed a \<and> c \<in> set sub_commands"
        using p m x Cons Inr y by (simp add: parse_args_def split: if_splits option.splits)
      then show ?thesis using sub_namespace_cmd by auto
    qed
  qed
qed

section \<open>Properties of the command line\<close>

text \<open>
  C20. The branch \<^verbatim>\<open>unknown command or not implemented\<close> of \<^verbatim>\<open>main\<close> (lines
  166-168) is dead code: whatever \<^verbatim>\<open>parse_args\<close> accepts names no command or one of
  the seven, so \<^verbatim>\<open>main\<close> either prints the help or runs \<^verbatim>\<open>scale_service\<close>,
  \<^verbatim>\<open>control_active_units\<close> or \<^verbatim>\<open>control_units\<close>.
\<close>

theorem parsed_dispatch:
  assumes "parse_args argv = Parsed a"
  shows "main_dispatch E a =
    (case a_cmd a of
       None \<Rightarrow> py_print parser_help
     | Some c \<Rightarrow>
         if c = ''scale'' then scale_service_arg E (a_service a) (a_num_procs a) (a_user a)
         else if c \<in> {''status'', ''stop'', ''restart''} then control_active_units E c (a_service a) (a_user a)
         else control_units E c (a_service a) (a_user a))"
  using parse_args_cmd [OF assms]
  by (auto simp: main_dispatch_def sub_commands_def split: option.splits)

text \<open>
  C21. An unknown command exits with status 2 from \<^verbatim>\<open>argparse\<close> (invalid choice),
  before \<^verbatim>\<open>main\<close>'s own handler can print it and exit 1, and without any
  \<^verbatim>\<open>systemctl\<close> call.
\<close>

theorem unknown_command_exit_2:
  assumes "c \<notin> set sub_commands" and "c = [] \<or> hd c \<noteq> CHR ''-''"
    and "\<forall>t\<in>set rest. classify_arg True t \<noteq> OAmbiguous"
  shows "sdmpm_main E (c # rest) s =
           (2, s\<lparr>out := out s @ [''sdmpm.py: error: argument cmd: invalid choice: '' @ c]\<rparr>)"
proof -
  have "c \<noteq> ''--''" using assms(2) by auto
  moreover have "find (\<lambda>t. classify_arg True t = OAmbiguous) (takeWhile (\<lambda>t. t \<noteq> ''--'') (c # rest)) = None"
    using assms(2,3) set_takeWhileD by (fastforce simp: find_None_iff)
  ultimately have "parse_args (c # rest) = ParseError (ArgInvalidChoice c)"
    using assms by (simp add: parse_args_def)
  then show ?thesis by (simp add: sdmpm_main_def argv_error_msg_def)
qed

lemma parse_args_sub:
  assumes c: "c \<in> set sub_commands" and sv: "classify_arg False svc = OPos" "svc \<noteq> ''--''"
    and v: "c \<noteq> ''scale'' \<Longrightarrow> v = PyInt 0"
  shows "parse_args ((if u then [''--user''] else []) @ c # svc #
            (if c = ''scale'' then (case v of PyInt n \<Rightarrow> [py_str_int n] | PyEmptyList \<Rightarrow> [''--'', ''--''])
             else [])) =
         Parsed \<lparr>a_user = u, a_cmd = Some c, a_service = svc, a_num_procs = v\<rparr>"
proof -
  have cp: "c \<noteq> [] \<and> hd c \<noteq> CHR ''-''" using sub_commands_plain [OF c] .
  have na: "classify_arg True svc \<noteq> OAmbiguous" using classify_sub_pos_not_ambiguous [OF sv(1)] .
  have cs: "c \<noteq> ''--''" using cp by auto
  show ?thesis
  proof (cases v)
    case (PyInt n)
    then show ?thesis
      using c sv v cp na cs str_int_not_dashdash [of n]
      by (auto simp: parse_args_def sub_positionals_def sub_namespace_def)
  next
    case PyEmptyList
    then show ?thesis
      using c sv v cp na cs by (auto simp: parse_args_def sub_positionals_def sub_namespace_def)
  qed
qed

text \<open>
  C22. Round trip: for a well-formed namespace the command line \<open>argv_of a\<close>
  (\<^verbatim>\<open>[--user] cmd service [num_procs]\<close>) parses back to exactly \<open>a\<close>; in
  particular a negative count such as \<^verbatim>\<open>-1\<close> is taken as a number, not as an
  option, and reaches \<^verbatim>\<open>scale_service\<close>, and \<^verbatim>\<open>scale svc -- --\<close> gives
  \<^verbatim>\<open>num_procs\<close> the empty list.
\<close>

theorem parse_args_roundtrip:
  assumes "args_ok a"
  shows "parse_args (argv_of a) = Parsed a"
proof (cases "a_cmd a")
  case None
  then show ?thesis
    using assms by (cases a) (simp add: args_ok_def argv_of_def parse_args_def)
next
  case (Some c)
  have c: "c \<in> set sub_commands" "classify_arg False (a_service a) = OPos" "a_service a \<noteq> ''--''"
    "c \<noteq> ''scale'' \<Longrightarrow> a_num_procs a = PyInt 0"
    using assms Some by (auto simp: args_ok_def)
  have r: "\<lparr>a_user = a_user a, a_cmd = Some c, a_service = a_service a, a_num_procs = a_num_procs a\<rparr> = a"
    using Some by simp
  show ?thesis
    using parse_args_sub [OF c, of "a_user a"] Some by (simp add: argv_of_def r)
qed

text \<open>
  C23. The process exits with 0, 1, 2 or 3, and with 2 only from \<^verbatim>\<open>argparse\<close>:
  then nothing has been run, the world and the trace of calls are as they were.
\<close>

theorem sdmpm_exit_status:
  "fst (sdmpm_main E argv s) \<in> {0, 1, 2, 3} \<and>
   (fst (sdmpm_main E argv s) = 2 \<longrightarrow>
      world (snd (sdmpm_main E argv s)) = world s \<and> calls (snd (sdmpm_main E argv s)) = calls s)"
proof (cases "parse_args argv")
  case (Parsed a)
  then show ?thesis using main_exit_values [of E a s] by (auto simp: sdmpm_main_def)
qed (auto simp: sdmpm_main_def)

end
