(* ===== verification/Tests.thy ===== *)
theory Tests
  imports Runs
begin

text \<open>
  The integration tests \<^verbatim>\<open>src/tests/test_sdmpm.py\<close> run against the systemd model.
  The fixture \<^verbatim>\<open>test_service\<close> (lines 26-47) names a template
  \<^verbatim>\<open>test-xxxx\<close> after four random lowercase letters \<open>r\<close>, writes its unit file
  into the user's unit directory, hands the name to the test, and afterwards
  (\<^verbatim>\<open>finally\<close>) disables and stops every instance \<^verbatim>\<open>_list_units\<close> still
  lists and removes the file. \<^verbatim>\<open>_list_units\<close> (lines 50-62) is
  \<^verbatim>\<open>subprocess.check_output\<close> of \<^verbatim>\<open>systemctl --user list-units\<close>. The two
  tests (lines 65-79) call the script's functions and assert the number of lines
  \<^verbatim>\<open>_list_units\<close> prints. An assertion that fails raises \<^verbatim>\<open>AssertionError\<close>.
\<close>

section \<open>The fixture\<close>

definition test_service_name :: "string \<Rightarrow> string" where
  "test_service_name r = ''test-'' @ r"

definition test_unit_file :: "string \<Rightarrow> string" where
  "test_unit_file r = test_service_name r @ ''@.service''"

text \<open>Lines 30-37: the unit file is written into the user scope's unit directory.\<close>

definition fixture_setup :: "string \<Rightarrow> sd_world \<Rightarrow> sd_world" where
  "fixture_setup r w = w(True := (w True)\<lparr>unit_files := List.insert (test_unit_file r) (unit_files (w True))\<rparr>)"

text \<open>\<^verbatim>\<open>subprocess.check_output\<close>: the child's stdout, \<^verbatim>\<open>CalledProcessError\<close> on a non-zero status.\<close>

definition check_output :: "'w proc_env \<Rightarrow> string list \<Rightarrow> ('w, string) py" where
  "check_output E argv s =
     (let ((rc, so, se), w) = run_proc E argv (world s);
          s' = write_term se (s\<lparr>world := w, calls := calls s @ [argv]\<rparr>)
      in if rc \<noteq> 0 then (Inl (CalledProcessError rc), s') else (Inr so, s'))"

text \<open>\<^verbatim>\<open>subprocess.call\<close>: the exit status; the child writes to the terminal.\<close>

definition py_call :: "'w proc_env \<Rightarrow> string list \<Rightarrow> ('w, int) py" where
  "py_call E argv s =
     (let ((rc, so, se), w) = run_proc E argv (world s)
      in (Inr rc, write_term se (write_term so (s\<lparr>world := w, calls := calls s @ [argv]\<rparr>))))"

definition list_units_argv :: "string \<Rightarrow> string list" where
  "list_units_argv svc =
     [''systemctl'', ''--no-legend'', ''--no-pager'', ''--user'', ''list-units'', ''--all'', ''--'',
      svc @ ''@*.service'']"

definition list_units_test :: "'w proc_env \<Rightarrow> string \<Rightarrow> ('w, string) py" where
  "list_units_test E svc = check_output E (list_units_argv svc)"

text \<open>Line 47, \<^verbatim>\<open>os.remove(service_path)\<close>.\<close>

definition remove_unit_file :: "string \<Rightarrow> (sd_world, unit) py" where
  "remove_unit_file r s =
     (if test_unit_file r \<in> set (unit_files (world s True))
      then (Inr (), s\<lparr>world := (world s)(True := (world s True)\<lparr>unit_files :=
                         removeAll (test_unit_file r) (unit_files (world s True))\<rparr>)\<rparr>)
      else (Inl (FileNotFoundError (test_unit_file r)), s))"

text \<open>Lines 42-47, the \<^verbatim>\<open>finally\<close> block.\<close>

definition fixture_teardown :: "string \<Rightarrow> sd_world proc_env \<Rightarrow> (sd_world, unit) py" where
  "fixture_teardown r E =
     bindE (list_units_test E (test_service_name r)) (\<lambda>outp.
     bindE (liftE (mapE first_token (py_splitlines outp))) (\<lambda>services.
     bindE (if services \<noteq> []
            then bindE (py_call E ([''systemctl'', ''--quiet'', ''--user'', ''disable'', ''--now'', ''--''] @ services))
                   (\<lambda>_. returnE ())
            else returnE ()) (\<lambda>_.
     remove_unit_file r)))"

text \<open>
  A test with the fixture: set up, run the body with the service name, tear down
  whatever the body did; an exception of the teardown replaces the body's result.
\<close>

definition run_test :: "string \<Rightarrow> string \<Rightarrow> (sd_world proc_env \<Rightarrow> string \<Rightarrow> (sd_world, unit) py) \<Rightarrow>
                        (sd_world, unit) py" where
  "run_test h r body s =
     (let (res, s2) = body (sd_env h) (test_service_name r) (s\<lparr>world := fixture_setup r (world s)\<rparr>);
          (res', s3) = fixture_teardown r (sd_env h) s2
      in (case res' of Inl e \<Rightarrow> Inl e | Inr _ \<Rightarrow> res, s3))"

section \<open>The tests\<close>

definition py_assert :: "bool \<Rightarrow> ('w, unit) py" where
  "py_assert b = (if b then returnE () else raiseE AssertionError)"

text \<open>\<^verbatim>\<open>assert len(_list_units(svc).splitlines()) == i\<close>\<close>

definition assert_count :: "'w proc_env \<Rightarrow> string \<Rightarrow> int \<Rightarrow> ('w, unit) py" where
  "assert_count E svc i =
     bindE (list_units_test E svc) (\<lambda>outp. py_assert (int (length (py_splitlines outp)) = i))"

fun scale_test_loop :: "'w proc_env \<Rightarrow> string \<Rightarrow> int list \<Rightarrow> ('w, unit) py" where
  "scale_test_loop E svc [] = returnE ()"
| "scale_test_loop E svc (i # is) =
     bindE (scale_service E svc i True) (\<lambda>_.
     bindE (assert_count E svc i) (\<lambda>_.
     scale_test_loop E svc is))"

text \<open>Lines 65-69, \<^verbatim>\<open>can scale services\<close>.\<close>

definition test_can_scale :: "'w proc_env \<Rightarrow> string \<Rightarrow> ('w, unit) py" where
  "test_can_scale E svc = scale_test_loop E svc [1, 2, 4, 2, 0]"

text \<open>Lines 72-79, \<^verbatim>\<open>can control services\<close>.\<close>

definition test_can_control :: "'w proc_env \<Rightarrow> string \<Rightarrow> ('w, unit) py" where
  "test_can_control E svc =
     bindE (scale_service E svc 2 True) (\<lambda>_.
     bindE (assert_count E svc 2) (\<lambda>_.
     bindE (control_units E ''stop'' svc True) (\<lambda>_.
     bindE (assert_count E svc 0) (\<lambda>_.
     bindE (control_units E ''start'' svc True) (\<lambda>_.
     assert_count E svc 2)))))"

section \<open>Lemmas: the test's helpers on the service manager\<close>

lemma list_units_argv_cmd: "list_units_argv svc = systemctl_cmd True @ list_units_args svc"
  by (simp add: list_units_argv_def systemctl_cmd_def list_units_args_def)

lemma test_unit_file_svc: "test_unit_file r = test_service_name r @ ''@.service''"
  by (simp add: test_unit_file_def)

lemma sd_list_units_test:
  "list_units_test (sd_env h) svc s =
     (Inr (sd_list_units (world s True) [svc @ ''@*.service'']), s\<lparr>calls := calls s @ [list_units_argv svc]\<rparr>)"
  by (simp add: list_units_test_def check_output_def sd_env_def list_units_argv_cmd sd_run_list_units
      write_term_def)

lemma sd_assert_count:
  assumes "svc_ok svc" and "finite (active (world s True))" and "running svc (world s True) = unit_of svc ` K"
    and "finite K"
  shows "assert_count (sd_env h) svc i s =
     (if int (card K) = i then Inr () else Inl AssertionError, s\<lparr>calls := calls s @ [list_units_argv svc]\<rparr>)"
proof -
  have "length (py_splitlines (sd_list_units (world s True) [svc @ ''@*.service''])) = card K"
    using sd_list_units_lines [OF assms] inj_unit_of [OF assms(1)] assms(4)
    by (simp add: card_image inj_on_subset)
  then show ?thesis
    by (simp add: assert_count_def bindE_def sd_list_units_test py_assert_def returnE_def raiseE_def)
qed

lemma sd_scale_test_loop:
  assumes ok: "svc_ok svc" and "svc @ ''@.service'' \<in> set (unit_files (world s True))"
    and "finite (active (world s True))" and "running svc (world s True) = unit_of svc ` {1..int m}"
    and "\<forall>n\<in>set ns. 0 \<le> n"
  shows "fst (scale_test_loop (sd_env h) svc ns s) = Inr () \<and>
    (\<exists>sc. world (snd (scale_test_loop (sd_env h) svc ns s)) = (world s)(True := sc) \<and>
       unit_files sc = unit_files (world s True) \<and> finite (active sc) \<and>
       running svc sc = unit_of svc ` {1..(if ns = [] then int m else last ns)} \<and>
       active sc - running svc sc = active (world s True) - running svc (world s True))"
  using assms(2-5)
proof (induction ns arbitrary: s m)
  case Nil
  then show ?case by (auto simp: returnE_def intro!: exI [of _ "world s True"])
next
  case (Cons n ns)
  have n: "0 \<le> n" using Cons.prems(4) by simp
  obtain s' where r: "scale_service (sd_env h) svc n True s = (Inr (), s')"
    using sd_scale_step(1) [OF ok Cons.prems(1-3) n, of h] by (metis prod.collapse)
  obtain sc1 where w1: "world s' = (world s)(True := sc1)" and f1: "unit_files sc1 = unit_files (world s True)"
    and fin1: "finite (active sc1)" and run1: "running svc sc1 = unit_of svc ` {1..int (nat n)}"
    and o1: "active sc1 - running svc sc1 = active (world s True) - running svc (world s True)"
    using sd_scale_step(2) [OF ok Cons.prems(1-3) n, of h] r n by auto
  let ?s2 = "s'\<lparr>calls := calls s' @ [list_units_argv svc]\<rparr>"
  have "card {1..int (nat n)} = nat n" by simp
  then have a: "assert_count (sd_env h) svc n s' = (Inr (), ?s2)"
    using sd_assert_count [of svc s' "{1..int (nat n)}" h n] ok fin1 run1 w1 n by simp
  have inv: "svc @ ''@.service'' \<in> set (unit_files (world ?s2 True))" "finite (active (world ?s2 True))"
    "running svc (world ?s2 True) = unit_of svc ` {1..int (nat n)}"
    using Cons.prems(1) w1 f1 fin1 run1 by simp_all
  obtain sc2 where IH1: "fst (scale_test_loop (sd_env h) svc ns ?s2) = Inr ()"
    and w2: "world (snd (scale_test_loop (sd_env h) svc ns ?s2)) = (world ?s2)(True := sc2)"
    and IH2: "unit_files sc2 = unit_files (world ?s2 True)" "finite (active sc2)"
       "running svc sc2 = unit_of svc ` {1..(if ns = [] then int (nat n) else last ns)}"
       "active sc2 - running svc sc2 = active (world ?s2 True) - running svc (world ?s2 True)"
    using Cons.IH [OF inv] Cons.prems(4) by (metis list.set_intros(2))
  have step: "scale_test_loop (sd_env h) svc (n # ns) s = scale_test_loop (sd_env h) svc ns ?s2"
    by (simp add: bindE_def r a)
  show ?case
    unfolding step using IH1 w2 IH2 w1 f1 o1 n by (auto intro!: exI [of _ sc2])
qed

lemma fixture_setup_scope:
  "fixture_setup r w False = w False"
  "unit_files (fixture_setup r w True) = List.insert (test_unit_file r) (unit_files (w True))"
  "active (fixture_setup r w True) = active (w True)"
  "enabled (fixture_setup r w True) = enabled (w True)"
  "running svc (fixture_setup r w True) = running svc (w True)"
  by (simp_all add: fixture_setup_def running_def)

lemma remove_inserted: "f \<notin> set fs \<Longrightarrow> removeAll f (List.insert f fs) = fs"
  by simp

lemma unit_of_positional:
  "svc_ok svc \<Longrightarrow> unit_of svc k \<noteq> ''--'' \<and> \<not> py_startswith (unit_of svc k) ''-''"
  by (cases svc) (auto simp: svc_ok_def unit_of_def py_startswith_def)

lemma sd_mangle_unit_of: "sd_mangle (unit_of svc k) = unit_of svc k"
  by (simp add: sd_mangle_def unit_suffixes_def py_endswith_def unit_of_def)

lemma sd_verb_instances:
  assumes ok: "svc_ok svc" and hf: "svc @ ''@.service'' \<in> set (unit_files sc)"
    and fin: "finite N" and ne: "N \<noteq> {}"
  shows "sd_verb now ''stop'' (sorted_list_of_set (unit_of svc ` N)) sc =
           ((0, [], []), sc\<lparr>active := active sc - unit_of svc ` N\<rparr>)"
    and "sd_verb now ''start'' (sorted_list_of_set (unit_of svc ` N)) sc =
           ((0, [], []), sc\<lparr>active := active sc \<union> unit_of svc ` N\<rparr>)"
    and "sd_verb True ''disable'' (sorted_list_of_set (unit_of svc ` N)) sc =
           ((0, [], []), sc\<lparr>enabled := enabled sc - unit_of svc ` N, active := active sc - unit_of svc ` N\<rparr>)"
proof -
  let ?us = "sorted_list_of_set (unit_of svc ` N)"
  have su: "set ?us = unit_of svc ` N" using fin by simp
  have m: "map sd_mangle ?us = ?us" by (rule map_idI) (use fin in \<open>auto simp: sd_mangle_unit_of\<close>)
  have nn: "?us \<noteq> []" using fin ne by simp
  have files: "\<forall>u\<in>set ?us. sd_has_file sc u"
    using hf sd_template_unit_of [OF ok] su by (auto simp: sd_has_file_def unit_of_def)
  show "sd_verb now ''stop'' ?us sc = ((0, [], []), sc\<lparr>active := active sc - unit_of svc ` N\<rparr>)"
    using m nn files su by (simp add: sd_verb_def Let_def)
  show "sd_verb now ''start'' ?us sc = ((0, [], []), sc\<lparr>active := active sc \<union> unit_of svc ` N\<rparr>)"
    using m nn files su by (simp add: sd_verb_def Let_def)
  show "sd_verb True ''disable'' ?us sc =
      ((0, [], []), sc\<lparr>enabled := enabled sc - unit_of svc ` N, active := active sc - unit_of svc ` N\<rparr>)"
    using m nn files su by (simp add: sd_verb_def Let_def)
qed

lemma sd_run_control:
  assumes ok: "svc_ok svc" and fin: "finite N" and that: "cmd = ''stop'' \<or> cmd = ''start''"
  shows "sd_run (systemctl_cmd True @ cmd # sorted_list_of_set (unit_of svc ` N)) w =
    (fst (sd_verb False cmd (sorted_list_of_set (unit_of svc ` N)) (w True)),
     w(True := snd (sd_verb False cmd (sorted_list_of_set (unit_of svc ` N)) (w True))))"
proof -
  let ?us = "sorted_list_of_set (unit_of svc ` N)"
  have "sd_parse ?us = ([], ?us)"
    by (rule sd_parse_positional) (use fin unit_of_positional [OF ok] in auto)
  then have "sd_parse (drop 1 (systemctl_cmd True @ cmd # ?us)) =
               ([''--no-legend'', ''--no-pager'', ''--user''], cmd # ?us)"
    using that by (auto simp: systemctl_cmd_def py_startswith_def)
  then show ?thesis by (simp add: sd_run_def split: prod.splits)
qed

lemma sd_run_disable_now:
  "sd_run (''systemctl'' # ''--quiet'' # ''--user'' # ''disable'' # ''--now'' # ''--'' # us) w =
     (fst (sd_verb True ''disable'' us (w True)), w(True := snd (sd_verb True ''disable'' us (w True))))"
  by (simp add: sd_run_def py_startswith_def split: prod.splits)

lemma sd_list_dir_user:
  "sd_list_dir h (enabled_dir (sd_env h) True) w =
     (if wants_dir (w True) then Some (sorted_list_of_set (enabled (w True))) else None)"
  by (simp add: enabled_dir_user sd_env_def sd_list_dir_def strip_slashes_def)

lemma sd_py_call:
  "py_call (sd_env h) argv s =
     (Inr (fst (fst (sd_run argv (world s)))),
      write_term (snd (snd (fst (sd_run argv (world s)))))
        (write_term (fst (snd (fst (sd_run argv (world s)))))
          (s\<lparr>world := snd (sd_run argv (world s)), calls := calls s @ [argv]\<rparr>)))"
  by (simp add: py_call_def sd_env_def split: prod.splits)

lemma sd_list_dir_env: "list_dir (sd_env h) = sd_list_dir h"
  by (simp add: sd_env_def)

lemma sd_teardown:
  assumes ok: "svc_ok (test_service_name r)" and fin: "finite (active (world s True))"
    and run: "running (test_service_name r) (world s True) = unit_of (test_service_name r) ` K"
    and finK: "finite K" and hf: "test_unit_file r \<in> set (unit_files (world s True))"
  shows "fixture_teardown r (sd_env h) s =
     (Inr (), s\<lparr>world := (world s)(True := (world s True)\<lparr>
                   enabled := enabled (world s True) - unit_of (test_service_name r) ` K,
                   active := active (world s True) - unit_of (test_service_name r) ` K,
                   unit_files := removeAll (test_unit_file r) (unit_files (world s True))\<rparr>),
               calls := calls s @ [list_units_argv (test_service_name r)] @
                 (if K = {} then []
                  else [[''systemctl'', ''--quiet'', ''--user'', ''disable'', ''--now'', ''--''] @
                          sorted_list_of_set (unit_of (test_service_name r) ` K)])\<rparr>)"
proof -
  let ?svc = "test_service_name r"
  let ?L = "sorted_list_of_set (unit_of ?svc ` K)"
  let ?g = "\<lambda>u. u @ '' loaded active running '' @ u"
  have sl: "py_splitlines (sd_list_units (world s True) [?svc @ ''@*.service'']) = map ?g ?L"
    by (rule sd_list_units_lines [OF ok fin run finK])
  have ft: "mapE first_token (map ?g ?L) = Inr ?L"
    using mapE_map_comp [of ?L first_token ?g "\<lambda>u. u"] first_token_listing [OF ok] finK by simp
  have e: "?L = [] \<longleftrightarrow> K = {}" using finK by simp
  have hf': "?svc @ ''@.service'' \<in> set (unit_files (world s True))" using hf by (simp add: test_unit_file_svc)
  show ?thesis
  proof (cases "K = {}")
    case True
    then show ?thesis using sl ft hf
      by (simp add: fixture_teardown_def bindE_def sd_list_units_test liftE_def returnE_def
          remove_unit_file_def)
  next
    case False
    then show ?thesis using sl ft hf e sd_verb_instances(3) [OF ok hf' finK False]
      by (simp add: fixture_teardown_def bindE_def sd_list_units_test liftE_def returnE_def
          remove_unit_file_def sd_py_call sd_run_disable_now write_term_def)
  qed
qed

lemma sd_scale_fresh:
  assumes ok: "svc_ok svc" and hf: "svc @ ''@.service'' \<in> set (unit_files (world s user))"
    and fin: "finite (active (world s user))" and idle: "running svc (world s user) = {}" and n: "0 < n"
  shows "fst (scale_service (sd_env h) svc n user s) = Inr () \<and>
    world (snd (scale_service (sd_env h) svc n user s)) = (world s)(user := (world s user)\<lparr>
       enabled := enabled (world s user) \<union> unit_of svc ` {1..n}, wants_dir := True,
       active := active (world s user) \<union> unit_of svc ` {1..n}\<rparr>)"
proof -
  have run: "running svc (world s user) = unit_of svc ` {}" using idle by simp
  let ?s1 = "s\<lparr>calls := calls s @ [systemctl_cmd user @ list_unit_files_args svc,
                                    systemctl_cmd user @ list_units_args svc]\<rparr>"
  have ga: "get_active_units (sd_env h) svc user s = (Inr [], ?s1)"
    using sd_get_active_units [OF ok hf fin run] by simp
  have plan: "scale_plan (length []) (set []) n = Some (''enable'', {1..n})"
    using n by (simp add: scale_plan_def)
  have ne: "{1..n} \<noteq> {}" using n by simp
  show ?thesis
    using scale_service_run [OF ga _, of "[]" n] n plan
      sd_write_step [where cmd = "''enable''" and h = h, OF ok _ ne] hf
    by simp
qed

lemma sd_control_units:
  assumes ok: "svc_ok svc" and hf: "svc @ ''@.service'' \<in> set (unit_files (world s True))"
    and wd: "wants_dir (world s True)" and fe: "finite (enabled (world s True))"
    and en: "{u \<in> enabled (world s True). py_startswith u (svc @ ''@'')} = unit_of svc ` N"
    and fin: "finite N" and ne: "N \<noteq> {}" and cmd: "cmd = ''stop'' \<or> cmd = ''start''"
  shows "control_units (sd_env h) cmd svc True s =
    (Inr (), s\<lparr>world := (world s)(True := snd (sd_verb False cmd (sorted_list_of_set (unit_of svc ` N)) (world s True))),
              calls := calls s @ [systemctl_cmd True @ cmd # sorted_list_of_set (unit_of svc ` N)]\<rparr>)"
proof -
  let ?us = "sorted_list_of_set (unit_of svc ` N)"
  have ld: "list_dir (sd_env h) (enabled_dir (sd_env h) True) (world s) = Some (sorted_list_of_set (enabled (world s True)))"
    using wd by (simp add: sd_list_dir_env sd_list_dir_user)
  have f: "sort (filter (\<lambda>f. py_startswith f (svc @ ''@'')) (sorted_list_of_set (enabled (world s True)))) = ?us"
    using fe en by (simp add: filter_sorted_list_of_set sorted_sort_id)
  have v: "fst (sd_verb False cmd ?us (world s True)) = (0, [], [])"
    using cmd sd_verb_instances(1,2) [OF ok hf fin ne] by auto
  show ?thesis
    using control_units_run [OF ld, of cmd svc] f v sd_run_control [OF ok fin cmd, of "world s"]
    by (simp add: systemctl_run sd_env_def write_term_def split: prod.splits)
qed

lemma unit_of_startswith: "py_startswith (unit_of svc k) (svc @ ''@'')"
  by (simp add: unit_of_def py_startswith_def)

lemma running_fresh_union:
  assumes "svc_ok svc" and "running svc sc = {}"
  shows "running svc (sc\<lparr>enabled := e, wants_dir := b, active := active sc \<union> unit_of svc ` N\<rparr>) = unit_of svc ` N"
  using assms glob_unit_of [OF assms(1)] by (auto simp: running_def)

lemma sd_test_can_control_body:
  assumes ok: "svc_ok svc" and hf: "svc @ ''@.service'' \<in> set (unit_files (world s True))"
    and fin: "finite (active (world s True))" and fe: "finite (enabled (world s True))"
    and idle: "running svc (world s True) = {}"
    and noen: "\<forall>u\<in>enabled (world s True). \<not> py_startswith u (svc @ ''@'')"
  shows "fst (test_can_control (sd_env h) svc s) = Inr () \<and>
    world (snd (test_can_control (sd_env h) svc s)) = (world s)(True := (world s True)\<lparr>
       enabled := enabled (world s True) \<union> unit_of svc ` {1..2}, wants_dir := True,
       active := active (world s True) \<union> unit_of svc ` {1..2}\<rparr>)"
proof -
  define U where "U = unit_of svc ` {1..2::int}"
  define sc where "sc = (world s True)\<lparr>enabled := enabled (world s True) \<union> U, wants_dir := True,
                                        active := active (world s True) \<union> U\<rparr>"
  define sc' where "sc' = sc\<lparr>active := active sc - U\<rparr>"
  have fU: "finite {1..2::int}" "{1..2::int} \<noteq> {}" by simp_all
  have runU: "running svc sc = unit_of svc ` {1..2}"
    unfolding sc_def U_def by (rule running_fresh_union [OF ok idle])
  have run': "running svc sc' = unit_of svc ` {}" using idle by (auto simp: sc'_def sc_def U_def running_def)
  have restart: "sc'\<lparr>active := active sc' \<union> U\<rparr> = sc" by (auto simp: sc'_def sc_def)
  have en: "{u \<in> enabled sc. py_startswith u (svc @ ''@'')} = unit_of svc ` {1..2}"
    using noen unit_of_startswith [of svc] by (auto simp: sc_def U_def)
  have props: "svc @ ''@.service'' \<in> set (unit_files sc)" "finite (active sc)" "wants_dir sc"
    "finite (enabled sc)" "finite (active sc')" using hf fin fe by (simp_all add: sc_def sc'_def U_def)
  have sf: "fst (scale_service (sd_env h) svc 2 True s) = Inr () \<and>
      world (snd (scale_service (sd_env h) svc 2 True s)) = (world s)(True := sc)"
    using sd_scale_fresh [OF ok hf fin idle, of 2 h] by (simp only: sc_def U_def)
  obtain res s2 where r: "scale_service (sd_env h) svc 2 True s = (res, s2)" by fastforce
  have c1: "scale_service (sd_env h) svc 2 True s = (Inr (), s2)" and w2: "world s2 = (world s)(True := sc)"
    using sf r by simp_all
  let ?s3 = "s2\<lparr>calls := calls s2 @ [list_units_argv svc]\<rparr>"
  have c2: "assert_count (sd_env h) svc 2 s2 = (Inr (), ?s3)"
    using sd_assert_count [of svc s2 "{1..2}" h 2] ok props(2) runU w2 by simp
  let ?s4 = "?s3\<lparr>world := (world s)(True := sc'),
                  calls := calls ?s3 @ [systemctl_cmd True @ ''stop'' # sorted_list_of_set U]\<rparr>"
  have c3: "control_units (sd_env h) ''stop'' svc True ?s3 = (Inr (), ?s4)"
    using sd_control_units [of svc ?s3 "{1..2}" "''stop''" h] sd_verb_instances(1) [OF ok props(1) fU]
      ok props w2 en by (simp add: sc'_def U_def)
  let ?s5 = "?s4\<lparr>calls := calls ?s4 @ [list_units_argv svc]\<rparr>"
  have c4: "assert_count (sd_env h) svc 0 ?s4 = (Inr (), ?s5)"
    using sd_assert_count [of svc ?s4 "{}" h 0] ok props(5) run' by simp
  let ?s6 = "?s5\<lparr>world := (world s)(True := sc),
                  calls := calls ?s5 @ [systemctl_cmd True @ ''start'' # sorted_list_of_set U]\<rparr>"
  have c5: "control_units (sd_env h) ''start'' svc True ?s5 = (Inr (), ?s6)"
    using sd_control_units [of svc ?s5 "{1..2}" "''start''" h] sd_verb_instances(2) [of svc sc' "{1..2}"]
      ok props en restart fU by (simp add: sc'_def U_def)
  let ?s7 = "?s6\<lparr>calls := calls ?s6 @ [list_units_argv svc]\<rparr>"
  have c6: "assert_count (sd_env h) svc 2 ?s6 = (Inr (), ?s7)"
    using sd_assert_count [of svc ?s6 "{1..2}" h 2] ok props(2) runU by simp
  show ?thesis
    using c1 c2 c3 c4 c5 c6 by (simp add: test_can_control_def bindE_def sc_def U_def)
qed

lemma fixture_setup_True:
  "fixture_setup r w True = (w True)\<lparr>unit_files := List.insert (test_unit_file r) (unit_files (w True))\<rparr>"
  by (simp add: fixture_setup_def)

lemma fresh_units_disjoint:
  assumes "svc_ok svc" and "running svc sc = {}"
    and "\<forall>u\<in>enabled sc. \<not> py_startswith u (svc @ ''@'')"
  shows "active sc \<union> unit_of svc ` N - unit_of svc ` N = active sc"
    and "enabled sc \<union> unit_of svc ` N - unit_of svc ` N = enabled sc"
  using assms glob_unit_of [OF assms(1)] unit_of_startswith [of svc] by (auto simp: running_def)

section \<open>Properties of the integration tests\<close>

text \<open>
  C28. The test \<^verbatim>\<open>can scale services\<close> passes: for a fresh template name (a
  valid name whose unit file is not installed and of which no instance runs), setup,
  the five scale steps with their assertions, and teardown return normally; the
  system scope is untouched and the user scope's unit files and running units are
  exactly as before.
\<close>

theorem test_can_scale_passes:
  assumes ok: "svc_ok (test_service_name r)" and new: "test_unit_file r \<notin> set (unit_files (world s True))"
    and fin: "finite (active (world s True))" and idle: "running (test_service_name r) (world s True) = {}"
  shows "fst (run_test h r test_can_scale s) = Inr () \<and>
         world (snd (run_test h r test_can_scale s)) False = world s False \<and>
         unit_files (world (snd (run_test h r test_can_scale s)) True) = unit_files (world s True) \<and>
         active (world (snd (run_test h r test_can_scale s)) True) = active (world s True)"
proof -
  let ?svc = "test_service_name r"
  let ?s1 = "s\<lparr>world := fixture_setup r (world s)\<rparr>"
  let ?ns = "[1, 2, 4, 2, 0] :: int list"
  have inv: "?svc @ ''@.service'' \<in> set (unit_files (world ?s1 True))" "finite (active (world ?s1 True))"
    "running ?svc (world ?s1 True) = unit_of ?svc ` {1..int 0}"
    using fin idle by (simp_all add: fixture_setup_scope test_unit_file_svc)
  have pos: "\<forall>n\<in>set ?ns. 0 \<le> n" by simp
  note L = sd_scale_test_loop [OF ok inv pos, of h]
  obtain s2 where r2: "test_can_scale (sd_env h) ?svc ?s1 = (Inr (), s2)"
    using conjunct1 [OF L] unfolding test_can_scale_def by (metis prod.collapse)
  from conjunct2 [OF L] obtain sc where w2: "world s2 = (world ?s1)(True := sc)"
    and f2: "unit_files sc = unit_files (world ?s1 True)" and fin2: "finite (active sc)"
    and run2: "running ?svc sc = unit_of ?svc ` {1..(if ?ns = [] then int 0 else last ?ns)}"
    and o2: "active sc - running ?svc sc = active (world ?s1 True) - running ?svc (world ?s1 True)"
    using r2 unfolding test_can_scale_def by (metis snd_conv)
  have run2': "running ?svc sc = {}" using run2 by simp
  have o2': "active sc = active (world s True)" using o2 run2' idle by (simp add: fixture_setup_scope)
  have td: "fixture_teardown r (sd_env h) s2 =
     (Inr (), s2\<lparr>world := (world s2)(True := sc\<lparr>unit_files := unit_files (world s True)\<rparr>),
                calls := calls s2 @ [list_units_argv ?svc]\<rparr>)"
    using sd_teardown [OF ok _ _ finite.emptyI, of s2 h] w2 f2 fin2 run2' new by (simp add: fixture_setup_scope)
  show ?thesis
    using r2 td w2 o2' by (simp add: run_test_def fixture_setup_scope)
qed

text \<open>
  C29. The test \<^verbatim>\<open>can control services\<close> passes: for a fresh template name of
  which no enabled entry exists either, scaling to two, stopping, starting and the
  three assertions return normally, and after the teardown the user scope is
  exactly as before except that the directory of enabled links now exists; the
  system scope is untouched.
\<close>

theorem test_can_control_passes:
  assumes ok: "svc_ok (test_service_name r)" and new: "test_unit_file r \<notin> set (unit_files (world s True))"
    and fin: "finite (active (world s True))" and fe: "finite (enabled (world s True))"
    and idle: "running (test_service_name r) (world s True) = {}"
    and noen: "\<forall>u\<in>enabled (world s True). \<not> py_startswith u (test_service_name r @ ''@'')"
  shows "fst (run_test h r test_can_control s) = Inr () \<and>
         world (snd (run_test h r test_can_control s)) False = world s False \<and>
         world (snd (run_test h r test_can_control s)) True = (world s True)\<lparr>wants_dir := True\<rparr>"
proof -
  let ?svc = "test_service_name r"
  let ?U = "unit_of ?svc ` {1..2}"
  let ?s1 = "s\<lparr>world := fixture_setup r (world s)\<rparr>"
  have hf1: "?svc @ ''@.service'' \<in> set (unit_files (world ?s1 True))"
    by (simp add: fixture_setup_scope test_unit_file_svc)
  have pre: "finite (active (world ?s1 True))" "finite (enabled (world ?s1 True))"
    "running ?svc (world ?s1 True) = {}" "\<forall>u\<in>enabled (world ?s1 True). \<not> py_startswith u (?svc @ ''@'')"
    using fin fe idle noen by (simp_all add: fixture_setup_scope)
  note B = sd_test_can_control_body [OF ok hf1 pre, of h]
  let ?sc = "(world ?s1 True)\<lparr>enabled := enabled (world ?s1 True) \<union> ?U, wants_dir := True,
                                active := active (world ?s1 True) \<union> ?U\<rparr>"
  obtain res s2 where r: "test_can_control (sd_env h) ?svc ?s1 = (res, s2)" by fastforce
  have res: "res = Inr ()" and w2: "world s2 = (world ?s1)(True := ?sc)" using B r by simp_all
  have run2: "running ?svc (world s2 True) = unit_of ?svc ` {1..2}"
    using running_fresh_union [OF ok pre(3)] w2 by simp
  have post: "finite (active (world s2 True))" "test_unit_file r \<in> set (unit_files (world s2 True))"
    using w2 fin by (simp_all add: fixture_setup_scope)
  have td: "fixture_teardown r (sd_env h) s2 =
     (Inr (), s2\<lparr>world := (world s2)(True := (world s2 True)\<lparr>
                   enabled := enabled (world s2 True) - ?U, active := active (world s2 True) - ?U,
                   unit_files := removeAll (test_unit_file r) (unit_files (world s2 True))\<rparr>),
               calls := calls s2 @ [list_units_argv ?svc] @
                 [[''systemctl'', ''--quiet'', ''--user'', ''disable'', ''--now'', ''--''] @
                     sorted_list_of_set ?U]\<rparr>)"
    using sd_teardown [OF ok post(1) run2 _ post(2), of h] by simp
  show ?thesis
    using r res td w2 fresh_units_disjoint [OF ok idle noen, of "{1..2}"] remove_inserted [OF new]
    by (simp add: run_test_def fixture_setup_True fixture_setup_scope(1))
qed

end
