(* ===== verification/Race.thy ===== *)
theory Race
  imports Runs
begin

text \<open>
  Two runs of the script at the same time, against the same service manager: two
  shells calling \<^verbatim>\<open>sdmpm.py scale\<close> for one template. Each run of
  \<^verbatim>\<open>scale_service\<close> (\<^verbatim>\<open>src/src/sdmpm.py\<close>, lines 90-118) first observes
  (\<open>scale_observe\<close>: the two listings and the decision) and then commits
  (\<open>scale_commit\<close>: the one \<^verbatim>\<open>systemctl\<close> call); the operating system may run
  the other process in between. \<open>phase_step\<close> takes one process one step
  further, and \<open>run_schedule\<close> executes a schedule of the two processes
  (\<open>True\<close>: the first one moves). The script takes no lock (the specification,
  section 5, accepts that discovery and action are not one transaction), so a
  schedule that puts both observations before both commits loses an update; the
  theorem says exactly what it leaves behind.
\<close>

datatype scale_phase = Observe | Commit nat "(string \<times> int set) option" | Finished | Crashed error

type_synonym scale_req = "string \<times> int \<times> bool"

type_synonym 'w race_conf = "scale_phase \<times> scale_phase \<times> 'w pstate"

text \<open>One step of one process running \<^verbatim>\<open>scale_service(svc, n, user=user)\<close>.\<close>

fun phase_step :: "'w proc_env \<Rightarrow> scale_req \<Rightarrow> scale_phase \<Rightarrow> 'w pstate \<Rightarrow> scale_phase \<times> 'w pstate" where
  "phase_step E (svc, n, user) Observe s =
     (case scale_observe E svc n user s of
        (Inl e, s') \<Rightarrow> (Crashed e, s')
      | (Inr (k, p), s') \<Rightarrow> (Commit k p, s'))"
| "phase_step E (svc, n, user) (Commit k p) s =
     (case scale_commit E svc n user (k, p) s of
        (Inl e, s') \<Rightarrow> (Crashed e, s')
      | (Inr _, s') \<Rightarrow> (Finished, s'))"
| "phase_step E r Finished s = (Finished, s)"
| "phase_step E r (Crashed e) s = (Crashed e, s)"

fun run_schedule :: "'w proc_env \<Rightarrow> scale_req \<Rightarrow> scale_req \<Rightarrow> bool list \<Rightarrow> 'w race_conf \<Rightarrow> 'w race_conf" where
  "run_schedule E rA rB [] c = c"
| "run_schedule E rA rB (True # sch) (pa, pb, s) =
     (case phase_step E rA pa s of (pa', s') \<Rightarrow> run_schedule E rA rB sch (pa', pb, s'))"
| "run_schedule E rA rB (False # sch) (pa, pb, s) =
     (case phase_step E rB pb s of (pb', s') \<Rightarrow> run_schedule E rA rB sch (pa, pb', s'))"

section \<open>Lemmas: schedules and steps\<close>

text \<open>Two consecutive steps of one process from \<open>Observe\<close> are one whole \<open>scale_service\<close>.\<close>

lemma run_schedule_left_whole:
  "run_schedule E (svc, n, u) rB (True # True # sch) (Observe, pb, s) =
     run_schedule E (svc, n, u) rB sch
       (case scale_service E svc n u s of (Inl e, s') \<Rightarrow> (Crashed e, pb, s') | (Inr _, s') \<Rightarrow> (Finished, pb, s'))"
  by (simp add: scale_service_phases bindE_def split: prod.splits sum.splits)

lemma run_schedule_right_whole:
  "run_schedule E rA (svc, n, u) (False # False # sch) (pa, Observe, s) =
     run_schedule E rA (svc, n, u) sch
       (case scale_service E svc n u s of (Inl e, s') \<Rightarrow> (pa, Crashed e, s') | (Inr _, s') \<Rightarrow> (pa, Finished, s'))"
  by (simp add: scale_service_phases bindE_def split: prod.splits sum.splits)

section \<open>Lemmas: the phases on the service manager\<close>

lemma sd_phase_observe:
  assumes "svc_ok svc" and "svc @ ''@.service'' \<in> set (unit_files (world s user))"
    and "finite (active (world s user))" and "running svc (world s user) = unit_of svc ` K"
    and "finite K" and "0 \<le> n"
  shows "phase_step (sd_env h) (svc, n, user) Observe s =
    (Commit (card K) (scale_plan (card K) K n),
     s\<lparr>calls := calls s @ [systemctl_cmd user @ list_unit_files_args svc,
                          systemctl_cmd user @ list_units_args svc]\<rparr>)"
  using sd_scale_observe [OF assms, of h] by simp

lemma sd_phase_commit:
  assumes ok: "svc_ok svc" and hf: "svc @ ''@.service'' \<in> set (unit_files (world s user))"
    and fin: "finite (active (world s user))" and run: "running svc (world s user) = unit_of svc ` K"
    and pl: "\<forall>cmd ns. p = Some (cmd, ns) \<longrightarrow> (cmd = ''enable'' \<or> cmd = ''disable'') \<and> finite ns \<and> ns \<noteq> {}"
  shows "fst (phase_step (sd_env h) (svc, n, user) (Commit k p) s) = Finished \<and>
    (\<exists>sc. world (snd (phase_step (sd_env h) (svc, n, user) (Commit k p) s)) = (world s)(user := sc) \<and>
          unit_files sc = unit_files (world s user) \<and> finite (active sc) \<and>
          running svc sc = unit_of svc ` apply_plan p K)"
proof -
  note C = sd_scale_commit [OF ok hf fin run pl, of h n k]
  obtain s' where r: "scale_commit (sd_env h) svc n user (k, p) s = (Inr (), s')"
    using conjunct1 [OF C] by (metis prod.collapse)
  show ?thesis using C r by auto
qed

lemma scale_plan_ok_all:
  "finite K \<Longrightarrow> 0 \<le> n \<Longrightarrow> \<forall>cmd ns. scale_plan (card K) K n = Some (cmd, ns) \<longrightarrow>
     (cmd = ''enable'' \<or> cmd = ''disable'') \<and> finite ns \<and> ns \<noteq> {}"
  using scale_plan_ok by blast

text \<open>
  Both observations first, then both commits: the second commit acts on what the
  second process saw before the first one committed.
\<close>

lemma sd_race_interleaved:
  assumes ok: "svc_ok svc" and hf: "svc @ ''@.service'' \<in> set (unit_files (world s user))"
    and fin: "finite (active (world s user))" and run: "running svc (world s user) = unit_of svc ` K"
    and finK: "finite K" and a: "0 \<le> nA" and b: "0 \<le> nB"
  shows "fst (run_schedule (sd_env h) (svc, nA, user) (svc, nB, user) [True, False, True, False] (Observe, Observe, s)) = Finished \<and>
    fst (snd (run_schedule (sd_env h) (svc, nA, user) (svc, nB, user) [True, False, True, False] (Observe, Observe, s))) = Finished \<and>
    running svc (world (snd (snd (run_schedule (sd_env h) (svc, nA, user) (svc, nB, user) [True, False, True, False]
                                   (Observe, Observe, s)))) user) =
      unit_of svc ` apply_plan (scale_plan (card K) K nB) (apply_plan (scale_plan (card K) K nA) K)"
proof -
  let ?pA = "scale_plan (card K) K nA" and ?pB = "scale_plan (card K) K nB"
  let ?cs = "[systemctl_cmd user @ list_unit_files_args svc, systemctl_cmd user @ list_units_args svc]"
  let ?s1 = "s\<lparr>calls := calls s @ ?cs\<rparr>"
  let ?s2 = "?s1\<lparr>calls := calls ?s1 @ ?cs\<rparr>"
  have o1: "phase_step (sd_env h) (svc, nA, user) Observe s = (Commit (card K) ?pA, ?s1)"
    by (rule sd_phase_observe [OF ok hf fin run finK a])
  have o2: "phase_step (sd_env h) (svc, nB, user) Observe ?s1 = (Commit (card K) ?pB, ?s2)"
    using sd_phase_observe [of svc ?s1 user K nB h] ok hf fin run finK b by simp
  obtain p3 s3 where r3: "phase_step (sd_env h) (svc, nA, user) (Commit (card K) ?pA) ?s2 = (p3, s3)" by fastforce
  obtain sc1 where p3: "p3 = Finished" and w3: "world s3 = (world s)(user := sc1)"
    and f3: "unit_files sc1 = unit_files (world s user)" and fin3: "finite (active sc1)"
    and run3: "running svc sc1 = unit_of svc ` apply_plan ?pA K"
    using sd_phase_commit [of svc ?s2 user K ?pA h nA "card K"] ok hf fin run scale_plan_ok_all [OF finK a] r3
    by auto
  obtain p4 s4 where r4: "phase_step (sd_env h) (svc, nB, user) (Commit (card K) ?pB) s3 = (p4, s4)" by fastforce
  have C4: "p4 = Finished \<and> running svc (world s4 user) = unit_of svc ` apply_plan ?pB (apply_plan ?pA K)"
    using sd_phase_commit [of svc s3 user "apply_plan ?pA K" ?pB h nB "card K"] ok hf w3 f3 fin3 run3
      scale_plan_ok_all [OF finK b] r4 by auto
  show ?thesis using o1 o2 r3 r4 p3 C4 by simp
qed

lemma race_sets:
  assumes "0 \<le> nA" and "nA < int m" and "int m < nB"
  shows "apply_plan (scale_plan (card {1..int m}) {1..int m} nB)
           (apply_plan (scale_plan (card {1..int m}) {1..int m} nA) {1..int m}) = {1..nA} \<union> {int m + 1..nB}"
    and "card ({1..nA} \<union> {int m + 1..nB}) = nat (nA + nB - int m)"
proof -
  show "apply_plan (scale_plan (card {1..int m}) {1..int m} nB)
          (apply_plan (scale_plan (card {1..int m}) {1..int m} nA) {1..int m}) = {1..nA} \<union> {int m + 1..nB}"
    using assms by (auto simp: scale_plan_def apply_plan_def)
  have "{1..nA} \<inter> {int m + 1..nB} = {}" using assms by auto
  then have "card ({1..nA} \<union> {int m + 1..nB}) = card {1..nA} + card {int m + 1..nB}"
    by (simp add: card_Un_disjoint)
  then show "card ({1..nA} \<union> {int m + 1..nB}) = nat (nA + nB - int m)" using assms by simp
qed

section \<open>Properties of concurrent runs\<close>

text \<open>
  C31. Lost update: two concurrent \<^verbatim>\<open>scale\<close> runs for one template, from the
  instances \<open>1..m\<close> with counts \<open>nA < m < nB\<close>, both return normally when both
  observe before either commits, and leave \<open>nA + nB - m\<close> instances running:
  neither count asked for. Run one after the other, the same two requests end with
  \<open>1..nB\<close> running.
\<close>

theorem scale_race_lost_update:
  assumes ok: "svc_ok svc" and hf: "svc @ ''@.service'' \<in> set (unit_files (world s user))"
    and fin: "finite (active (world s user))" and run: "running svc (world s user) = unit_of svc ` {1..int m}"
    and a: "0 \<le> nA" "nA < int m" and b: "int m < nB"
  shows "fst (run_schedule (sd_env h) (svc, nA, user) (svc, nB, user) [True, False, True, False] (Observe, Observe, s)) = Finished \<and>
    fst (snd (run_schedule (sd_env h) (svc, nA, user) (svc, nB, user) [True, False, True, False] (Observe, Observe, s))) = Finished \<and>
    card (running svc (world (snd (snd (run_schedule (sd_env h) (svc, nA, user) (svc, nB, user) [True, False, True, False]
                                   (Observe, Observe, s)))) user)) = nat (nA + nB - int m) \<and>
    nat nA < nat (nA + nB - int m) \<and> nat (nA + nB - int m) < nat nB \<and>
    running svc (world (snd (snd (run_schedule (sd_env h) (svc, nA, user) (svc, nB, user) [True, True, False, False]
                                   (Observe, Observe, s)))) user) = unit_of svc ` {1..nB}"
proof -
  have inj: "inj (unit_of svc)" by (rule inj_unit_of [OF ok])
  note R = sd_race_interleaved [OF ok hf fin run _ a(1), of nB h]
  have c: "card (unit_of svc ` ({1..nA} \<union> {int m + 1..nB})) = nat (nA + nB - int m)"
    using race_sets(2) [OF a b] inj by (simp add: card_image inj_on_subset)
  obtain s1 where A: "scale_service (sd_env h) svc nA user s = (Inr (), s1)"
    using sd_scale_step(1) [OF ok hf fin run a(1), of h] by (metis prod.collapse)
  have i1: "svc @ ''@.service'' \<in> set (unit_files (world s1 user))" "finite (active (world s1 user))"
    "running svc (world s1 user) = unit_of svc ` {1..int (nat nA)}"
    using sd_scale_invariant [OF ok hf fin run a(1), of h] A by auto
  have nB: "0 \<le> nB" using a b by simp
  obtain s2 where B: "scale_service (sd_env h) svc nB user s1 = (Inr (), s2)"
    using sd_scale_step(1) [OF ok i1 nB, of h] by (metis prod.collapse)
  obtain sc where "world s2 = (world s1)(user := sc)" and "running svc sc = unit_of svc ` {1..nB}"
    using sd_scale_step(2) [OF ok i1 nB, of h] B by auto
  then have seq: "running svc (world s2 user) = unit_of svc ` {1..nB}" by simp
  have sched: "run_schedule (sd_env h) (svc, nA, user) (svc, nB, user) [True, True, False, False] (Observe, Observe, s) =
      (Finished, Finished, s2)"
    by (simp only: run_schedule_left_whole A sum.case prod.case run_schedule_right_whole B) simp
  show ?thesis
    using R race_sets(1) [OF a b] c seq sched a b by simp
qed

end
