(* ===== verification/Spec2Isabelle.thy ===== *)
theory Spec2Isabelle
  imports Runs Cli Tests Race
begin

text \<open>
  \<^bold>\<open>A verification of sdmpm, the systemd multi-process manager.\<close>

  The program (\<^verbatim>\<open>src/src/sdmpm.py\<close>) runs N instances \<^verbatim>\<open>svc@1\<close> ... \<^verbatim>\<open>svc@N\<close> of
  a systemd template unit \<^verbatim>\<open>svc@.service\<close>. \<^verbatim>\<open>main\<close> (lines 138-177) parses
  the command line with \<^verbatim>\<open>argparse\<close> (139-155) and dispatches: \<^verbatim>\<open>scale\<close> goes
  to \<^verbatim>\<open>scale_service\<close> (90-118), \<^verbatim>\<open>status\<close>, \<^verbatim>\<open>stop\<close>, \<^verbatim>\<open>restart\<close> to
  \<^verbatim>\<open>control_active_units\<close> (121-129), \<^verbatim>\<open>start\<close>, \<^verbatim>\<open>enable\<close>, \<^verbatim>\<open>disable\<close> to
  \<^verbatim>\<open>control_units\<close> (132-135). These find the instances with
  \<^verbatim>\<open>get_active_units\<close> (58-73, two \<^verbatim>\<open>systemctl\<close> queries) and
  \<^verbatim>\<open>get_enabled_units\<close> (76-87, a directory listing), and act through
  \<^verbatim>\<open>systemctl()\<close> (41-55), which raises \<^verbatim>\<open>SystemctlException\<close> (28-38) on a
  non-zero status; \<^verbatim>\<open>main\<close> maps the exceptions to exit codes.

  \<^bold>\<open>Theories.\<close>
  \<^item> \<open>Prelude\<close>: the Python builtins the script uses on strings (\<^verbatim>\<open>strip\<close>,
    \<^verbatim>\<open>split\<close>, \<^verbatim>\<open>splitlines\<close>, \<^verbatim>\<open>startswith\<close>, \<^verbatim>\<open>join\<close>, \<^verbatim>\<open>int()\<close>,
    \<^verbatim>\<open>str()\<close>) and \<open>mapE\<close>, a list comprehension whose element expression may
    raise; lemmas on them, among them \<^verbatim>\<open>int(str(k)) = k\<close>. Python's
    \<^verbatim>\<open>sorted\<close> on strings is \<open>sort\<close> under the lexicographic order of
    \<open>List_Lexorder\<close> on characters (\<open>Char_ord\<close>).
  \<^item> \<open>Systemctl\<close>: the exceptions as \<open>datatype error\<close>; the operating system as
    the interface record \<open>'w proc_env\<close> (\<^verbatim>\<open>Popen(...).communicate()\<close>,
    \<^verbatim>\<open>os.listdir\<close>, the home directory) over an abstract world \<open>'w\<close>; the
    script's state \<open>'w pstate\<close> (world, terminal output, trace of the argument
    vectors given to \<^verbatim>\<open>Popen\<close>); statements as \<open>('w, 'a) py\<close>, state functions
    returning an exception (\<open>Inl\<close>) or a value (\<open>Inr\<close>), sequenced by
    \<open>bindE\<close>; \<open>systemctl\<close> and \<open>systemctl_exception\<close>. Three rule collections
    carry the component proofs: \<open>py_run\<close> (how a statement runs from a given
    state), \<open>sc_free_intros\<close> (a statement never raises
    \<^verbatim>\<open>SystemctlException\<close>) and \<open>keeps_intros\<close> (a statement keeps a property
    of the world that every command of the operating system keeps,
    \<open>keeps\<close> / \<open>env_keeps\<close>, or \<open>env_keeps_as\<close> when only the
    \<^verbatim>\<open>systemctl\<close> commands of the statement's own scope need to keep it).
  \<^item> \<open>Discovery\<close>: \<open>get_active_units\<close> and \<open>get_enabled_units\<close> with its loop
    \<open>collect_units\<close> (84-86), every branch, and the number of calls they make.
  \<^item> \<open>Reconciler\<close>: \<open>scale_service\<close>, with its decision \<open>scale_plan\<close>
    (lines 98-108), the parser of unit numbers \<open>unit_number\<close> (line 97) and the
    argument vector \<open>scale_args\<close> (110-118); lemmas on every branch, the
    round trip of numbers through unit names, and the set-level contract
    \<open>apply_plan\<close>: its convergence criterion and that two passes reach
    \<open>1..n\<close> unless the first is a no-op (\<open>apply_plan_twice\<close>). Its two phases
    \<open>scale_observe\<close> (what it reads and decides) and \<open>scale_commit\<close> (what it then
    does) compose to \<open>scale_service\<close> (\<open>scale_service_phases\<close>), which lets
    \<open>Race\<close> interleave them.
  \<^item> \<open>Dispatch\<close>: \<open>control_active_units\<close>, \<open>control_units\<close>, \<open>main_dispatch\<close>
    and \<open>main\<close>; the record \<open>args\<close> is the namespace \<^verbatim>\<open>parse_args\<close> returns.
    Exit statuses on each path, and the bound of three \<^verbatim>\<open>systemctl\<close> calls per run.
  \<^item> \<open>Cli\<close>: the parser of lines 139-153 and \<^verbatim>\<open>parser.parse_args(argv)\<close> as
    \<open>parse_args\<close>, following the algorithm of \<^verbatim>\<open>argparse\<close> in CPython 3.11
    (option classification with abbreviations, negative numbers and combined
    short flags in \<open>classify_arg\<close>; left-to-right consumption in \<open>scan_main\<close>,
    \<open>scan_sub\<close> and, after the first \<^verbatim>\<open>--\<close>, \<open>scan_rest\<close>; help exits 0,
    errors exit 2), and the process \<open>sdmpm_main\<close> (lines 180-181), total on
    every argument vector. The value of \<^verbatim>\<open>num_procs\<close> is a \<open>py_num\<close>: an
    integer, or the empty list that a second \<^verbatim>\<open>--\<close> produces in 3.11, which
    \<open>scale_service_arg\<close> (Reconciler) rejects with the \<^verbatim>\<open>isinstance\<close> test of
    line 91. The definition was compared with the library on random argument
    vectors, \<^verbatim>\<open>--\<close> included, while it was written.
  \<^item> \<open>Manager\<close>: a model of the service manager (not in the repository; from
    the specification and systemctl's documented behaviour): per scope
    (\<open>sd_world\<close>, \<open>True\<close> for \<^verbatim>\<open>--user\<close>) the installed unit files, the
    loaded units, the enabled units and whether the directory of enabled links
    exists; \<open>sd_run\<close> executes an argument vector (\<^verbatim>\<open>list-unit-files\<close>,
    \<^verbatim>\<open>list-units\<close> with glob patterns, \<^verbatim>\<open>enable/disable --now\<close>,
    \<^verbatim>\<open>start\<close>, \<^verbatim>\<open>stop\<close>, \<^verbatim>\<open>restart\<close>, \<^verbatim>\<open>status\<close>, with their exit statuses),
    \<open>sd_list_dir\<close> lists the two directories, \<open>sd_env\<close> packs them. Its
    invariant \<open>sd_wf\<close> / \<open>sd_world_wf\<close> (finitely many loaded and enabled
    units, all with unit files, enabled links with their directory) is kept by
    every command (\<open>sd_run_wf\<close>).
  \<^item> \<open>Runs\<close>: the script against that model: one \<open>scale_service\<close> pass from
    any finite running set (\<open>sd_scale_general\<close>), a simulation of the abstract
    contract \<open>apply_plan\<close>; from it convergence from a contiguous start,
    idempotence, two-pass convergence from any start, the loop of the test
    \<^verbatim>\<open>can scale services\<close> as \<open>scale_runs\<close>, and that \<open>main\<close> keeps the
    invariant of the model.
  \<^item> \<open>Tests\<close>: the integration tests \<^verbatim>\<open>src/tests/test_sdmpm.py\<close> on the
    model: the fixture (\<open>fixture_setup\<close>, \<open>fixture_teardown\<close>, \<open>run_test\<close>:
    the unit file written, the body run, then the \<^verbatim>\<open>finally\<close> block that
    disables what \<^verbatim>\<open>_list_units\<close> still lists and removes the file),
    \<^verbatim>\<open>subprocess.check_output\<close> and \<^verbatim>\<open>call\<close>, the assertions
    (\<^verbatim>\<open>AssertionError\<close>) and both tests; that each passes on any fresh template
    name and leaves the service manager as it found it.
  \<^item> \<open>Race\<close>: two concurrent \<^verbatim>\<open>scale\<close> invocations on one service manager,
    each an observe step and a commit step (\<open>phase_step\<close>), run in a given
    order by the operating system (\<open>run_schedule\<close>); observing twice before
    committing loses an update.
  \<^item> this theory: concrete states of the model and the witnesses (evaluated by
    \<open>code_simp\<close> on whole runs of the script), and the properties that span
    the parser, the dispatcher and the reconciler: a single pass from a start with
    gaps, whole command lines, scope separation.

  \<^bold>\<open>Assumptions of the systemd model.\<close> A loaded unit of the template is a
  running one (\<^verbatim>\<open>list-units --all\<close> lists what is loaded, and the tests read
  its line count as the running count); \<^verbatim>\<open>enable --now\<close> enables and starts,
  \<^verbatim>\<open>disable --now\<close> disables and stops, and enabling creates the directory of
  links of \<^verbatim>\<open>multi-user.target\<close>; a query with no match prints nothing and
  returns 0; an instance can only be started when its template is installed.
  Template names are \<open>svc_ok\<close>: no \<^verbatim>\<open>@\<close>, \<^verbatim>\<open>*\<close> or white space, not
  starting with \<^verbatim>\<open>-\<close>.

  \<^bold>\<open>What the theorems show.\<close> The decision of \<open>scale_service\<close> on every
  branch (disable, enable, no-op, negative count), that its unit names parse back
  to the planned numbers, and that on the model one pass refines the abstract
  contract, converges to \<open>1..n\<close> from a contiguous start, through any sequence
  of counts, is idempotent, and from any other start reaches \<open>1..n\<close> in a
  second pass unless the counts already agree. The dispatcher's two policies, its
  fallback and its error paths, the exit status of \<open>main\<close> on each, and at most
  three \<^verbatim>\<open>systemctl\<close> calls per run. That \<open>main\<close> never exits with 2: no
  statement can raise \<^verbatim>\<open>SystemctlException\<close>, whose constructor fails on the
  \<^verbatim>\<open>None\<close> stderr, so a failing \<^verbatim>\<open>systemctl\<close> exits 1. On the command line:
  the parser never yields an unknown command (so \<^verbatim>\<open>main\<close>'s own
  unknown-command branch is dead), an unknown command exits 2, parsing inverts
  printing a namespace, and the process exits 0, 1, 2 or 3. End to end,
  \<^verbatim>\<open>sdmpm.py [--user] scale svc n\<close> exits 0 with exactly \<open>1..n\<close> running, and
  a single scale-down from a start with gaps leaves fewer than \<open>n\<close>. A run with
  \<^verbatim>\<open>--user\<close> never changes the system scope. Two concurrent \<^verbatim>\<open>scale\<close> runs
  that both read before either writes leave a number of instances neither asked
  for (the race spec section 5 accepts). Both integration tests pass for every
  fresh name the fixture can draw, on any state of the service manager in which
  that name is unused, and clean up after themselves. No fuel or bound is needed:
  the script has no unbounded loop, and every recursion of the model is
  structural.

  \<^bold>\<open>Not modelled.\<close> The handling of \<^verbatim>\<open>--\<close> follows Python 3.11; other
  versions of \<^verbatim>\<open>argparse\<close> strip it differently. The
  texts of \<^verbatim>\<open>argparse\<close>'s help and error messages beyond their first line or
  their gist; \<^verbatim>\<open>sys.argv[0]\<close> (the program is called \<^verbatim>\<open>sdmpm.py\<close>); the
  \<^verbatim>\<open>~user\<close> form of \<^verbatim>\<open>expanduser\<close>; escaping in \<^verbatim>\<open>repr\<close>; the
  random letters of the fixture's name (line 28, a parameter of the tests) and
  the creation of the unit directory (lines 33-35: the model has no directories
  of unit files); the test runner \<^verbatim>\<open>ward\<close>. \<^verbatim>\<open>check_output\<close> returns
  \<^verbatim>\<open>bytes\<close>, modelled as a string: \<^verbatim>\<open>bytes.splitlines\<close> and
  \<^verbatim>\<open>split\<close> break at fewer characters than their \<^verbatim>\<open>str\<close> forms, which makes
  no difference on the listings of the model. Every failure of
  \<^verbatim>\<open>os.listdir\<close> (line 83) is modelled as \<^verbatim>\<open>FileNotFoundError\<close>; a
  \<^verbatim>\<open>PermissionError\<close> or \<^verbatim>\<open>NotADirectoryError\<close> ends the process the same
  way (exit 1). Strings are lists of 8-bit
  characters: text outside Latin-1 and systemd's unit name escaping are not modelled.
\<close>

section \<open>A concrete systemd for the witnesses\<close>

definition demo_world :: "string list \<Rightarrow> sd_world" where
  "demo_world act =
     (\<lambda>_. \<lparr>unit_files = [''worker@.service''], active = set act, enabled = set act, wants_dir = True\<rparr>)"

definition demo_state :: "string list \<Rightarrow> sd_world pstate" where
  "demo_state act = \<lparr>world = demo_world act, out = [], calls = []\<rparr>"

definition demo_env :: "sd_world proc_env" where
  "demo_env = sd_env ''/home/u''"

text \<open>
  A scope with the unit file of \<^verbatim>\<open>worker\<close>, the loaded units \<open>act\<close>, the enabled
  units \<open>en\<close>, and the directory of enabled links present when \<open>wd\<close>.
\<close>

definition demo_at :: "string list \<Rightarrow> string list \<Rightarrow> bool \<Rightarrow> sd_world pstate" where
  "demo_at act en wd =
     \<lparr>world = (\<lambda>_. \<lparr>unit_files = [''worker@.service''], active = set act, enabled = set en, wants_dir = wd\<rparr>),
      out = [], calls = []\<rparr>"

text \<open>A manager on which no unit file of \<^verbatim>\<open>worker\<close> is installed.\<close>

definition demo_bare :: "sd_world pstate" where
  "demo_bare =
     \<lparr>world = (\<lambda>_. \<lparr>unit_files = [], active = {}, enabled = {}, wants_dir = False\<rparr>), out = [], calls = []\<rparr>"

definition demo_args :: "string \<Rightarrow> int \<Rightarrow> args" where
  "demo_args c n = \<lparr>a_user = True, a_cmd = Some c, a_service = ''worker'', a_num_procs = PyInt n\<rparr>"

section \<open>Witnesses\<close>

lemma fst_Inr_pair: "fst p = Inr u \<Longrightarrow> p = (Inr u, snd p)"
  by (cases p) simp

lemma fst_Inl_pair: "fst p = Inl e \<Longrightarrow> p = (Inl e, snd p)"
  by (cases p) simp

lemma running_filter: "running svc sc = Set.filter (glob_match (svc @ ''@*.service'')) (active sc)"
  by (auto simp: running_def)

lemma demo_active_12:
  "get_active_units demo_env ''worker'' True (demo_state [''worker@1.service'', ''worker@2.service'']) =
   (Inr [''worker@1.service'', ''worker@2.service''],
    snd (get_active_units demo_env ''worker'' True (demo_state [''worker@1.service'', ''worker@2.service''])))"
proof -
  have "fst (get_active_units demo_env ''worker'' True (demo_state [''worker@1.service'', ''worker@2.service''])) =
        Inr [''worker@1.service'', ''worker@2.service'']"
    by code_simp
  then show ?thesis by (rule fst_Inr_pair)
qed

lemma demo_numbers_12: "mapE unit_number [''worker@1.service'', ''worker@2.service''] = Inr [1, 2]"
  by code_simp

theorem scale_down_disables_witness:
  "calls (snd (scale_service demo_env ''worker'' 1 True (demo_state [''worker@1.service'', ''worker@2.service'']))) =
   calls (snd (get_active_units demo_env ''worker'' True (demo_state [''worker@1.service'', ''worker@2.service'']))) @
     [systemctl_cmd True @ scale_args ''worker'' ''disable'' (set [1, 2] - {1..1})]"
  using scale_down_disables [OF demo_active_12 demo_numbers_12] by simp

lemma demo_active_1:
  "get_active_units demo_env ''worker'' True (demo_state [''worker@1.service'']) =
   (Inr [''worker@1.service''], snd (get_active_units demo_env ''worker'' True (demo_state [''worker@1.service''])))"
  by (rule fst_Inr_pair) code_simp

lemma demo_numbers_1: "mapE unit_number [''worker@1.service''] = Inr [1]"
  by code_simp

theorem scale_up_enables_witness:
  "calls (snd (scale_service demo_env ''worker'' 3 True (demo_state [''worker@1.service'']))) =
   calls (snd (get_active_units demo_env ''worker'' True (demo_state [''worker@1.service'']))) @
     [systemctl_cmd True @ scale_args ''worker'' ''enable'' ({1..3} - set [1])]"
  using scale_up_enables [OF demo_active_1 demo_numbers_1] by simp

lemma demo_active_13:
  "get_active_units demo_env ''worker'' True (demo_state [''worker@1.service'', ''worker@3.service'']) =
   (Inr [''worker@1.service'', ''worker@3.service''],
    snd (get_active_units demo_env ''worker'' True (demo_state [''worker@1.service'', ''worker@3.service''])))"
  by (rule fst_Inr_pair) code_simp

lemma demo_numbers_13: "mapE unit_number [''worker@1.service'', ''worker@3.service''] = Inr [1, 3]"
  by code_simp

theorem scale_equal_noop_witness:
  "scale_service demo_env ''worker'' 2 True (demo_state [''worker@1.service'', ''worker@3.service'']) =
   (Inr (), (snd (get_active_units demo_env ''worker'' True (demo_state [''worker@1.service'', ''worker@3.service''])))
      \<lparr>out := out (snd (get_active_units demo_env ''worker'' True (demo_state [''worker@1.service'', ''worker@3.service''])))
               @ [''correct number of units running, not doing anything'']\<rparr>)"
  using scale_equal_noop [OF demo_active_13 demo_numbers_13] by simp

theorem scale_service_negative_witness:
  "scale_service demo_env ''worker'' (-1) True (demo_state []) =
     (Inl (ValueError ''num_procs must be an integer, 0 or greater''), demo_state [])"
  using scale_service_negative [of "-1"] by simp

theorem scale_plan_converges_iff_witness:
  "apply_plan (scale_plan (card {1, 2, 3 :: int}) {1, 2, 3} 2) {1, 2, 3} = {1..2}"
proof -
  have "apply_plan (scale_plan (card {1, 2, 3 :: int}) {1, 2, 3} 2) {1, 2, 3} = {1..2} \<longleftrightarrow>
        ({1..2} \<subseteq> {1, 2, 3 :: int} \<or> {1, 2, 3} \<subseteq> {1..2::int})"
    by (rule scale_plan_converges_iff) simp_all
  moreover have "{1..2} \<subseteq> {1, 2, 3 :: int}" by code_simp
  ultimately show ?thesis by blast
qed

theorem scale_args_numbers_witness:
  "map_sum id set (mapE unit_number (drop 3 (scale_args ''worker'' ''enable'' {2, 10}))) = Inr {2, 10}"
  using scale_args_numbers [of "''worker''" "{2, 10}"] by simp

theorem control_active_units_prefers_active_witness:
  "calls (snd (control_active_units demo_env ''stop'' ''worker'' True
                 (demo_state [''worker@1.service'', ''worker@2.service'']))) =
   calls (snd (get_active_units demo_env ''worker'' True (demo_state [''worker@1.service'', ''worker@2.service'']))) @
     [systemctl_cmd True @ [''stop'', ''worker@1.service'', ''worker@2.service'']]"
  using control_active_units_prefers_active [OF demo_active_12] by simp

lemma demo_none_active:
  "get_active_units demo_env ''worker'' True (demo_at [] [''worker@1.service'', ''worker@2.service''] True) =
   (Inr [], snd (get_active_units demo_env ''worker'' True
                  (demo_at [] [''worker@1.service'', ''worker@2.service''] True)))"
  by (rule fst_Inr_pair) code_simp

lemma demo_enabled_12:
  "list_dir demo_env (enabled_dir demo_env True)
     (world (snd (get_active_units demo_env ''worker'' True
                  (demo_at [] [''worker@1.service'', ''worker@2.service''] True)))) =
   Some [''worker@1.service'', ''worker@2.service'']"
  by code_simp

theorem control_active_units_fallback_witness:
  "calls (snd (control_active_units demo_env ''stop'' ''worker'' True
                 (demo_at [] [''worker@1.service'', ''worker@2.service''] True))) =
   calls (snd (get_active_units demo_env ''worker'' True
                 (demo_at [] [''worker@1.service'', ''worker@2.service''] True))) @
     [systemctl_cmd True @ [''stop'', ''worker@1.service'', ''worker@2.service'']]"
  by (rule control_active_units_fallback [OF demo_none_active demo_enabled_12]) code_simp+

lemma demo_nothing_active:
  "get_active_units demo_env ''worker'' True (demo_at [] [] wd) =
   (Inr [], snd (get_active_units demo_env ''worker'' True (demo_at [] [] wd)))"
  by (cases wd) (rule fst_Inr_pair, code_simp)+

lemma demo_enabled_none:
  "list_dir demo_env (enabled_dir demo_env True)
     (world (snd (get_active_units demo_env ''worker'' True (demo_at [] [] True)))) = Some []"
  by code_simp

theorem control_active_units_none_witness:
  "control_active_units demo_env ''status'' ''worker'' True (demo_at [] [] True) =
   (Inr (), (snd (get_active_units demo_env ''worker'' True (demo_at [] [] True)))
      \<lparr>out := out (snd (get_active_units demo_env ''worker'' True (demo_at [] [] True))) @
               [''no units found for worker'']\<rparr>)"
  using control_active_units_none [OF demo_nothing_active demo_enabled_none] by simp

lemma demo_no_dir:
  "list_dir demo_env (enabled_dir demo_env True)
     (world (snd (get_active_units demo_env ''worker'' True (demo_at [] [] False)))) = None"
  by code_simp

theorem control_active_units_no_dir_witness:
  "control_active_units demo_env ''stop'' ''worker'' True (demo_at [] [] False) =
   (Inl (FileNotFoundError ''/home/u/.config/systemd/user/multi-user.target.wants''),
    snd (get_active_units demo_env ''worker'' True (demo_at [] [] False)))"
proof -
  have "enabled_dir demo_env True = ''/home/u/.config/systemd/user/multi-user.target.wants''"
    by code_simp
  then show ?thesis using control_active_units_no_dir [OF demo_nothing_active demo_no_dir] by simp
qed

lemma demo_enabled_at:
  "list_dir demo_env (enabled_dir demo_env True) (world (demo_at [] [''worker@1.service''] True)) =
   Some [''worker@1.service'']"
  by code_simp

theorem control_units_enabled_set_witness:
  "calls (snd (control_units demo_env ''start'' ''worker'' True (demo_at [] [''worker@1.service''] True))) =
   [systemctl_cmd True @ [''start'', ''worker@1.service'']]"
  using control_units_enabled_set [OF demo_enabled_at, where cmd = "''start''" and svc = "''worker''"]
  by (simp add: demo_at_def py_startswith_def)

theorem main_negative_count_exit_1_witness:
  "main demo_env (demo_args ''scale'' (-1)) (demo_at [] [] True) =
   (1, (demo_at [] [] True)\<lparr>out := [''Traceback: ValueError'']\<rparr>)"
  using main_negative_count_exit_1 [where a = "demo_args ''scale'' (-1)" and n = "-1" and E = demo_env and s = "demo_at [] [] True"]
  by (simp add: demo_args_def demo_at_def)

lemma demo_bare_missing:
  "get_active_units demo_env ''worker'' True demo_bare =
   (Inl (UserError ''no systemd unit file with name worker@.service found!''),
    snd (get_active_units demo_env ''worker'' True demo_bare))"
  by (rule fst_Inl_pair) code_simp

theorem main_user_error_exit_3_witness:
  "main demo_env (demo_args ''stop'' 2) demo_bare =
   (3, (snd (get_active_units demo_env ''worker'' True demo_bare))
         \<lparr>out := out (snd (get_active_units demo_env ''worker'' True demo_bare)) @
                  [''no systemd unit file with name worker@.service found!'']\<rparr>)"
proof -
  have g: "get_active_units demo_env (a_service (demo_args ''stop'' 2)) (a_user (demo_args ''stop'' 2)) demo_bare =
      (Inl (UserError ''no systemd unit file with name worker@.service found!''),
       snd (get_active_units demo_env ''worker'' True demo_bare))"
    using demo_bare_missing by (simp add: demo_args_def)
  show ?thesis using main_user_error_exit_3 [OF _ _ g, of "''stop''"] by (simp add: demo_args_def)
qed

lemma demo_fresh_hyps:
  "svc_ok ''worker''"
  "''worker'' @ ''@.service'' \<in> set (unit_files (world (demo_at [] [] False) True))"
  "finite (active (world (demo_at [] [] False) True))"
  "running ''worker'' (world (demo_at [] [] False) True) = unit_of ''worker'' ` {1..int 0}"
  by (simp_all add: svc_ok_def py_isspace_def demo_at_def running_def)

theorem scale_converges_witness:
  "fst (scale_service demo_env ''worker'' 2 True (demo_at [] [] False)) = Inr () \<and>
   (\<exists>sc. world (snd (scale_service demo_env ''worker'' 2 True (demo_at [] [] False))) =
           (world (demo_at [] [] False))(True := sc) \<and>
         running ''worker'' sc = unit_of ''worker'' ` {1..2} \<and>
         active sc - running ''worker'' sc =
           active (world (demo_at [] [] False) True) - running ''worker'' (world (demo_at [] [] False) True))"
  unfolding demo_env_def by (rule scale_converges [OF demo_fresh_hyps]) simp

theorem scale_runs_converge_witness:
  "fst (scale_runs demo_env ''worker'' True [1, 2, 4, 2, 0] (demo_at [] [] False)) = Inr () \<and>
   card (running ''worker'' (world (snd (scale_runs demo_env ''worker'' True [1, 2, 4, 2, 0]
                                          (demo_at [] [] False))) True)) = 0"
  unfolding demo_env_def using scale_runs_converge [OF demo_fresh_hyps, of "[1, 2, 4, 2, 0]"] by simp

theorem scale_idempotent_witness:
  "scale_service demo_env ''worker'' 4 True (snd (scale_service demo_env ''worker'' 4 True (demo_at [] [] False))) =
    (Inr (), (snd (scale_service demo_env ''worker'' 4 True (demo_at [] [] False)))
       \<lparr>calls := calls (snd (scale_service demo_env ''worker'' 4 True (demo_at [] [] False))) @
                   [systemctl_cmd True @ list_unit_files_args ''worker'', systemctl_cmd True @ list_units_args ''worker''],
        out := out (snd (scale_service demo_env ''worker'' 4 True (demo_at [] [] False))) @
                 [''correct number of units running, not doing anything'']\<rparr>)"
  unfolding demo_env_def by (rule scale_idempotent [OF demo_fresh_hyps]) simp

theorem parsed_dispatch_witness:
  "main_dispatch demo_env \<lparr>a_user = False, a_cmd = Some ''stop'', a_service = ''worker'', a_num_procs = PyInt 0\<rparr> =
   control_active_units demo_env ''stop'' ''worker'' False"
proof -
  have "parse_args [''stop'', ''worker''] =
        Parsed \<lparr>a_user = False, a_cmd = Some ''stop'', a_service = ''worker'', a_num_procs = PyInt 0\<rparr>"
    by code_simp
  then show ?thesis using parsed_dispatch by fastforce
qed

theorem unknown_command_exit_2_witness:
  "sdmpm_main demo_env [''bogus'', ''worker''] (demo_at [] [] True) =
   (2, (demo_at [] [] True)\<lparr>out := [''sdmpm.py: error: argument cmd: invalid choice: bogus'']\<rparr>)"
  using unknown_command_exit_2 [of "''bogus''" "[''worker'']" demo_env "demo_at [] [] True"]
  by (simp add: sub_commands_def demo_at_def)

theorem sdmpm_exit_status_witness:
  "fst (sdmpm_main demo_env [''scale'', ''worker'', ''abc''] (demo_at [] [] True)) = 2 \<and>
   world (snd (sdmpm_main demo_env [''scale'', ''worker'', ''abc''] (demo_at [] [] True))) =
     world (demo_at [] [] True)"
proof -
  have e: "fst (sdmpm_main demo_env [''scale'', ''worker'', ''abc''] (demo_at [] [] True)) = 2" by code_simp
  show ?thesis using sdmpm_exit_status [of demo_env "[''scale'', ''worker'', ''abc'']" "demo_at [] [] True"] e
    by simp
qed

theorem parse_args_roundtrip_witness:
  "parse_args [''--user'', ''scale'', ''worker'', ''-1''] =
   Parsed \<lparr>a_user = True, a_cmd = Some ''scale'', a_service = ''worker'', a_num_procs = PyInt (-1)\<rparr>"
proof -
  have "args_ok \<lparr>a_user = True, a_cmd = Some ''scale'', a_service = ''worker'', a_num_procs = PyInt (-1)\<rparr>"
    by code_simp
  moreover have "argv_of \<lparr>a_user = True, a_cmd = Some ''scale'', a_service = ''worker'', a_num_procs = PyInt (-1)\<rparr> =
      [''--user'', ''scale'', ''worker'', ''-1'']"
    by code_simp
  ultimately show ?thesis using parse_args_roundtrip by metis
qed

lemma demo_234_hyps:
  "svc_ok ''worker''"
  "''worker'' @ ''@.service'' \<in> set (unit_files (world (demo_state [''worker@2.service'', ''worker@3.service'', ''worker@4.service'']) True))"
  "finite (active (world (demo_state [''worker@2.service'', ''worker@3.service'', ''worker@4.service'']) True))"
  "running ''worker'' (world (demo_state [''worker@2.service'', ''worker@3.service'', ''worker@4.service'']) True) =
   unit_of ''worker'' ` {2, 3, 4}"
  "finite {2, 3, 4 :: int}"
  by (simp add: svc_ok_def py_isspace_def demo_state_def demo_world_def,
      simp add: demo_state_def demo_world_def, simp add: demo_state_def demo_world_def,
      unfold running_filter, code_simp, simp)

theorem scale_simulates_plan_witness:
  "fst (scale_service demo_env ''worker'' 2 True
         (demo_state [''worker@2.service'', ''worker@3.service'', ''worker@4.service''])) = Inr () \<and>
   (\<exists>sc. world (snd (scale_service demo_env ''worker'' 2 True
                (demo_state [''worker@2.service'', ''worker@3.service'', ''worker@4.service'']))) =
           (world (demo_state [''worker@2.service'', ''worker@3.service'', ''worker@4.service'']))(True := sc) \<and>
         running ''worker'' sc = unit_of ''worker'' ` apply_plan (scale_plan (card {2, 3, 4 :: int}) {2, 3, 4} 2) {2, 3, 4} \<and>
         active sc - running ''worker'' sc =
           active (world (demo_state [''worker@2.service'', ''worker@3.service'', ''worker@4.service'']) True) -
           running ''worker'' (world (demo_state [''worker@2.service'', ''worker@3.service'', ''worker@4.service'']) True))"
  unfolding demo_env_def by (rule scale_simulates_plan [OF demo_234_hyps]) simp

theorem scale_two_passes_witness:
  "fst (scale_service demo_env ''worker'' 2 True (snd (scale_service demo_env ''worker'' 2 True
         (demo_state [''worker@2.service'', ''worker@3.service'', ''worker@4.service''])))) = Inr () \<and>
   running ''worker'' (world (snd (scale_service demo_env ''worker'' 2 True (snd (scale_service demo_env ''worker'' 2 True
         (demo_state [''worker@2.service'', ''worker@3.service'', ''worker@4.service'']))))) True) =
     unit_of ''worker'' ` {1..2}"
proof -
  have ne: "int (card {2, 3, 4 :: int}) \<noteq> 2" by simp
  show ?thesis unfolding demo_env_def using scale_two_passes [OF demo_234_hyps _ ne, of "''/home/u''"] by simp
qed

theorem main_systemctl_failure_exit_1_witness:
  "fst (main demo_env (demo_args ''start'' 0) (demo_at [] [] True)) = 1 \<and>
   last (out (snd (main demo_env (demo_args ''start'' 0) (demo_at [] [] True)))) = ''Traceback: AttributeError''"
proof -
  have c: "a_cmd (demo_args ''start'' 0) = Some ''start''" by (simp add: demo_args_def)
  have l: "list_dir demo_env (enabled_dir demo_env (a_user (demo_args ''start'' 0))) (world (demo_at [] [] True)) = Some []"
    by code_simp
  have "fst (fst (run_proc demo_env (systemctl_cmd (a_user (demo_args ''start'' 0)) @
            ''start'' # sort (filter (\<lambda>f. py_startswith f (a_service (demo_args ''start'' 0) @ ''@'')) []))
          (world (demo_at [] [] True)))) = 1"
    by code_simp
  then obtain so se w where r: "run_proc demo_env (systemctl_cmd (a_user (demo_args ''start'' 0)) @
            ''start'' # sort (filter (\<lambda>f. py_startswith f (a_service (demo_args ''start'' 0) @ ''@'')) []))
          (world (demo_at [] [] True)) = ((1, so, se), w)"
    by (metis prod.collapse)
  show ?thesis using main_systemctl_failure_exit_1 [OF c _ l r] by simp
qed

lemma demo_test_hyps:
  "svc_ok (test_service_name ''abcd'')"
  "test_unit_file ''abcd'' \<notin> set (unit_files (world (demo_at [''worker@1.service''] [''worker@1.service''] True) True))"
  "finite (active (world (demo_at [''worker@1.service''] [''worker@1.service''] True) True))"
  "finite (enabled (world (demo_at [''worker@1.service''] [''worker@1.service''] True) True))"
  "running (test_service_name ''abcd'') (world (demo_at [''worker@1.service''] [''worker@1.service''] True) True) = {}"
  "\<forall>u\<in>enabled (world (demo_at [''worker@1.service''] [''worker@1.service''] True) True).
     \<not> py_startswith u (test_service_name ''abcd'' @ ''@'')"
  by (simp_all add: svc_ok_def test_service_name_def test_unit_file_def py_isspace_def demo_at_def
      running_def py_startswith_def)

theorem test_can_scale_passes_witness:
  "fst (run_test ''/home/u'' ''abcd'' test_can_scale (demo_at [''worker@1.service''] [''worker@1.service''] True)) = Inr () \<and>
   active (world (snd (run_test ''/home/u'' ''abcd'' test_can_scale
     (demo_at [''worker@1.service''] [''worker@1.service''] True))) True) = {''worker@1.service''}"
  using test_can_scale_passes [OF demo_test_hyps(1-3,5), of "''/home/u''"] by (simp add: demo_at_def)

theorem test_can_control_passes_witness:
  "fst (run_test ''/home/u'' ''abcd'' test_can_control (demo_at [''worker@1.service''] [''worker@1.service''] True)) = Inr () \<and>
   world (snd (run_test ''/home/u'' ''abcd'' test_can_control
     (demo_at [''worker@1.service''] [''worker@1.service''] True))) True =
   \<lparr>unit_files = [''worker@.service''], active = {''worker@1.service''}, enabled = {''worker@1.service''},
    wants_dir = True\<rparr>"
  using test_can_control_passes [OF demo_test_hyps, of "''/home/u''"] by (simp add: demo_at_def)

text \<open>
  C30. Scope separation: a command line that parses with \<^verbatim>\<open>--user\<close> never
  changes the system scope of the service manager, whatever the command, the
  service and the state of either scope: every \<^verbatim>\<open>systemctl\<close> call the script
  makes then carries \<^verbatim>\<open>--user\<close>.
\<close>

theorem user_run_keeps_system:
  assumes "parse_args argv = Parsed a" and "a_user a"
  shows "world (snd (sdmpm_main (sd_env h) argv s)) False = world s False"
  using main_user_frame [OF assms(2)] assms(1) by (simp add: sdmpm_main_def)

theorem user_run_keeps_system_witness:
  "parse_args [''--user'', ''scale'', ''worker'', ''2''] = Parsed (demo_args ''scale'' 2) \<and>
   world (snd (sdmpm_main demo_env [''--user'', ''scale'', ''worker'', ''2''] (demo_at [] [] False))) False =
     world (demo_at [] [] False) False"
proof -
  have p: "parse_args [''--user'', ''scale'', ''worker'', ''2''] = Parsed (demo_args ''scale'' 2)" by code_simp
  have u: "a_user (demo_args ''scale'' 2)" by (simp add: demo_args_def)
  show ?thesis unfolding demo_env_def using user_run_keeps_system [OF p u] p by simp
qed

lemma demo_12_hyps:
  "svc_ok ''worker''"
  "''worker'' @ ''@.service'' \<in> set (unit_files (world (demo_state [''worker@1.service'', ''worker@2.service'']) True))"
  "finite (active (world (demo_state [''worker@1.service'', ''worker@2.service'']) True))"
  "running ''worker'' (world (demo_state [''worker@1.service'', ''worker@2.service'']) True) =
   unit_of ''worker'' ` {1..int 2}"
proof -
  show "svc_ok ''worker''" by (simp add: svc_ok_def py_isspace_def)
  show "''worker'' @ ''@.service'' \<in> set (unit_files (world (demo_state [''worker@1.service'', ''worker@2.service'']) True))"
    by (simp add: demo_state_def demo_world_def)
  show "finite (active (world (demo_state [''worker@1.service'', ''worker@2.service'']) True))"
    by (simp add: demo_state_def demo_world_def)
  have i: "{1..int 2} = {1, 2}" by auto
  show "running ''worker'' (world (demo_state [''worker@1.service'', ''worker@2.service'']) True) =
        unit_of ''worker'' ` {1..int 2}"
    unfolding i running_filter by code_simp
qed

theorem scale_race_lost_update_witness:
  "fst (run_schedule demo_env (''worker'', 1, True) (''worker'', 3, True) [True, False, True, False]
         (Observe, Observe, demo_state [''worker@1.service'', ''worker@2.service''])) = Finished \<and>
   card (running ''worker'' (world (snd (snd (run_schedule demo_env (''worker'', 1, True) (''worker'', 3, True)
         [True, False, True, False] (Observe, Observe, demo_state [''worker@1.service'', ''worker@2.service''])))) True)) = 2 \<and>
   running ''worker'' (world (snd (snd (run_schedule demo_env (''worker'', 1, True) (''worker'', 3, True)
         [True, True, False, False] (Observe, Observe, demo_state [''worker@1.service'', ''worker@2.service''])))) True) =
     unit_of ''worker'' ` {1..3}"
  using scale_race_lost_update [OF demo_12_hyps, of 1 3 "''/home/u''"] unfolding demo_env_def by simp

text \<open>
  C9. Convergence needs a contiguous start: when more instances run than asked for
  but not all of \<open>1..n\<close> are among them, one \<^verbatim>\<open>scale\<close> returns normally and
  leaves fewer than \<open>n\<close> instances running, since it disables the numbers outside
  \<open>1..n\<close> and starts none (the count decides the branch, line 100).
\<close>

theorem scale_noncontiguous_short:
  assumes ok: "svc_ok svc" and hf: "svc @ ''@.service'' \<in> set (unit_files (world s user))"
    and fin: "finite (active (world s user))" and run: "running svc (world s user) = unit_of svc ` K"
    and finK: "finite K" and n: "0 \<le> n" and more: "n < int (card K)" and gap: "\<not> {1..n} \<subseteq> K"
  shows "fst (scale_service (sd_env h) svc n user s) = Inr () \<and>
         card (running svc (world (snd (scale_service (sd_env h) svc n user s)) user)) < nat n"
proof -
  obtain sc where w: "world (snd (scale_service (sd_env h) svc n user s)) = (world s)(user := sc)"
    and r: "running svc sc = unit_of svc ` apply_plan (scale_plan (card K) K n) K"
    and ret: "fst (scale_service (sd_env h) svc n user s) = Inr ()"
    using sd_scale_general [OF ok hf fin run finK n, of h] by blast
  have ap: "apply_plan (scale_plan (card K) K n) K = K \<inter> {1..n}"
    using more by (auto simp: scale_plan_def apply_plan_def)
  have "card (K \<inter> {1..n}) < card {1..n}"
    using gap by (intro psubset_card_mono) auto
  then have "card (unit_of svc ` (K \<inter> {1..n})) < nat n"
    using inj_unit_of [OF ok] n by (simp add: card_image inj_on_subset)
  then show ?thesis using w r ap ret by simp
qed

theorem scale_noncontiguous_short_witness:
  "fst (scale_service demo_env ''worker'' 2 True
         (demo_state [''worker@2.service'', ''worker@3.service'', ''worker@4.service''])) = Inr () \<and>
   card (running ''worker'' (world (snd (scale_service demo_env ''worker'' 2 True
         (demo_state [''worker@2.service'', ''worker@3.service'', ''worker@4.service'']))) True)) < 2"
proof -
  have "(2::int) < int (card {2, 3, 4 :: int})" by simp
  moreover have "\<not> {1..2::int} \<subseteq> {2, 3, 4}"
  proof
    assume A: "{1..2::int} \<subseteq> {2, 3, 4}"
    have "(1::int) \<in> {2, 3, 4}" using A by (rule subsetD) simp
    then show False by simp
  qed
  ultimately show ?thesis
    unfolding demo_env_def using scale_noncontiguous_short [OF demo_234_hyps, of 2] by simp
qed

text \<open>
  C24. The whole process on the command line, for any valid template and either
  scope: \<^verbatim>\<open>sdmpm.py [--user] scale svc n\<close> with the instances \<open>1..m\<close> running
  passes \<^verbatim>\<open>argparse\<close>, exits 0 and leaves exactly \<open>1..n\<close> running, for every
  \<open>n \<ge> 0\<close>; \<^verbatim>\<open>sdmpm.py [--user] scale svc -- --\<close> also passes \<^verbatim>\<open>argparse\<close>,
  which sets \<^verbatim>\<open>num_procs\<close> to an empty list, and exits 1 with the traceback of the
  \<^verbatim>\<open>ValueError\<close> of line 92, having called nothing.
\<close>

theorem cli_scale_runs:
  assumes ok: "svc_ok svc" and hf: "svc @ ''@.service'' \<in> set (unit_files (world s u))"
    and fin: "finite (active (world s u))" and run: "running svc (world s u) = unit_of svc ` {1..int m}"
    and n: "0 \<le> n"
  shows "fst (sdmpm_main (sd_env h) ((if u then [''--user''] else []) @ [''scale'', svc, py_str_int n]) s) = 0 \<and>
         running svc (world (snd (sdmpm_main (sd_env h) ((if u then [''--user''] else []) @ [''scale'', svc, py_str_int n]) s)) u) =
           unit_of svc ` {1..n} \<and>
         sdmpm_main (sd_env h) ((if u then [''--user''] else []) @ [''scale'', svc, ''--'', ''--'']) s =
           (1, s\<lparr>out := out s @ [''Traceback: ValueError'']\<rparr>)"
proof -
  have sc: "''scale'' \<in> set sub_commands" by (simp add: sub_commands_def)
  have pos: "classify_arg False svc = OPos" "svc \<noteq> ''--''" using ok by (auto simp: svc_ok_def)
  have p1: "parse_args ((if u then [''--user''] else []) @ [''scale'', svc, py_str_int n]) =
      Parsed \<lparr>a_user = u, a_cmd = Some ''scale'', a_service = svc, a_num_procs = PyInt n\<rparr>"
    using parse_args_sub [OF sc pos, of "PyInt n" u] by simp
  have p2: "parse_args ((if u then [''--user''] else []) @ [''scale'', svc, ''--'', ''--'']) =
      Parsed \<lparr>a_user = u, a_cmd = Some ''scale'', a_service = svc, a_num_procs = PyEmptyList\<rparr>"
    using parse_args_sub [OF sc pos, of PyEmptyList u] by simp
  obtain s' where r: "scale_service (sd_env h) svc n u s = (Inr (), s')"
    using sd_scale_step(1) [OF ok hf fin run n, of h] by (metis prod.collapse)
  obtain sc' where "world s' = (world s)(u := sc')" and "running svc sc' = unit_of svc ` {1..n}"
    using sd_scale_step(2) [OF ok hf fin run n, of h] r by auto
  then have rs: "running svc (world s' u) = unit_of svc ` {1..n}" by simp
  show ?thesis
    using p1 p2 r rs
    by (simp add: sdmpm_main_def main_def main_dispatch_def scale_service_arg_def raiseE_def exc_name_def)
qed

theorem cli_scale_runs_witness:
  "fst (sdmpm_main demo_env [''--user'', ''scale'', ''worker'', ''2''] (demo_at [] [] False)) = 0 \<and>
   running ''worker'' (world (snd (sdmpm_main demo_env [''--user'', ''scale'', ''worker'', ''2''] (demo_at [] [] False))) True) =
     unit_of ''worker'' ` {1..2}"
proof -
  have "py_str_int 2 = ''2''" by code_simp
  then show ?thesis
    unfolding demo_env_def using cli_scale_runs [OF demo_fresh_hyps, of 2 "''/home/u''"] by simp
qed

end
